theory Spec2Isabelle
  imports Main "HOL-Library.AList"
begin

section \<open>Python containers and errors\<close>

text \<open>
  A Python \<^verbatim>\<open>dict\<close> and a \<^verbatim>\<open>collections.OrderedDict\<close> keep their items in insertion
  order and hold every key once.  Both are modelled as association lists whose head is
  the oldest item: \<^verbatim>\<open>k in d\<close> is \<open>k \<in> fst ` set d\<close>, \<^verbatim>\<open>d[k]\<close> is \<open>map_of d k\<close>,
  \<^verbatim>\<open>d[k] = v\<close> is \<open>AList.update k v d\<close> (an existing key keeps its place, a new key goes
  to the end) and \<^verbatim>\<open>len(d)\<close> is \<open>length d\<close>.  Operations that raise in Python return
  \<open>Inl\<close> of the exception.
\<close>

datatype py_error = KeyError | IndexError | LoggingError

type_synonym ('k, 'v) py_dict = "('k \<times> 'v) list"

definition dict_del :: "'k \<Rightarrow> ('k, 'v) py_dict \<Rightarrow> py_error + ('k, 'v) py_dict" where
  \<comment> \<open>\<^verbatim>\<open>del d[k]\<close>\<close>
  "dict_del k d = (if k \<in> fst ` set d then Inr (AList.delete k d) else Inl KeyError)"

definition move_to_end :: "'k \<Rightarrow> ('k, 'v) py_dict \<Rightarrow> py_error + ('k, 'v) py_dict" where
  \<comment> \<open>\<^verbatim>\<open>OrderedDict.move_to_end(k)\<close>: the item becomes the last one\<close>
  "move_to_end k d =
     (case map_of d k of
        None \<Rightarrow> Inl KeyError
      | Some v \<Rightarrow> Inr (AList.delete k d @ [(k, v)]))"

definition popitem_first :: "('k, 'v) py_dict \<Rightarrow> py_error + (('k \<times> 'v) \<times> ('k, 'v) py_dict)" where
  \<comment> \<open>\<^verbatim>\<open>OrderedDict.popitem(last=False)\<close>: removes and returns the first item\<close>
  "popitem_first d = (case d of [] \<Rightarrow> Inl KeyError | kv # rest \<Rightarrow> Inr (kv, rest))"

section \<open>TTS and translation caches\<close>

definition MAX_CACHE_SIZE :: nat where
  "MAX_CACHE_SIZE = 500"

definition MAX_TRANSLATION_CACHE_SIZE :: nat where
  "MAX_TRANSLATION_CACHE_SIZE = 1000"

text \<open>
  \<^verbatim>\<open>get_from_cache(cache_key)\<close>: on a hit the key is moved to the end and its value returned,
  on a miss the result is \<^verbatim>\<open>None\<close> and the cache is left alone.  The global
  \<^verbatim>\<open>tts_cache\<close> is passed in and returned.
\<close>

definition get_from_cache ::
  "'k \<Rightarrow> ('k, 'v) py_dict \<Rightarrow> py_error + ('v option \<times> ('k, 'v) py_dict)" where
  "get_from_cache cache_key tts_cache =
     (if cache_key \<in> fst ` set tts_cache then
        (case move_to_end cache_key tts_cache of
           Inl e \<Rightarrow> Inl e
         | Inr c \<Rightarrow>
             (case map_of c cache_key of
                None \<Rightarrow> Inl KeyError
              | Some v \<Rightarrow> Inr (Some v, c)))
      else Inr (None, tts_cache))"

text \<open>
  \<^verbatim>\<open>add_to_cache(cache_key, data)\<close>: an existing key is only moved to the end; a new key is
  stored after the first item has been popped when the cache already holds
  \<^verbatim>\<open>MAX_CACHE_SIZE\<close> items.
\<close>

definition add_to_cache ::
  "'k \<Rightarrow> 'v \<Rightarrow> ('k, 'v) py_dict \<Rightarrow> py_error + ('k, 'v) py_dict" where
  "add_to_cache cache_key data tts_cache =
     (if cache_key \<in> fst ` set tts_cache then move_to_end cache_key tts_cache
      else if length tts_cache \<ge> MAX_CACHE_SIZE then
        (case popitem_first tts_cache of
           Inl e \<Rightarrow> Inl e
         | Inr (_, c) \<Rightarrow> Inr (AList.update cache_key data c))
      else Inr (AList.update cache_key data tts_cache))"

definition get_from_translation_cache ::
  "'k \<Rightarrow> ('k, 'v) py_dict \<Rightarrow> py_error + ('v option \<times> ('k, 'v) py_dict)" where
  "get_from_translation_cache cache_key translation_cache =
     (if cache_key \<in> fst ` set translation_cache then
        (case move_to_end cache_key translation_cache of
           Inl e \<Rightarrow> Inl e
         | Inr c \<Rightarrow>
             (case map_of c cache_key of
                None \<Rightarrow> Inl KeyError
              | Some v \<Rightarrow> Inr (Some v, c)))
      else Inr (None, translation_cache))"

definition add_to_translation_cache ::
  "'k \<Rightarrow> 'v \<Rightarrow> ('k, 'v) py_dict \<Rightarrow> py_error + ('k, 'v) py_dict" where
  "add_to_translation_cache cache_key translated_text translation_cache =
     (if cache_key \<in> fst ` set translation_cache then move_to_end cache_key translation_cache
      else if length translation_cache \<ge> MAX_TRANSLATION_CACHE_SIZE then
        (case popitem_first translation_cache of
           Inl e \<Rightarrow> Inl e
         | Inr (_, c) \<Rightarrow> Inr (AList.update cache_key translated_text c))
      else Inr (AList.update cache_key translated_text translation_cache))"

text \<open>
  A client of a cache issues lookups and stores.  \<open>run_cache\<close> threads one cache through a
  list of such requests, with the lookup and the store of that cache as parameters, and
  stops at the first exception.
\<close>

datatype ('k, 'v) cache_op = Get 'k | Put 'k 'v

fun run_cache ::
  "('k \<Rightarrow> ('k, 'v) py_dict \<Rightarrow> py_error + ('v option \<times> ('k, 'v) py_dict)) \<Rightarrow>
   ('k \<Rightarrow> 'v \<Rightarrow> ('k, 'v) py_dict \<Rightarrow> py_error + ('k, 'v) py_dict) \<Rightarrow>
   ('k, 'v) cache_op list \<Rightarrow> ('k, 'v) py_dict \<Rightarrow> py_error + ('k, 'v) py_dict" where
  "run_cache lookup store [] c = Inr c"
| "run_cache lookup store (Get k # ops) c =
     (case lookup k c of Inl e \<Rightarrow> Inl e | Inr (_, c') \<Rightarrow> run_cache lookup store ops c')"
| "run_cache lookup store (Put k v # ops) c =
     (case store k v c of Inl e \<Rightarrow> Inl e | Inr c' \<Rightarrow> run_cache lookup store ops c')"

text \<open>
  The specification of a least-recently-used store of capacity \<open>cap\<close>, in the words of the
  design: the store holds the \<open>cap\<close> most recently accessed keys, ordered by the time of
  their last access.  \<open>access_log\<close> extends a log of accesses by the requests: every store
  is an access, a lookup is one when the key is among the keys held.  The keys held
  after a log \<open>h\<close> are \<open>lru_keys cap h\<close>, least recently accessed first.
\<close>

definition last_n :: "nat \<Rightarrow> 'a list \<Rightarrow> 'a list" where
  "last_n n xs = drop (length xs - n) xs"

definition lru_keys :: "nat \<Rightarrow> 'k list \<Rightarrow> 'k list" where
  "lru_keys cap h = last_n cap (remdups h)"

fun access_log :: "nat \<Rightarrow> ('k, 'v) cache_op list \<Rightarrow> 'k list \<Rightarrow> 'k list" where
  "access_log cap [] h = h"
| "access_log cap (Get k # ops) h =
     (if k \<in> set (lru_keys cap h) then access_log cap ops (h @ [k]) else access_log cap ops h)"
| "access_log cap (Put k v # ops) h = access_log cap ops (h @ [k])"

text \<open>
  Both stores share one shape; \<open>bounded_put\<close> is that shape with the capacity as a
  parameter, used to reason about the two of them at once.
\<close>

definition bounded_put ::
  "nat \<Rightarrow> 'k \<Rightarrow> 'v \<Rightarrow> ('k, 'v) py_dict \<Rightarrow> py_error + ('k, 'v) py_dict" where
  "bounded_put cap k v c =
     (if k \<in> fst ` set c then move_to_end k c
      else if length c \<ge> cap then
        (case popitem_first c of
           Inl e \<Rightarrow> Inl e
         | Inr (_, c') \<Rightarrow> Inr (AList.update k v c'))
      else Inr (AList.update k v c))"

section \<open>Values, time and randomness\<close>

text \<open>
  Strings are byte strings: a character outside ASCII is written as its UTF-8 bytes.
  Request and response bodies are JSON values; \<open>JTime\<close> stands for the ISO string of a
  \<^verbatim>\<open>datetime\<close>.  A \<^verbatim>\<open>datetime\<close> is a number of microseconds, and
  \<^verbatim>\<open>timedelta(hours=h)\<close> is \<open>timedelta_hours h\<close>.
\<close>

datatype json =
    JNull
  | JBool bool
  | JInt int
  | JStr string
  | JTime int
  | JList "json list"
  | JObj "(string \<times> json) list"

definition timedelta_hours :: "int \<Rightarrow> int" where
  "timedelta_hours h = h * 3600 * 1000000"

text \<open>
  The module \<^verbatim>\<open>random\<close> is a sequence \<open>draw\<close> of raw natural numbers and a position in
  it; each call reads the numbers it needs from the position on and reduces each to the
  range asked for.  \<^verbatim>\<open>random.choices(population, k=k)\<close> picks \<open>k\<close> items with
  replacement, \<^verbatim>\<open>random.randint(a, b)\<close> picks a number from \<open>a\<close> to \<open>b\<close> inclusive.
\<close>

definition choices :: "'a list \<Rightarrow> nat \<Rightarrow> (nat \<Rightarrow> nat) \<Rightarrow> nat \<Rightarrow> 'a list" where
  "choices population k draw pos =
     map (\<lambda>i. population ! (draw i mod length population)) [pos..<pos + k]"

definition randint :: "nat \<Rightarrow> nat \<Rightarrow> (nat \<Rightarrow> nat) \<Rightarrow> nat \<Rightarrow> nat" where
  "randint a b draw pos = a + draw pos mod (b - a + 1)"

definition py_index :: "'a list \<Rightarrow> nat \<Rightarrow> py_error + 'a" where
  \<comment> \<open>\<^verbatim>\<open>xs[i]\<close> for \<open>i \<ge> 0\<close>\<close>
  "py_index xs i = (if i < length xs then Inr (xs ! i) else Inl IndexError)"

definition digit_char :: "nat \<Rightarrow> char" where
  "digit_char n = char_of (48 + n)"

function py_str :: "nat \<Rightarrow> string" where
  \<comment> \<open>\<^verbatim>\<open>str(n)\<close> for \<open>n \<ge> 0\<close>\<close>
  "py_str n = (if n < 10 then [digit_char n] else py_str (n div 10) @ [digit_char (n mod 10)])"
  by pat_completeness auto
termination
  by (relation "measure id") auto

declare py_str.simps [simp del]

section \<open>Session management\<close>

definition SESSION_CODE_LENGTH :: nat where
  "SESSION_CODE_LENGTH = 6"

definition SESSION_TIMEOUT_HOURS :: int where
  "SESSION_TIMEOUT_HOURS = 3"

definition ANONYMOUS_ANIMALS :: "(string \<times> string) list" where
  "ANONYMOUS_ANIMALS =
    [([CHR 0xF0, CHR 0x9F, CHR 0xA6, CHR 0x8A], ''Fuchs''),
     ([CHR 0xF0, CHR 0x9F, CHR 0x90, CHR 0xBB], ''B'' @ [CHR 0xC3, CHR 0xA4] @ ''r''),
     ([CHR 0xF0, CHR 0x9F, CHR 0xA6, CHR 0x81], ''L'' @ [CHR 0xC3, CHR 0xB6] @ ''we''),
     ([CHR 0xF0, CHR 0x9F, CHR 0x90, CHR 0xAF], ''Tiger''),
     ([CHR 0xF0, CHR 0x9F, CHR 0xA6, CHR 0x8B], ''Schmetterling''),
     ([CHR 0xF0, CHR 0x9F, CHR 0x90, CHR 0xA2], ''Schildkr'' @ [CHR 0xC3, CHR 0xB6] @ ''te''),
     ([CHR 0xF0, CHR 0x9F, CHR 0xA6, CHR 0x89], ''Eule''),
     ([CHR 0xF0, CHR 0x9F, CHR 0x90, CHR 0xAC], ''Delfin''),
     ([CHR 0xF0, CHR 0x9F, CHR 0xA6, CHR 0x85], ''Adler''),
     ([CHR 0xF0, CHR 0x9F, CHR 0x90, CHR 0xBA], ''Wolf''),
     ([CHR 0xF0, CHR 0x9F, CHR 0xA6, CHR 0x8C], ''Hirsch''),
     ([CHR 0xF0, CHR 0x9F, CHR 0x90, CHR 0x98], ''Elefant''),
     ([CHR 0xF0, CHR 0x9F, CHR 0xA6, CHR 0x92], ''Giraffe''),
     ([CHR 0xF0, CHR 0x9F, CHR 0x90, CHR 0xBC], ''Panda''),
     ([CHR 0xF0, CHR 0x9F, CHR 0xA6, CHR 0x9C], ''Papagei''),
     ([CHR 0xF0, CHR 0x9F, CHR 0x90, CHR 0xA8], ''Koala''),
     ([CHR 0xF0, CHR 0x9F, CHR 0xA6, CHR 0xA9], ''Flamingo''),
     ([CHR 0xF0, CHR 0x9F, CHR 0x90, CHR 0xB8], ''Frosch''),
     ([CHR 0xF0, CHR 0x9F, CHR 0xA6, CHR 0x94], ''Igel''),
     ([CHR 0xF0, CHR 0x9F, CHR 0x90, CHR 0xBF, CHR 0xEF, CHR 0xB8, CHR 0x8F], ''Eichh'' @ [CHR 0xC3, CHR 0xB6] @ ''rnchen''),
     ([CHR 0xF0, CHR 0x9F, CHR 0xA6, CHR 0xAD], ''Robbe''),
     ([CHR 0xF0, CHR 0x9F, CHR 0x90, CHR 0xA7], ''Pinguin''),
     ([CHR 0xF0, CHR 0x9F, CHR 0xA6, CHR 0x9A], ''Pfau''),
     ([CHR 0xF0, CHR 0x9F, CHR 0x90, CHR 0x9D], ''Biene''),
     ([CHR 0xF0, CHR 0x9F, CHR 0xA6, CHR 0x8E], ''Eidechse''),
     ([CHR 0xF0, CHR 0x9F, CHR 0x90, CHR 0x99], ''Oktopus''),
     ([CHR 0xF0, CHR 0x9F, CHR 0xA6, CHR 0x80], ''Krabbe''),
     ([CHR 0xF0, CHR 0x9F, CHR 0x90, CHR 0x8C], ''Schnecke'')]"

text \<open>
  The bundle \<^verbatim>\<open>keys\<close> of a session.  \<^verbatim>\<open>stt_provider\<close> is set only when the session is
  created over the socket, so it is optional.
\<close>

record keys =
  elevenlabs :: string
  ai :: string
  ai_provider :: string
  voice_id :: string
  stt_provider :: "string option"

text \<open>
  One entry of \<^verbatim>\<open>session['students']\<close>.  \<open>animal_index\<close> is optional because
  \<^verbatim>\<open>get_anonymous_name\<close> tests for the key.
\<close>

record student =
  joined :: int
  name :: "string option"
  animal_index :: "nat option"
  animal_emoji :: string
  animal_name :: string
  anonymous_id :: string

record translation_request =
  language :: string
  language_name :: string
  status :: string
  tr_anonymous_id :: string
  requested_at :: int
  translated_text :: "string option"

record student_level =
  level :: string
  lv_anonymous_id :: "string option"
  timestamp :: int

text \<open>
  A session as \<^verbatim>\<open>create_session\<close> builds it; \<open>session_text\<close> is its \<^verbatim>\<open>text\<close>.  \<^verbatim>\<open>settings\<close> is absent until the teacher
  sends settings.
\<close>

record session =
  keys :: keys
  teacher_sid :: "string option"
  created :: int
  expires :: int
  students :: "(string, student) py_dict"
  session_text :: string
  pin :: string
  tasks :: "json list"
  tasks_available :: bool
  translation_requests :: "(string, translation_request) py_dict"
  simplification_enabled :: bool
  student_levels :: "(string, student_level) py_dict"
  settings :: "json option"

type_synonym registry = "(string, session) py_dict"

text \<open>
  \<^verbatim>\<open>get_anonymous_name(session_code, student_sid)\<close>.  \<open>used_indices\<close> is the set the
  first loop collects: the \<^verbatim>\<open>animal_index\<close> of every student that has one.  The second
  loop returns the first index of the catalogue outside that set.  The result carries
  the position of the random source after the call.
\<close>

definition used_indices :: "session \<Rightarrow> nat set" where
  "used_indices s =
     set (List.map_filter (\<lambda>(sid, student_data). animal_index student_data) (students s))"

definition get_anonymous_name ::
  "(nat \<Rightarrow> nat) \<Rightarrow> nat \<Rightarrow> string \<Rightarrow> string \<Rightarrow> registry \<Rightarrow>
   py_error + ((nat \<times> string \<times> string) \<times> nat)" where
  "get_anonymous_name draw pos session_code student_sid sessions =
     (case map_of sessions session_code of
        Some s \<Rightarrow>
          (case find (\<lambda>i. i \<notin> used_indices s) [0..<length ANONYMOUS_ANIMALS] of
                Some i \<Rightarrow>
                  (case py_index ANONYMOUS_ANIMALS i of
                     Inl e \<Rightarrow> Inl e
                   | Inr a \<Rightarrow> Inr ((i, a), pos))
              | None \<Rightarrow>
                  (let idx = randint 0 (length ANONYMOUS_ANIMALS - 1) draw pos
                   in case py_index ANONYMOUS_ANIMALS idx of
                        Inl e \<Rightarrow> Inl e
                      | Inr (emoji, a_name) \<Rightarrow>
                          Inr ((idx, (emoji, a_name @ '' '' @ py_str (length (students s) + 1))),
                               pos + 1)))
      | None \<Rightarrow>
          (case py_index ANONYMOUS_ANIMALS 0 of
             Inl e \<Rightarrow> Inl e
           | Inr a \<Rightarrow> Inr ((0, a), pos)))"

definition chars :: string where
  "chars = ''ABCDEFGHJKLMNPQRSTUVWXYZ23456789''"

text \<open>
  \<^verbatim>\<open>generate_session_code()\<close>: the loop draws codes until one is not a key of
  \<^verbatim>\<open>sessions\<close>.  It need not end, so the result is optional: \<open>None\<close> is the loop that runs
  for ever.
\<close>

partial_function (option) generate_session_code ::
  "(nat \<Rightarrow> nat) \<Rightarrow> nat \<Rightarrow> registry \<Rightarrow> (string \<times> nat) option" where
  "generate_session_code draw pos sessions =
     (let code = choices chars SESSION_CODE_LENGTH draw pos
      in if code \<notin> fst ` set sessions then Some (code, pos + SESSION_CODE_LENGTH)
         else generate_session_code draw (pos + SESSION_CODE_LENGTH) sessions)"

text \<open>
  \<^verbatim>\<open>create_session(teacher_sid, keys, pin)\<close>.  The clock is read twice, for \<^verbatim>\<open>created\<close>
  (\<open>now_created\<close>) and then for \<^verbatim>\<open>expires\<close> (\<open>now_expires\<close>).
\<close>

definition new_session :: "string option \<Rightarrow> keys \<Rightarrow> string \<Rightarrow> int \<Rightarrow> int \<Rightarrow> session" where
  "new_session t_sid ks p now_created now_expires =
     \<lparr> keys = ks,
       teacher_sid = t_sid,
       created = now_created,
       expires = now_expires + timedelta_hours SESSION_TIMEOUT_HOURS,
       students = [],
       session_text = '''',
       pin = p,
       tasks = [],
       tasks_available = False,
       translation_requests = [],
       simplification_enabled = False,
       student_levels = [],
       settings = None \<rparr>"

text \<open>The code drawn in round \<open>n\<close> of the loop of \<^verbatim>\<open>generate_session_code\<close> started at \<open>pos\<close>.\<close>

abbreviation attempt :: "(nat \<Rightarrow> nat) \<Rightarrow> nat \<Rightarrow> nat \<Rightarrow> string" where
  "attempt draw pos n \<equiv> choices chars SESSION_CODE_LENGTH draw (pos + SESSION_CODE_LENGTH * n)"

text \<open>
  \<^verbatim>\<open>create_session\<close> takes \<^verbatim>\<open>sessions_lock\<close> twice: inside \<^verbatim>\<open>generate_session_code\<close> for the
  test \<^verbatim>\<open>code not in sessions\<close>, and again for the assignment \<^verbatim>\<open>sessions[code] = {...}\<close>.
  Between the two the lock is free and other requests run: \<open>between\<close> is what they do, from
  the position of the random source and the sessions that \<^verbatim>\<open>generate_session_code\<close> left,
  to what they have sent (\<open>seen\<close>) and the position and the sessions they leave; \<open>None\<close> when
  they never return.  The assignment is made on the sessions they leave.  The result is the
  code, \<open>seen\<close>, the position and the sessions after the assignment.
\<close>

definition create_session ::
  "(nat \<Rightarrow> nat) \<Rightarrow> nat \<Rightarrow> (nat \<times> registry \<Rightarrow> ('a \<times> nat \<times> registry) option) \<Rightarrow>
   int \<Rightarrow> int \<Rightarrow> string option \<Rightarrow> keys \<Rightarrow> string \<Rightarrow> registry \<Rightarrow>
   (string \<times> 'a \<times> nat \<times> registry) option" where
  "create_session draw pos between now_created now_expires t_sid ks p sessions =
     (case generate_session_code draw pos sessions of
        None \<Rightarrow> None
      | Some (code, pos') \<Rightarrow>
          (case between (pos', sessions) of
             None \<Rightarrow> None
           | Some (seen, pos'', sessions'') \<Rightarrow>
               Some (code, seen, pos'',
                     AList.update code (new_session t_sid ks p now_created now_expires)
                       sessions'')))"



text \<open>
  \<^verbatim>\<open>get_session(code)\<close> returns the session, or \<^verbatim>\<open>None\<close> after deleting an expired one.
  The \<^verbatim>\<open>del\<close> runs under the test \<^verbatim>\<open>code in sessions\<close> and cannot raise.
\<close>

definition get_session :: "int \<Rightarrow> string \<Rightarrow> registry \<Rightarrow> session option \<times> registry" where
  "get_session now code sessions =
     (case map_of sessions code of
        Some s \<Rightarrow>
          (if now < expires s then (Some s, sessions)
           else (None, AList.delete code sessions))
      | None \<Rightarrow> (None, sessions))"

definition get_session_keys :: "int \<Rightarrow> string \<Rightarrow> registry \<Rightarrow> keys option \<times> registry" where
  "get_session_keys now code sessions =
     (case get_session now code sessions of
        (Some s, sessions') \<Rightarrow> (Some (keys s), sessions')
      | (None, sessions') \<Rightarrow> (None, sessions'))"

definition end_session :: "string \<Rightarrow> registry \<Rightarrow> bool \<times> registry" where
  "end_session code sessions =
     (if code \<in> fst ` set sessions then (True, AList.delete code sessions)
      else (False, sessions))"

text \<open>
  \<^verbatim>\<open>add_student_to_session(code, student_sid, student_name)\<close>: the name is allocated first,
  then the student is stored if the session is there.
\<close>

definition add_student_to_session ::
  "(nat \<Rightarrow> nat) \<Rightarrow> nat \<Rightarrow> int \<Rightarrow> string \<Rightarrow> string \<Rightarrow> string option \<Rightarrow> registry \<Rightarrow>
   py_error + ((student option \<times> nat) \<times> registry)" where
  "add_student_to_session draw pos now code student_sid student_name sessions =
     (case get_anonymous_name draw pos code student_sid sessions of
        Inl e \<Rightarrow> Inl e
      | Inr ((index, emoji, a_name), pos') \<Rightarrow>
          (case map_of sessions code of
             Some s \<Rightarrow>
               (let st = \<lparr> joined = now,
                           name = student_name,
                           animal_index = Some index,
                           animal_emoji = emoji,
                           animal_name = a_name,
                           anonymous_id = emoji @ '' '' @ a_name \<rparr>
                in Inr ((Some st, pos'),
                        AList.update code
                          (s\<lparr>students := AList.update student_sid st (students s)\<rparr>) sessions))
           | None \<Rightarrow> Inr ((None, pos'), sessions)))"

definition remove_student_from_session :: "string \<Rightarrow> string \<Rightarrow> registry \<Rightarrow> bool \<times> registry" where
  "remove_student_from_session code student_sid sessions =
     (case map_of sessions code of
        Some s \<Rightarrow>
          (if student_sid \<in> fst ` set (students s)
           then (True, AList.update code
                         (s\<lparr>students := AList.delete student_sid (students s)\<rparr>) sessions)
           else (False, sessions))
      | None \<Rightarrow> (False, sessions))"

definition get_student_count :: "int \<Rightarrow> string \<Rightarrow> registry \<Rightarrow> nat \<times> registry" where
  "get_student_count now code sessions =
     (case get_session now code sessions of
        (Some s, sessions') \<Rightarrow> (length (students s), sessions')
      | (None, sessions') \<Rightarrow> (0, sessions'))"

text \<open>
  \<^verbatim>\<open>cleanup_expired_sessions()\<close>: the comprehension reads the clock once for each session,
  \<open>nows i\<close> for the \<open>i\<close>-th one; then every expired code is deleted and logged.  The
  deletions cannot raise, the codes being keys read under the same lock.  The logger is
  outside this program: \<open>logger\<close> tells for each message whether the call raises.  An
  exception leaves the sessions as they are at that moment.
\<close>

fun delete_and_log ::
  "(string \<Rightarrow> py_error option) \<Rightarrow> string list \<Rightarrow> registry \<Rightarrow> py_error option \<times> registry" where
  "delete_and_log logger [] sessions = (None, sessions)"
| "delete_and_log logger (code # expired) sessions =
     (let sessions' = AList.delete code sessions
      in case logger (''Session '' @ code @ '' expired and cleaned up'') of
           Some e \<Rightarrow> (Some e, sessions')
         | None \<Rightarrow> delete_and_log logger expired sessions')"

definition cleanup_expired_sessions ::
  "(string \<Rightarrow> py_error option) \<Rightarrow> (nat \<Rightarrow> int) \<Rightarrow> registry \<Rightarrow> py_error option \<times> registry" where
  "cleanup_expired_sessions logger nows sessions =
     (let expired = map (\<lambda>(i, code, s). code)
                      (filter (\<lambda>(i, code, s). nows i \<ge> expires s)
                         (zip [0..<length sessions] sessions))
      in delete_and_log logger expired sessions)"

text \<open>
  \<^verbatim>\<open>session_cleanup_thread()\<close>: sleep, sweep, for ever.  Round \<open>i\<close> of the loop meets the
  logger \<open>logger i\<close> and the clock \<open>nows i\<close>; while the thread sleeps the other threads
  change the sessions by \<open>others i\<close>.  The loop has no exit of its own: it returns only
  when a sweep raises, with the exception, the round and the sessions left, and \<open>None\<close> is
  the loop that runs for ever.
\<close>

partial_function (option) session_cleanup_thread ::
  "(nat \<Rightarrow> string \<Rightarrow> py_error option) \<Rightarrow> (nat \<Rightarrow> nat \<Rightarrow> int) \<Rightarrow> (nat \<Rightarrow> registry \<Rightarrow> registry) \<Rightarrow>
   nat \<Rightarrow> registry \<Rightarrow> (py_error \<times> nat \<times> registry) option" where
  "session_cleanup_thread logger nows others i sessions =
     (case cleanup_expired_sessions (logger i) (nows i) (others i sessions) of
        (Some e, sessions') \<Rightarrow> Some (e, i, sessions')
      | (None, sessions') \<Rightarrow> session_cleanup_thread logger nows others (i + 1) sessions')"

text \<open>
  The sessions that round \<open>i\<close> of the sweep loop starts from, when no earlier round raised.
\<close>

fun sessions_at ::
  "(nat \<Rightarrow> string \<Rightarrow> py_error option) \<Rightarrow> (nat \<Rightarrow> nat \<Rightarrow> int) \<Rightarrow> (nat \<Rightarrow> registry \<Rightarrow> registry) \<Rightarrow>
   nat \<Rightarrow> registry \<Rightarrow> registry" where
  "sessions_at logger nows others 0 sessions = sessions"
| "sessions_at logger nows others (Suc i) sessions =
     snd (cleanup_expired_sessions (logger i) (nows i)
            (others i (sessions_at logger nows others i sessions)))"

definition sweep ::
  "(nat \<Rightarrow> string \<Rightarrow> py_error option) \<Rightarrow> (nat \<Rightarrow> nat \<Rightarrow> int) \<Rightarrow> (nat \<Rightarrow> registry \<Rightarrow> registry) \<Rightarrow>
   nat \<Rightarrow> registry \<Rightarrow> py_error option \<times> registry" where
  \<comment> \<open>round \<open>i\<close> of the loop\<close>
  "sweep logger nows others i sessions =
     cleanup_expired_sessions (logger i) (nows i)
       (others i (sessions_at logger nows others i sessions))"

text \<open>Inputs of the examples: a bundle of keys, clocks and loggers.\<close>

definition example_keys :: keys where
  "example_keys =
     \<lparr> elevenlabs = ''K1'', ai = ''K2'', ai_provider = ''openai'', voice_id = ''V1'',
       stt_provider = Some ''scribe'' \<rparr>"

definition failing_logger :: "nat \<Rightarrow> string \<Rightarrow> py_error option" where
  "failing_logger i msg = Some LoggingError"

definition quiet_logger :: "nat \<Rightarrow> string \<Rightarrow> py_error option" where
  "quiet_logger i msg = None"

definition fixed_clock :: "nat \<Rightarrow> nat \<Rightarrow> int" where
  "fixed_clock i j = 1"

definition nobody :: "nat \<Rightarrow> registry \<Rightarrow> registry" where
  "nobody i sessions = sessions"

definition repeat_draw :: "nat \<Rightarrow> nat" where
  \<comment> \<open>a random source whose \<open>n\<close>-th code is six times the \<open>n\<close>-th character of the alphabet\<close>
  "repeat_draw i = i div 6"


definition rising_clock :: "nat \<Rightarrow> nat \<Rightarrow> int" where
  \<comment> \<open>round \<open>i\<close> of the sweep loop runs at time \<open>2 i - 1\<close>\<close>
  "rising_clock i j = 2 * int i - 1"

definition other_keys :: keys where
  \<comment> \<open>other API keys, with the voice and the providers of \<open>example_keys\<close>\<close>
  "other_keys =
     \<lparr> elevenlabs = ''OTHER'', ai = ''SECRET'', ai_provider = ''openai'', voice_id = ''V1'',
       stt_provider = Some ''scribe'' \<rparr>"

definition example_session :: session where
  \<comment> \<open>a session of the teacher \<^verbatim>\<open>T\<close> with a text and a translation request of the student \<^verbatim>\<open>S1\<close>\<close>
  "example_session =
     (new_session (Some ''T'') example_keys '''' 0 0)
       \<lparr> session_text := ''Hallo'',
         translation_requests :=
           [(''S1'', \<lparr> language = ''en'', language_name = ''Englisch'', status = ''pending'',
                       tr_anonymous_id = ''Fuchs'', requested_at = 0, translated_text = None \<rparr>)] \<rparr>"


section \<open>Session API and socket events\<close>

text \<open>
  What a handler sends: the HTTP response \<^verbatim>\<open>jsonify(body), status\<close>, an \<^verbatim>\<open>emit(event, body)\<close>
  inside a socket handler, which goes to the calling connection, and a
  \<^verbatim>\<open>socketio.emit(event, body, room=room)\<close>, which goes to every connection of the room;
  \<^verbatim>\<open>send_file(buffer, mimetype=...)\<close> and \<^verbatim>\<open>render_template(name)\<close>.
  A handler takes the fields of the request after \<^verbatim>\<open>.upper().strip()\<close> and returns what
  it sends, in order, with the sessions it leaves.  \<open>sid\<close> is \<^verbatim>\<open>request.sid\<close>, the connection
  that sent a socket event; HTTP requests carry no connection.
\<close>

datatype sent =
    Response json nat
  | Emit string json
  | SocketioEmit string json string
  | SendFile string string
  | Rendered string

definition py_get :: "'a \<Rightarrow> 'a option \<Rightarrow> 'a" where
  \<comment> \<open>\<^verbatim>\<open>d.get(key, default)\<close> for a key that may be missing\<close>
  "py_get dflt v = (case v of None \<Rightarrow> dflt | Some x \<Rightarrow> x)"

definition truthy :: "string option \<Rightarrow> bool" where
  \<comment> \<open>the truth value of a string or \<^verbatim>\<open>None\<close>\<close>
  "truthy v = (case v of None \<Rightarrow> False | Some x \<Rightarrow> x \<noteq> [])"

definition DEFAULT_VOICE :: string where
  "DEFAULT_VOICE = ''21m00Tcm4TlvDq8ikWAM''"

definition GAST :: string where
  \<comment> \<open>the paw emoji (U+1F43E) and \<^verbatim>\<open>Gast\<close>\<close>
  "GAST = [CHR 0xF0, CHR 0x9F, CHR 0x90, CHR 0xBE] @ '' Gast''"

definition LANGUAGE_NAMES :: "(string, string) py_dict" where
  "LANGUAGE_NAMES =
     [(''tr'', ''T'' @ [CHR 0xC3, CHR 0xBC] @ ''rkisch''),
      (''bg'', ''Bulgarisch''),
      (''de'', ''Deutsch''),
      (''ar'', ''Arabisch''),
      (''uk'', ''Ukrainisch''),
      (''en'', ''Englisch'')]"

definition language_name_of :: "string \<Rightarrow> string" where
  \<comment> \<open>\<^verbatim>\<open>LANGUAGE_NAMES.get(language, language)\<close>\<close>
  "language_name_of lang = py_get lang (map_of LANGUAGE_NAMES lang)"

text \<open>The fields of a request that creates a session; a missing field is \<open>None\<close>.\<close>

record create_request =
  elevenlabs_key :: "string option"
  ai_key :: "string option"
  rq_ai_provider :: "string option"
  rq_voice_id :: "string option"
  rq_stt_provider :: "string option"
  rq_pin :: "string option"

definition not_found :: "string \<Rightarrow> sent" where
  "not_found msg = Response (JObj [(''error'', JStr msg)]) 404"

text \<open>
  \<^verbatim>\<open>api_create_session\<close>.  The result is optional because \<^verbatim>\<open>create_session\<close> may never
  return.  \<open>between\<close> is what other requests do and send while \<^verbatim>\<open>create_session\<close> has the
  lock free; what they send comes before the response.  The lookup of the new session
  can only miss when another thread removed it; the \<^verbatim>\<open>except\<close> branch then answers 500 with
  the text of the \<^verbatim>\<open>KeyError\<close>.
\<close>

definition api_create_session ::
  "(nat \<Rightarrow> nat) \<Rightarrow> nat \<Rightarrow> (nat \<times> registry \<Rightarrow> (sent list \<times> nat \<times> registry) option) \<Rightarrow>
   int \<Rightarrow> int \<Rightarrow> create_request \<Rightarrow> registry \<Rightarrow> (sent list \<times> nat \<times> registry) option" where
  "api_create_session draw pos between now_created now_expires data sessions =
     (let ks = \<lparr> elevenlabs = py_get '''' (elevenlabs_key data),
                  ai = py_get '''' (ai_key data),
                  ai_provider = py_get ''openai'' (rq_ai_provider data),
                  voice_id = py_get DEFAULT_VOICE (rq_voice_id data),
                  stt_provider = None \<rparr>
      in if elevenlabs ks = [] then
           Some ([Response (JObj [(''error'', JStr ''ElevenLabs API Key erforderlich'')]) 400],
                 pos, sessions)
         else
           (case create_session draw pos between now_created now_expires None ks '''' sessions of
              None \<Rightarrow> None
            | Some (code, seen, pos', sessions') \<Rightarrow>
                (case map_of sessions' code of
                   Some s \<Rightarrow>
                     Some (seen @
                           [Response (JObj [(''success'', JBool True),
                                            (''code'', JStr code),
                                            (''expires'', JTime (expires s))]) 200],
                           pos', sessions')
                 | None \<Rightarrow>
                     Some (seen @
                           [Response (JObj [(''error'', JStr ([CHR 0x27] @ code @ [CHR 0x27]))]) 500],
                           pos', sessions'))))"

definition api_join_session :: "int \<Rightarrow> string \<Rightarrow> registry \<Rightarrow> sent list \<times> registry" where
  "api_join_session now code sessions =
     (case get_session now code sessions of
        (None, sessions') \<Rightarrow> ([not_found ''Session nicht gefunden oder abgelaufen''], sessions')
      | (Some s, sessions') \<Rightarrow>
          ([Response (JObj [(''success'', JBool True),
                            (''code'', JStr code),
                            (''student_count'', JInt (int (length (students s))))]) 200],
           sessions'))"

definition api_end_session :: "string \<Rightarrow> registry \<Rightarrow> sent list \<times> registry" where
  "api_end_session code sessions =
     (case end_session code sessions of
        (True, sessions') \<Rightarrow>
          ([SocketioEmit ''session_ended''
              (JObj [(''message'', JStr ''Die Session wurde beendet.'')]) code,
            Response (JObj [(''success'', JBool True)]) 200],
           sessions')
      | (False, sessions') \<Rightarrow> ([not_found ''Session nicht gefunden''], sessions'))"

definition api_session_status :: "int \<Rightarrow> string \<Rightarrow> registry \<Rightarrow> sent list \<times> registry" where
  "api_session_status now code sessions =
     (case get_session now code sessions of
        (None, sessions') \<Rightarrow> ([not_found ''Session nicht gefunden''], sessions')
      | (Some s, sessions') \<Rightarrow>
          ([Response (JObj [(''code'', JStr code),
                            (''student_count'', JInt (int (length (students s)))),
                            (''created'', JTime (created s)),
                            (''expires'', JTime (expires s)),
                            (''has_text'', JBool (session_text s \<noteq> []))]) 200],
           sessions'))"

definition api_session_settings :: "int \<Rightarrow> string \<Rightarrow> registry \<Rightarrow> sent list \<times> registry" where
  "api_session_settings now code sessions =
     (case get_session now code sessions of
        (None, sessions') \<Rightarrow> ([not_found ''Session nicht gefunden''], sessions')
      | (Some s, sessions') \<Rightarrow>
          ([Response (JObj [(''code'', JStr code),
                            (''stt_provider'', JStr (py_get ''browser'' (stt_provider (keys s)))),
                            (''voice_id'', JStr (voice_id (keys s))),
                            (''has_elevenlabs'', JBool (elevenlabs (keys s) \<noteq> []))]) 200],
           sessions'))"

text \<open>\<^verbatim>\<open>api_set_session_text\<close> looks the code up in \<^verbatim>\<open>sessions\<close> itself, not through \<^verbatim>\<open>get_session\<close>.\<close>

definition api_set_session_text :: "string \<Rightarrow> string \<Rightarrow> registry \<Rightarrow> sent list \<times> registry" where
  "api_set_session_text code txt sessions =
     (case map_of sessions code of
        Some s \<Rightarrow>
          ([SocketioEmit ''text_updated'' (JObj [(''text'', JStr txt)]) code,
            Response (JObj [(''success'', JBool True)]) 200],
           AList.update code (s\<lparr>session_text := txt\<rparr>) sessions)
      | None \<Rightarrow> ([not_found ''Session nicht gefunden''], sessions))"

definition api_get_session_text :: "int \<Rightarrow> string \<Rightarrow> registry \<Rightarrow> sent list \<times> registry" where
  "api_get_session_text now code sessions =
     (case get_session now code sessions of
        (None, sessions') \<Rightarrow> ([not_found ''Session nicht gefunden''], sessions')
      | (Some s, sessions') \<Rightarrow>
          ([Response (JObj [(''text'', JStr (session_text s))]) 200], sessions'))"

text \<open>
  \<^verbatim>\<open>handle_disconnect\<close>: the loop over all sessions removes the connection from the students
  of each and tells the teacher of that session, if it has one.
\<close>

fun handle_disconnect :: "string \<Rightarrow> registry \<Rightarrow> sent list \<times> registry" where
  "handle_disconnect sid [] = ([], [])"
| "handle_disconnect sid ((code, s) # sessions) =
     (let (outs, sessions') = handle_disconnect sid sessions
      in if sid \<in> fst ` set (students s) then
           (let s' = s\<lparr>students := AList.delete sid (students s)\<rparr>
            in ((if truthy (teacher_sid s)
                 then [SocketioEmit ''student_left''
                         (JObj [(''count'', JInt (int (length (students s'))))])
                         (the (teacher_sid s))]
                 else []) @ outs,
                (code, s') # sessions'))
         else (outs, (code, s) # sessions'))"

definition handle_teacher_create_session ::
  "(nat \<Rightarrow> nat) \<Rightarrow> nat \<Rightarrow> (nat \<times> registry \<Rightarrow> (sent list \<times> nat \<times> registry) option) \<Rightarrow>
   int \<Rightarrow> int \<Rightarrow> string \<Rightarrow> create_request \<Rightarrow> registry \<Rightarrow>
   (sent list \<times> nat \<times> registry) option" where
  "handle_teacher_create_session draw pos between now_created now_expires sid data sessions =
     (let ks = \<lparr> elevenlabs = py_get '''' (elevenlabs_key data),
                  ai = py_get '''' (ai_key data),
                  ai_provider = py_get ''openai'' (rq_ai_provider data),
                  voice_id = py_get DEFAULT_VOICE (rq_voice_id data),
                  stt_provider = Some (py_get ''browser'' (rq_stt_provider data)) \<rparr>
      in if elevenlabs ks = [] then
           Some ([Emit ''session_error'' (JObj [(''error'', JStr ''ElevenLabs API Key erforderlich'')])],
                 pos, sessions)
         else
           (let p = py_get '''' (rq_pin data)
            in case create_session draw pos between now_created now_expires (Some sid) ks p sessions of
                 None \<Rightarrow> None
               | Some (code, seen, pos', sessions') \<Rightarrow>
                   (case map_of sessions' code of
                      Some s \<Rightarrow>
                        Some (seen @
                              [Emit ''session_created''
                                 (JObj [(''code'', JStr code),
                                        (''expires'', JTime (expires s)),
                                        (''has_pin'', JBool (p \<noteq> []))])],
                              pos', sessions')
                    | None \<Rightarrow> Some (seen, pos', sessions'))))"

text \<open>
  \<^verbatim>\<open>handle_student_join_session\<close>.  \<^verbatim>\<open>session\<close> is the object stored in \<^verbatim>\<open>sessions\<close>, so
  after \<^verbatim>\<open>add_student_to_session\<close> it shows the new student: \<open>s'\<close> below.  An exception of
  the allocator would end the handler with nothing sent.
\<close>

definition handle_student_join_session ::
  "(nat \<Rightarrow> nat) \<Rightarrow> nat \<Rightarrow> int \<Rightarrow> int \<Rightarrow> string \<Rightarrow> string \<Rightarrow> string option \<Rightarrow> registry \<Rightarrow>
   sent list \<times> nat \<times> registry" where
  "handle_student_join_session draw pos now now_joined sid code student_name sessions =
     (let nm = py_get ''Anonym'' student_name
      in case get_session now code sessions of
           (None, sessions') \<Rightarrow>
             ([Emit ''join_error'' (JObj [(''error'', JStr ''Session nicht gefunden oder abgelaufen'')])],
              pos, sessions')
         | (Some s, sessions') \<Rightarrow>
             (case add_student_to_session draw pos now_joined code sid (Some nm) sessions' of
                Inl e \<Rightarrow> ([], pos, sessions')
              | Inr ((student_data, pos'), sessions'') \<Rightarrow>
                  (let s' = py_get s (map_of sessions'' code);
                       anon = (case student_data of None \<Rightarrow> GAST | Some st \<Rightarrow> anonymous_id st)
                   in ([Emit ''join_success''
                          (JObj [(''code'', JStr code),
                                 (''text'', JStr (session_text s')),
                                 (''settings'', py_get (JObj []) (settings s')),
                                 (''tasks_available'', JBool (tasks_available s')),
                                 (''tasks'', JList (if tasks_available s' then tasks s' else [])),
                                 (''anonymous_id'', JStr anon),
                                 (''animal_emoji'',
                                    JStr (case student_data of
                                            None \<Rightarrow> [CHR 0xF0, CHR 0x9F, CHR 0x90, CHR 0xBE]
                                          | Some st \<Rightarrow> animal_emoji st)),
                                 (''animal_name'',
                                    JStr (case student_data of
                                            None \<Rightarrow> ''Gast''
                                          | Some st \<Rightarrow> animal_name st)),
                                 (''simplification_enabled'', JBool (simplification_enabled s'))])] @
                       (if truthy (teacher_sid s')
                        then [SocketioEmit ''student_joined''
                                (JObj [(''count'', JInt (int (length (students s')))),
                                       (''name'', JStr nm),
                                       (''anonymous_id'', JStr anon),
                                       (''student_sid'', JStr sid)])
                                (the (teacher_sid s'))]
                        else []),
                       pos', sessions''))))"

definition session_error :: "string \<Rightarrow> sent" where
  "session_error msg = Emit ''session_error'' (JObj [(''error'', JStr msg)])"

definition handle_teacher_end_session :: "int \<Rightarrow> string \<Rightarrow> string \<Rightarrow> registry \<Rightarrow> sent list \<times> registry" where
  "handle_teacher_end_session now sid code sessions =
     (case get_session now code sessions of
        (Some s, sessions') \<Rightarrow>
          (if teacher_sid s = Some sid then
             ([SocketioEmit ''session_ended''
                 (JObj [(''message'', JStr ''Die Session wurde vom Lehrer beendet.'')]) code,
               Emit ''session_ended_confirmed'' (JObj [(''success'', JBool True)])],
              snd (end_session code sessions'))
           else ([session_error ''Keine Berechtigung oder Session nicht gefunden''], sessions'))
      | (None, sessions') \<Rightarrow>
          ([session_error ''Keine Berechtigung oder Session nicht gefunden''], sessions'))"

definition set_if_present :: "string \<Rightarrow> (session \<Rightarrow> session) \<Rightarrow> registry \<Rightarrow> registry" where
  \<comment> \<open>\<^verbatim>\<open>with sessions_lock: if code in sessions: sessions[code][...] = ...\<close>\<close>
  "set_if_present code f sessions =
     (case map_of sessions code of
        Some s \<Rightarrow> AList.update code (f s) sessions
      | None \<Rightarrow> sessions)"

definition handle_teacher_update_settings ::
  "int \<Rightarrow> string \<Rightarrow> string \<Rightarrow> json \<Rightarrow> registry \<Rightarrow> sent list \<times> registry" where
  "handle_teacher_update_settings now sid code new_settings sessions =
     (case get_session now code sessions of
        (Some s, sessions') \<Rightarrow>
          (if teacher_sid s = Some sid then
             ([SocketioEmit ''settings_updated'' (JObj [(''settings'', new_settings)]) code],
              set_if_present code (\<lambda>s. s\<lparr>settings := Some new_settings\<rparr>) sessions')
           else ([session_error ''Keine Berechtigung oder Session nicht gefunden''], sessions'))
      | (None, sessions') \<Rightarrow>
          ([session_error ''Keine Berechtigung oder Session nicht gefunden''], sessions'))"

definition handle_teacher_release_tasks ::
  "int \<Rightarrow> string \<Rightarrow> string \<Rightarrow> json list \<Rightarrow> registry \<Rightarrow> sent list \<times> registry" where
  "handle_teacher_release_tasks now sid code new_tasks sessions =
     (case get_session now code sessions of
        (Some s, sessions') \<Rightarrow>
          (if teacher_sid s = Some sid then
             ([SocketioEmit ''tasks_released'' (JObj [(''tasks'', JList new_tasks)]) code],
              set_if_present code (\<lambda>s. s\<lparr>tasks := new_tasks, tasks_available := True\<rparr>) sessions')
           else ([session_error ''Keine Berechtigung oder Session nicht gefunden''], sessions'))
      | (None, sessions') \<Rightarrow>
          ([session_error ''Keine Berechtigung oder Session nicht gefunden''], sessions'))"

definition handle_student_request_translation ::
  "int \<Rightarrow> int \<Rightarrow> string \<Rightarrow> string \<Rightarrow> string \<Rightarrow> registry \<Rightarrow> sent list \<times> registry" where
  "handle_student_request_translation now now_requested sid code lang sessions =
     (case get_session now code sessions of
        (None, sessions') \<Rightarrow>
          ([Emit ''translation_error'' (JObj [(''error'', JStr ''Session nicht gefunden'')])], sessions')
      | (Some s, sessions') \<Rightarrow>
          (let anon = (case map_of (students s) sid of None \<Rightarrow> GAST | Some st \<Rightarrow> anonymous_id st);
               req = \<lparr> language = lang,
                       language_name = language_name_of lang,
                       status = ''pending'',
                       tr_anonymous_id = anon,
                       requested_at = now_requested,
                       translated_text = None \<rparr>
           in ([Emit ''translation_request_sent''
                  (JObj [(''language'', JStr lang),
                         (''language_name'', JStr (language_name_of lang))])] @
               (if truthy (teacher_sid s)
                then [SocketioEmit ''translation_request_received''
                        (JObj [(''student_sid'', JStr sid),
                               (''anonymous_id'', JStr anon),
                               (''language'', JStr lang),
                               (''language_name'', JStr (language_name_of lang))])
                        (the (teacher_sid s))]
                else []),
               set_if_present code
                 (\<lambda>s. s\<lparr>translation_requests := AList.update sid req (translation_requests s)\<rparr>)
                 sessions')))"

text \<open>
  \<^verbatim>\<open>translate_text_with_ai(text, target_language, ai_key, ai_provider)\<close>.  The request to the
  provider leaves the program: \<open>post\<close> is \<^verbatim>\<open>requests.post\<close>, told which provider is called,
  with which key and which prompt.  It raises, \<open>Raises\<close> holding the text of the
  exception, or it answers with a status and a body; \<open>Answer st body\<close> holds the status
  and what reading the translation out of the body gives, the text of an exception
  (\<open>Inl\<close>) or the translation after \<^verbatim>\<open>.strip()\<close> (\<open>Inr\<close>).  The result is the translation,
  or \<open>Inl\<close> of the text of the exception the function ends with.
\<close>

datatype provider_call =
    OpenAI string string
  | Google string string
  | Anthropic string string

datatype http_outcome =
    Raises string
  | Answer nat "string + string"

text \<open>
  The URL a request goes to.  The key of OpenAI and of Anthropic travels in a header, the
  key of Google in the URL.
\<close>

definition request_url :: "provider_call \<Rightarrow> string" where
  "request_url call =
     (case call of
        OpenAI key prompt \<Rightarrow> ''https://api.openai.com/v1/chat/completions''
      | Google key prompt \<Rightarrow>
          ''https://generativelanguage.googleapis.com/v1beta/models/'' @
          ''gemini-2.0-flash:generateContent?key='' @ key
      | Anthropic key prompt \<Rightarrow> ''https://api.anthropic.com/v1/messages'')"

definition translation_prompt :: "string \<Rightarrow> string \<Rightarrow> string" where
  "translation_prompt lang_name txt =
     [CHR 0xC3, CHR 0x9C] @ ''bersetze den folgenden deutschen Text ins '' @ lang_name @
     ''. '' @ [CHR 0x0A] @ ''Gib NUR die '' @ [CHR 0xC3, CHR 0x9C] @ ''bersetzung zur'' @
     [CHR 0xC3, CHR 0xBC] @ ''ck, keine Erkl'' @ [CHR 0xC3, CHR 0xA4] @ ''rungen oder zus'' @
     [CHR 0xC3, CHR 0xA4] @ ''tzlichen Text.'' @ [CHR 0x0A, CHR 0x0A] @ ''TEXT:'' @ [CHR 0x0A] @
     txt @ [CHR 0x0A, CHR 0x0A, CHR 0xC3, CHR 0x9C] @ ''BERSETZUNG:''"

definition translation_failed :: "string \<Rightarrow> string" where
  \<comment> \<open>the text of the exception raised at the end of \<^verbatim>\<open>translate_text_with_ai\<close>\<close>
  "translation_failed provider =
     [CHR 0xC3, CHR 0x9C] @ ''bersetzung fehlgeschlagen ('' @ provider @ '')''"

definition read_answer :: "string \<Rightarrow> http_outcome \<Rightarrow> string + string" where
  "read_answer provider outcome =
     (case outcome of
        Raises msg \<Rightarrow> Inl msg
      | Answer st body \<Rightarrow> (if st = 200 then body else Inl (translation_failed provider)))"

definition translate_text_with_ai ::
  "(provider_call \<Rightarrow> http_outcome) \<Rightarrow> string \<Rightarrow> string \<Rightarrow> string \<Rightarrow> string \<Rightarrow> string + string" where
  "translate_text_with_ai post txt target_language key provider =
     (let prompt = translation_prompt (language_name_of target_language) txt
      in if provider = ''openai'' then read_answer provider (post (OpenAI key prompt))
         else if provider = ''google'' then read_answer provider (post (Google key prompt))
         else if provider = ''anthropic'' then read_answer provider (post (Anthropic key prompt))
         else Inl (translation_failed provider))"

text \<open>
  \<^verbatim>\<open>handle_teacher_approve_translation\<close>.  The \<^verbatim>\<open>except\<close> branch sends the text of the exception
  to the teacher.
\<close>

definition set_request :: "string \<Rightarrow> (translation_request \<Rightarrow> translation_request) \<Rightarrow> session \<Rightarrow> session" where
  "set_request student_sid f s =
     (case map_of (translation_requests s) student_sid of
        Some r \<Rightarrow> s\<lparr>translation_requests := AList.update student_sid (f r) (translation_requests s)\<rparr>
      | None \<Rightarrow> s)"

definition handle_teacher_approve_translation ::
  "(provider_call \<Rightarrow> http_outcome) \<Rightarrow>
   int \<Rightarrow> string \<Rightarrow> string \<Rightarrow> string \<Rightarrow> string \<Rightarrow> registry \<Rightarrow> sent list \<times> registry" where
  "handle_teacher_approve_translation post now sid code student_sid layout sessions =
     (case get_session now code sessions of
        (None, sessions') \<Rightarrow> ([session_error ''Keine Berechtigung''], sessions')
      | (Some s, sessions') \<Rightarrow>
          (if teacher_sid s \<noteq> Some sid then ([session_error ''Keine Berechtigung''], sessions')
           else
             (case map_of (translation_requests s) student_sid of
                None \<Rightarrow> ([session_error ''Anfrage nicht gefunden''], sessions')
              | Some req \<Rightarrow>
                  (if session_text s = [] then
                     ([session_error (''Kein Text zum '' @ [CHR 0xC3, CHR 0x9C] @ ''bersetzen'')],
                      sessions')
                   else if ai (keys s) = [] then
                     ([SocketioEmit ''translation_approved''
                         (JObj [(''language'', JStr (language req)),
                                (''translated_text'', JNull),
                                (''layout'', JStr layout),
                                (''message'',
                                   JStr ([CHR 0xC3, CHR 0x9C] @ ''bersetzung genehmigt, aber kein AI-Key f'' @
                                         [CHR 0xC3, CHR 0xBC] @ ''r automatische '' @
                                         [CHR 0xC3, CHR 0x9C] @ ''bersetzung konfiguriert.''))])
                         student_sid],
                      set_if_present code
                        (set_request student_sid (\<lambda>r. r\<lparr>status := ''approved_no_translation''\<rparr>))
                        sessions')
                   else
                     (case translate_text_with_ai post (session_text s) (language req)
                             (ai (keys s)) (ai_provider (keys s)) of
                        Inl msg \<Rightarrow>
                          ([session_error ([CHR 0xC3, CHR 0x9C] @ ''bersetzungsfehler: '' @ msg)],
                           sessions')
                      | Inr translated \<Rightarrow>
                          ([SocketioEmit ''translation_approved''
                              (JObj [(''language'', JStr (language req)),
                                     (''language_name'', JStr (language_name_of (language req))),
                                     (''translated_text'', JStr translated),
                                     (''layout'', JStr layout)])
                              student_sid,
                            Emit ''translation_sent''
                              (JObj [(''student_sid'', JStr student_sid),
                                     (''anonymous_id'', JStr (tr_anonymous_id req)),
                                     (''success'', JBool True)])],
                           set_if_present code
                             (set_request student_sid
                                (\<lambda>r. r\<lparr>status := ''approved'', translated_text := Some translated\<rparr>))
                             sessions'))))))"

definition handle_teacher_deny_translation ::
  "int \<Rightarrow> string \<Rightarrow> string \<Rightarrow> string \<Rightarrow> registry \<Rightarrow> sent list \<times> registry" where
  "handle_teacher_deny_translation now sid code student_sid sessions =
     (case get_session now code sessions of
        (None, sessions') \<Rightarrow> ([session_error ''Keine Berechtigung''], sessions')
      | (Some s, sessions') \<Rightarrow>
          (if teacher_sid s \<noteq> Some sid then ([session_error ''Keine Berechtigung''], sessions')
           else
             ([SocketioEmit ''translation_denied''
                 (JObj [(''message'',
                           JStr (''Deine '' @ [CHR 0xC3, CHR 0x9C] @ ''bersetzungsanfrage wurde abgelehnt.''))])
                 student_sid,
               Emit ''translation_request_removed''
                 (JObj [(''student_sid'', JStr student_sid),
                        (''anonymous_id'',
                           JStr (case map_of (translation_requests s) student_sid of
                                   None \<Rightarrow> []
                                 | Some r \<Rightarrow> tr_anonymous_id r))])],
              set_if_present code (set_request student_sid (\<lambda>r. r\<lparr>status := ''denied''\<rparr>)) sessions')))"

definition handle_teacher_toggle_simplification ::
  "int \<Rightarrow> string \<Rightarrow> string \<Rightarrow> bool \<Rightarrow> registry \<Rightarrow> sent list \<times> registry" where
  "handle_teacher_toggle_simplification now sid code enabled sessions =
     (case get_session now code sessions of
        (None, sessions') \<Rightarrow> ([session_error ''Keine Berechtigung''], sessions')
      | (Some s, sessions') \<Rightarrow>
          (if teacher_sid s \<noteq> Some sid then ([session_error ''Keine Berechtigung''], sessions')
           else
             ([SocketioEmit ''simplification_status_changed''
                 (JObj [(''enabled'', JBool enabled)]) code],
              set_if_present code (\<lambda>s. s\<lparr>simplification_enabled := enabled\<rparr>) sessions')))"

definition handle_student_using_simplified ::
  "int \<Rightarrow> int \<Rightarrow> string \<Rightarrow> string \<Rightarrow> string \<Rightarrow> registry \<Rightarrow> sent list \<times> registry" where
  "handle_student_using_simplified now now_stamp sid code lvl sessions =
     (case get_session now code sessions of
        (None, sessions') \<Rightarrow> ([], sessions')
      | (Some s, sessions') \<Rightarrow>
          (let anon = (case map_of (students s) sid of
                         None \<Rightarrow> None
                       | Some st \<Rightarrow> Some (anonymous_id st))
           in ((if truthy (teacher_sid s)
                then [SocketioEmit ''student_level_update''
                        (JObj [(''student_sid'', JStr sid),
                               (''anonymous_id'', (case anon of None \<Rightarrow> JNull | Some a \<Rightarrow> JStr a)),
                               (''level'', JStr lvl)])
                        (the (teacher_sid s))]
                else []),
               set_if_present code
                 (\<lambda>s. s\<lparr>student_levels :=
                          AList.update sid
                            \<lparr> level = lvl, lv_anonymous_id = anon, timestamp = now_stamp \<rparr>
                            (student_levels s)\<rparr>)
                 sessions')))"

section \<open>The operations on the sessions, one after the other\<close>

text \<open>
  Every way the program touches \<^verbatim>\<open>sessions\<close>: the session API, the socket events, a lookup by
  any of the proxy routes (\<^verbatim>\<open>get_session\<close>, \<^verbatim>\<open>get_session_keys\<close>, \<^verbatim>\<open>get_student_count\<close>),
  \<^verbatim>\<open>remove_student_from_session\<close> and a sweep.  An operation carries its clock readings and
  the fields of its request.  A creation carries the operations that run while
  \<^verbatim>\<open>create_session\<close> has \<^verbatim>\<open>sessions_lock\<close> free, creations among them.
  \<open>TeacherApproveTranslation\<close> carries the translation provider: what a request to it
  gives, an answer or an exception of the HTTP library.
\<close>

datatype op =
    ApiCreateSession int int create_request "op list"
  | ApiJoinSession int string
  | ApiEndSession string
  | ApiSessionStatus int string
  | ApiSessionSettings int string
  | ApiSetSessionText string string
  | ApiGetSessionText int string
  | Disconnect string
  | TeacherCreateSession int int string create_request "op list"
  | StudentJoinSession int int string string "string option"
  | TeacherEndSession int string string
  | TeacherUpdateSettings int string string json
  | TeacherReleaseTasks int string string "json list"
  | StudentRequestTranslation int int string string string
  | TeacherApproveTranslation "provider_call \<Rightarrow> http_outcome" int string string string string
  | TeacherDenyTranslation int string string string
  | TeacherToggleSimplification int string string bool
  | StudentUsingSimplified int int string string string
  | Lookup int string
  | RemoveStudent string string
  | Sweep "string \<Rightarrow> py_error option" "nat \<Rightarrow> int"

fun is_create :: "op \<Rightarrow> bool" where
  "is_create (ApiCreateSession now_c now_e data between) = True"
| "is_create (TeacherCreateSession now_c now_e sid data between) = True"
| "is_create _ = False"

text \<open>
  One operation (\<open>step\<close>), and a sequence of operations one after the other (\<open>run\<close>), on
  the position of the random source and the sessions: what is sent and what is left.
  \<open>None\<close> is a creation that never returns.
\<close>

fun step :: "(nat \<Rightarrow> nat) \<Rightarrow> op \<Rightarrow> nat \<times> registry \<Rightarrow> (sent list \<times> nat \<times> registry) option"
  and run :: "(nat \<Rightarrow> nat) \<Rightarrow> op list \<Rightarrow> nat \<times> registry \<Rightarrow> (sent list \<times> nat \<times> registry) option"
  where
  "step draw (ApiCreateSession now_c now_e data between) (pos, sessions) =
     api_create_session draw pos (\<lambda>st. run draw between st) now_c now_e data sessions"
| "step draw (TeacherCreateSession now_c now_e sid data between) (pos, sessions) =
     handle_teacher_create_session draw pos (\<lambda>st. run draw between st) now_c now_e sid data sessions"
| "step draw (StudentJoinSession now now_j sid code nm) (pos, sessions) =
     Some (handle_student_join_session draw pos now now_j sid code nm sessions)"
| "step draw (ApiJoinSession now code) (pos, sessions) =
     (let (outs, sessions') = api_join_session now code sessions in Some (outs, pos, sessions'))"
| "step draw (ApiEndSession code) (pos, sessions) =
     (let (outs, sessions') = api_end_session code sessions in Some (outs, pos, sessions'))"
| "step draw (ApiSessionStatus now code) (pos, sessions) =
     (let (outs, sessions') = api_session_status now code sessions in Some (outs, pos, sessions'))"
| "step draw (ApiSessionSettings now code) (pos, sessions) =
     (let (outs, sessions') = api_session_settings now code sessions in Some (outs, pos, sessions'))"
| "step draw (ApiSetSessionText code txt) (pos, sessions) =
     (let (outs, sessions') = api_set_session_text code txt sessions in Some (outs, pos, sessions'))"
| "step draw (ApiGetSessionText now code) (pos, sessions) =
     (let (outs, sessions') = api_get_session_text now code sessions in Some (outs, pos, sessions'))"
| "step draw (Disconnect sid) (pos, sessions) =
     (let (outs, sessions') = handle_disconnect sid sessions in Some (outs, pos, sessions'))"
| "step draw (TeacherEndSession now sid code) (pos, sessions) =
     (let (outs, sessions') = handle_teacher_end_session now sid code sessions
      in Some (outs, pos, sessions'))"
| "step draw (TeacherUpdateSettings now sid code new_settings) (pos, sessions) =
     (let (outs, sessions') = handle_teacher_update_settings now sid code new_settings sessions
      in Some (outs, pos, sessions'))"
| "step draw (TeacherReleaseTasks now sid code new_tasks) (pos, sessions) =
     (let (outs, sessions') = handle_teacher_release_tasks now sid code new_tasks sessions
      in Some (outs, pos, sessions'))"
| "step draw (StudentRequestTranslation now now_r sid code lang) (pos, sessions) =
     (let (outs, sessions') = handle_student_request_translation now now_r sid code lang sessions
      in Some (outs, pos, sessions'))"
| "step draw (TeacherApproveTranslation post now sid code student_sid layout) (pos, sessions) =
     (let (outs, sessions') =
            handle_teacher_approve_translation post now sid code student_sid layout sessions
      in Some (outs, pos, sessions'))"
| "step draw (TeacherDenyTranslation now sid code student_sid) (pos, sessions) =
     (let (outs, sessions') = handle_teacher_deny_translation now sid code student_sid sessions
      in Some (outs, pos, sessions'))"
| "step draw (TeacherToggleSimplification now sid code enabled) (pos, sessions) =
     (let (outs, sessions') = handle_teacher_toggle_simplification now sid code enabled sessions
      in Some (outs, pos, sessions'))"
| "step draw (StudentUsingSimplified now now_s sid code lvl) (pos, sessions) =
     (let (outs, sessions') = handle_student_using_simplified now now_s sid code lvl sessions
      in Some (outs, pos, sessions'))"
| "step draw (Lookup now code) (pos, sessions) =
     Some ([], pos, snd (get_session now code sessions))"
| "step draw (RemoveStudent code student_sid) (pos, sessions) =
     Some ([], pos, snd (remove_student_from_session code student_sid sessions))"
| "step draw (Sweep logger nows) (pos, sessions) =
     Some ([], pos, snd (cleanup_expired_sessions logger nows sessions))"
| "run draw [] (pos, sessions) = Some ([], pos, sessions)"
| "run draw (x # ops) (pos, sessions) =
     (case step draw x (pos, sessions) of
        None \<Rightarrow> None
      | Some (outs, pos', sessions') \<Rightarrow>
          (case run draw ops (pos', sessions') of
             None \<Rightarrow> None
           | Some (outs', pos'', sessions'') \<Rightarrow> Some (outs @ outs', pos'', sessions'')))"

text \<open>
  What the sessions show of the keys.  \<open>redact\<close> keeps of every bundle the voice, the two
  providers and whether each of the two API keys is set, and blanks the values of the
  keys: two registries with the same redaction differ only in the values of the API keys.
\<close>

definition blank :: "string \<Rightarrow> string" where
  "blank key = (if key = [] then [] else ''*'')"

definition redact_keys :: "keys \<Rightarrow> keys" where
  "redact_keys k =
     \<lparr> elevenlabs = blank (elevenlabs k),
       ai = blank (ai k),
       ai_provider = ai_provider k,
       voice_id = voice_id k,
       stt_provider = stt_provider k \<rparr>"

definition redact_session :: "session \<Rightarrow> session" where
  "redact_session s = s\<lparr>keys := redact_keys (keys s)\<rparr>"

definition redact :: "registry \<Rightarrow> registry" where
  "redact sessions = map (\<lambda>(code, s). (code, redact_session s)) sessions"

text \<open>
  The same for the operations: \<open>redact_op\<close> blanks the values of the two API keys in the
  request of a creation, and in the creations that run while it has the lock free.  Two
  operations with the same redaction differ only in the values of the API keys they bring.
\<close>

definition redact_request :: "create_request \<Rightarrow> create_request" where
  "redact_request data =
     data\<lparr>elevenlabs_key := map_option blank (elevenlabs_key data),
          ai_key := map_option blank (ai_key data)\<rparr>"

fun redact_op :: "op \<Rightarrow> op" where
  "redact_op (ApiCreateSession now_c now_e data between) =
     ApiCreateSession now_c now_e (redact_request data) (map redact_op between)"
| "redact_op (TeacherCreateSession now_c now_e sid data between) =
     TeacherCreateSession now_c now_e sid (redact_request data) (map redact_op between)"
| "redact_op x = x"

text \<open>
  A provider is blind to the key when what a request to it gives, answer or exception, is
  the same whatever the value of the key sent.  \<open>key_blind_op\<close>: every provider an
  operation carries is.
\<close>

fun blank_call :: "provider_call \<Rightarrow> provider_call" where
  "blank_call (OpenAI key prompt) = OpenAI (blank key) prompt"
| "blank_call (Google key prompt) = Google (blank key) prompt"
| "blank_call (Anthropic key prompt) = Anthropic (blank key) prompt"

definition key_blind :: "(provider_call \<Rightarrow> http_outcome) \<Rightarrow> bool" where
  "key_blind post \<longleftrightarrow> (\<forall>call. post call = post (blank_call call))"

fun key_blind_op :: "op \<Rightarrow> bool" where
  "key_blind_op (ApiCreateSession now_c now_e data between) = list_all key_blind_op between"
| "key_blind_op (TeacherCreateSession now_c now_e sid data between) = list_all key_blind_op between"
| "key_blind_op (TeacherApproveTranslation post now sid code student_sid layout) = key_blind post"
| "key_blind_op x = True"

text \<open>The strings at the leaves of a JSON value, and of what a handler sends.\<close>

fun json_strings :: "json \<Rightarrow> string list" where
  "json_strings JNull = []"
| "json_strings (JBool b) = []"
| "json_strings (JInt i) = []"
| "json_strings (JStr x) = [x]"
| "json_strings (JTime t) = []"
| "json_strings (JList xs) = concat (map json_strings xs)"
| "json_strings (JObj kvs) = concat (map (\<lambda>kv. json_strings (snd kv)) kvs)"

fun sent_strings :: "sent \<Rightarrow> string list" where
  "sent_strings (Response body st) = json_strings body"
| "sent_strings (Emit event body) = json_strings body"
| "sent_strings (SocketioEmit event body room) = json_strings body"
| "sent_strings (SendFile content mimetype) = [content]"
| "sent_strings (Rendered page) = []"

text \<open>\<open>shrinks s' s\<close>: the sessions \<open>s'\<close> have no code that \<open>s\<close> has not.\<close>

definition shrinks :: "registry \<Rightarrow> registry \<Rightarrow> bool" where
  "shrinks s' s \<longleftrightarrow> fst ` set s' \<subseteq> fst ` set s"

text \<open>
  Two results of an operation, or of a sequence of them, show the same: both never return,
  or both return, send the same, leave the random source at the same position and leave
  sessions with the same redaction.
\<close>

definition same_payloads ::
  "(sent list \<times> nat \<times> registry) option \<Rightarrow> (sent list \<times> nat \<times> registry) option \<Rightarrow> bool" where
  "same_payloads r1 r2 =
     (case (r1, r2) of
        (None, None) \<Rightarrow> True
      | (Some (outs1, pos1, t1), Some (outs2, pos2, t2)) \<Rightarrow>
          outs1 = outs2 \<and> pos1 = pos2 \<and> redact t1 = redact t2
      | _ \<Rightarrow> False)"

definition failing_provider :: "provider_call \<Rightarrow> http_outcome" where
  \<comment> \<open>a provider that answers every request with status 500\<close>
  "failing_provider call = Answer 500 (Inl [])"

definition unreachable_provider :: "provider_call \<Rightarrow> http_outcome" where
  \<comment> \<open>a provider that cannot be reached: the HTTP library raises, quoting the URL\<close>
  "unreachable_provider call = Raises (''Max retries exceeded with url: '' @ request_url call)"

definition example_request :: create_request where
  \<comment> \<open>a request to create a session with the keys \<open>example_keys\<close> and no PIN\<close>
  "example_request =
     \<lparr> elevenlabs_key = Some ''K1'', ai_key = Some ''K2'', rq_ai_provider = Some ''openai'',
       rq_voice_id = Some ''V1'', rq_stt_provider = Some ''scribe'', rq_pin = None \<rparr>"

definition other_request :: create_request where
  \<comment> \<open>\<open>example_request\<close> with other API keys\<close>
  "other_request =
     \<lparr> elevenlabs_key = Some ''OTHER'', ai_key = Some ''SECRET'', rq_ai_provider = Some ''openai'',
       rq_voice_id = Some ''V1'', rq_stt_provider = Some ''scribe'', rq_pin = None \<rparr>"

definition keyless_session :: session where
  \<comment> \<open>\<open>example_session\<close> with no AI key\<close>
  "keyless_session = example_session\<lparr>keys := example_keys\<lparr>ai := []\<rparr>\<rparr>"

definition google_session :: session where
  \<comment> \<open>\<open>example_session\<close> with Google as the AI provider\<close>
  "google_session = example_session\<lparr>keys := example_keys\<lparr>ai_provider := ''google''\<rparr>\<rparr>"

section \<open>Requests to the providers\<close>

text \<open>
  A request that leaves the program through \<^verbatim>\<open>requests.post\<close>: the URL up to the key, the
  header the key travels in (\<open>None\<close>: the key is the end of the URL), the key, the model
  named in the body, the other parameters of the request, and the texts put into the
  body.
\<close>

record api_call =
  call_url :: string
  key_header :: "string option"
  call_key :: string
  call_model :: string
  call_params :: "(string \<times> string) list"
  call_texts :: "string list"

definition sent_url :: "api_call \<Rightarrow> string" where
  \<comment> \<open>the URL as \<^verbatim>\<open>requests.post\<close> gets it\<close>
  "sent_url call =
     (case key_header call of
        None \<Rightarrow> call_url call @ call_key call
      | Some header \<Rightarrow> call_url call)"

definition openai_chat ::
  "string \<Rightarrow> string \<Rightarrow> (string \<times> string) list \<Rightarrow> string list \<Rightarrow> api_call" where
  "openai_chat key model params texts =
     \<lparr> call_url = ''https://api.openai.com/v1/chat/completions'',
       key_header = Some ''Authorization'',
       call_key = key, call_model = model, call_params = params, call_texts = texts \<rparr>"

definition google_generate ::
  "string \<Rightarrow> string \<Rightarrow> (string \<times> string) list \<Rightarrow> string list \<Rightarrow> api_call" where
  "google_generate key model params texts =
     \<lparr> call_url = ''https://generativelanguage.googleapis.com/v1beta/models/'' @ model @
                  '':generateContent?key='',
       key_header = None,
       call_key = key, call_model = model, call_params = params, call_texts = texts \<rparr>"

definition anthropic_messages ::
  "string \<Rightarrow> string \<Rightarrow> (string \<times> string) list \<Rightarrow> string list \<Rightarrow> api_call" where
  "anthropic_messages key model params texts =
     \<lparr> call_url = ''https://api.anthropic.com/v1/messages'',
       key_header = Some ''x-api-key'',
       call_key = key, call_model = model, call_params = params, call_texts = texts \<rparr>"

text \<open>
  What \<^verbatim>\<open>requests.post\<close> gives.  It raises: \<open>Raised\<close> holds the text of the exception, and
  \<open>TimedOut\<close> that of a \<^verbatim>\<open>requests.exceptions.Timeout\<close>.  Or it returns a response: \<open>Reply\<close>
  holds \<^verbatim>\<open>status_code\<close>, \<^verbatim>\<open>text\<close>, and what the calling function reads out of
  \<^verbatim>\<open>response.json()\<close>, the text of the exception the reading raises (\<open>Inl\<close>) or the value
  read (\<open>Inr\<close>).  The function that calls says which value it reads.
\<close>

datatype 'a reply =
    Raised string
  | TimedOut string
  | Reply nat string "string + 'a"

text \<open>
  The request of the three chat providers, as \<^verbatim>\<open>get_word_info_from_ai\<close>,
  \<^verbatim>\<open>simplify_text_with_ai\<close> and \<^verbatim>\<open>api_generate_tasks\<close> build it from \<^verbatim>\<open>ai_provider\<close>: \<open>None\<close> for a
  provider that is none of the three.  The parameters differ from function to function.
\<close>

definition chat_call ::
  "string \<Rightarrow> string \<Rightarrow> (string \<times> string) list \<Rightarrow> (string \<times> string) list \<Rightarrow>
   (string \<times> string) list \<Rightarrow> string \<Rightarrow> api_call option" where
  "chat_call provider key openai_params google_params anthropic_params prompt =
     (if provider = ''openai'' then Some (openai_chat key ''gpt-4o-mini'' openai_params [prompt])
      else if provider = ''google'' then
        Some (google_generate key ''gemini-2.0-flash'' google_params [prompt])
      else if provider = ''anthropic'' then
        Some (anthropic_messages key ''claude-sonnet-4-20250514'' anthropic_params [prompt])
      else None)"

text \<open>Values as Python sees them: truth, \<^verbatim>\<open>str\<close> of a value inside an f-string.\<close>

fun json_truthy :: "json \<Rightarrow> bool" where
  "json_truthy JNull = False"
| "json_truthy (JBool b) = b"
| "json_truthy (JInt i) = (i \<noteq> 0)"
| "json_truthy (JStr s) = (s \<noteq> [])"
| "json_truthy (JTime t) = True"
| "json_truthy (JList xs) = (xs \<noteq> [])"
| "json_truthy (JObj kvs) = (kvs \<noteq> [])"

definition format_value :: "(json \<Rightarrow> string) \<Rightarrow> json \<Rightarrow> string" where
  \<comment> \<open>\<^verbatim>\<open>str(v)\<close>: a string is itself, \<open>py_repr\<close> gives the text of every other value\<close>
  "format_value py_repr v = (case v of JStr s \<Rightarrow> s | _ \<Rightarrow> py_repr v)"

fun is_infix :: "'a list \<Rightarrow> 'a list \<Rightarrow> bool" where
  \<comment> \<open>\<^verbatim>\<open>needle in text\<close> for two strings\<close>
  "is_infix needle [] = (needle = [])"
| "is_infix needle (c # rest) = (take (length needle) (c # rest) = needle \<or> is_infix needle rest)"

definition error_response :: "string \<Rightarrow> nat \<Rightarrow> sent" where
  \<comment> \<open>\<^verbatim>\<open>jsonify({'error': msg}), status\<close>\<close>
  "error_response msg st = Response (JObj [(''error'', JStr msg)]) st"

section \<open>The routes that ask the AI provider\<close>

text \<open>The prompts, as the source writes them.\<close>

definition translation_wanted :: "string option \<Rightarrow> string" where
  "translation_wanted lang_name =
     (case lang_name of
        Some nm \<Rightarrow>
          [CHR 0xC3, CHR 0x9C] @ ''bersetzung ins '' @ nm
      | None \<Rightarrow>
          ''keine '' @ [CHR 0xC3, CHR 0x9C] @ ''bersetzung angefordert'')"

definition word_info_prompt :: "string \<Rightarrow> string option \<Rightarrow> string" where
  "word_info_prompt word lang_name =
     ''Analysiere das deutsche Wort '' @ [CHR 0x22] @ word @ [CHR 0x22] @
     '' und gib die Informationen als JSON zur'' @ [CHR 0xC3, CHR 0xBC] @ ''ck.'' @
     [CHR 0x0A, CHR 0x0A] @ ''Antworte NUR mit dem JSON-Objekt, keine Erkl'' @
     [CHR 0xC3, CHR 0xA4] @ ''rungen davor oder danach.'' @ [CHR 0x0A, CHR 0x0A] @
     ''{'' @ [CHR 0x0A] @ ''    '' @ [CHR 0x22] @ ''word'' @ [CHR 0x22] @ '': '' @
     [CHR 0x22] @ word @ [CHR 0x22] @ '','' @ [CHR 0x0A] @ ''    '' @ [CHR 0x22] @
     ''article'' @ [CHR 0x22] @ '': '' @ [CHR 0x22] @
     ''der/die/das (nur bei Nomen, sonst leer)'' @ [CHR 0x22] @ '','' @ [CHR 0x0A] @
     ''    '' @ [CHR 0x22] @ ''plural'' @ [CHR 0x22] @ '': '' @ [CHR 0x22] @
     ''Pluralform (nur bei Nomen, sonst leer)'' @ [CHR 0x22] @ '','' @ [CHR 0x0A] @
     ''    '' @ [CHR 0x22] @ ''word_type'' @ [CHR 0x22] @ '': '' @ [CHR 0x22] @
     ''Nomen/Verb/Adjektiv/Adverb/Pr'' @ [CHR 0xC3, CHR 0xA4] @ ''position/etc.'' @
     [CHR 0x22] @ '','' @ [CHR 0x0A] @ ''    '' @ [CHR 0x22] @ ''simple_explanation'' @
     [CHR 0x22] @ '': '' @ [CHR 0x22] @ ''Einfache Erkl'' @ [CHR 0xC3, CHR 0xA4] @
     ''rung in 1-2 S'' @ [CHR 0xC3, CHR 0xA4] @ ''tzen f'' @ [CHR 0xC3, CHR 0xBC] @
     ''r Sprachlerner (A1-A2 Niveau)'' @ [CHR 0x22] @ '','' @ [CHR 0x0A] @ ''    '' @
     [CHR 0x22] @ ''example_sentence'' @ [CHR 0x22] @ '': '' @ [CHR 0x22] @
     ''Ein einfacher Beispielsatz mit dem Wort'' @ [CHR 0x22] @ '','' @ [CHR 0x0A] @
     ''    '' @ [CHR 0x22] @ ''syllables'' @ [CHR 0x22] @ '': '' @ [CHR 0x22] @
     ''Silbentrennung mit Bindestrichen (z.B. Hun-de-h'' @ [CHR 0xC3, CHR 0xBC] @
     ''t-te)'' @ [CHR 0x22] @ '','' @ [CHR 0x0A] @ ''    '' @ [CHR 0x22] @
     ''translation'' @ [CHR 0x22] @ '': '' @ [CHR 0x22] @ translation_wanted lang_name @
     [CHR 0x22, CHR 0x0A] @ ''}''"

definition word_image_prompt :: "string \<Rightarrow> string \<Rightarrow> string" where
  "word_image_prompt word explanation =
     ''Generate a simple, clear, educational illustration for the G'' @ ''erman word '' @
     [CHR 0x22] @ word @ [CHR 0x22] @ ''.'' @ [CHR 0x0A] @ ''Meaning: '' @ explanation @
     [CHR 0x0A, CHR 0x0A] @ ''Requirements:'' @ [CHR 0x0A] @
     ''- Simple, clean clipart or illustration style'' @ [CHR 0x0A] @
     ''- White or light background'' @ [CHR 0x0A] @ ''- No text in the image'' @
     [CHR 0x0A] @ ''- Suitable for language learning'' @ [CHR 0x0A] @
     ''- Child-friendly if applicable''"

definition SIMPLIFICATION_PROMPTS :: "(string, string \<times> string) py_dict" where
  \<comment> \<open>for every level the template, as what stands before and after \<^verbatim>\<open>{text}\<close>\<close>
  "SIMPLIFICATION_PROMPTS =
     [(''A1'',
        ''Vereinfache den folgenden deutschen Text auf Sprachniveau A1'' @ '' (Anf'' @
        [CHR 0xC3, CHR 0xA4] @ ''nger).'' @ [CHR 0x0A, CHR 0x0A] @ ''REGELN f'' @
        [CHR 0xC3, CHR 0xBC] @ ''r A1:'' @ [CHR 0x0A] @ ''- NUR Pr'' @
        [CHR 0xC3, CHR 0xA4] @
        ''sens verwenden (keine Vergangenheit, kein Konjunktiv)'' @ [CHR 0x0A] @
        ''- Sehr kurze S'' @ [CHR 0xC3, CHR 0xA4] @ ''tze (maximal 8 W'' @
        [CHR 0xC3, CHR 0xB6] @ ''rter)'' @ [CHR 0x0A] @
        ''- Nur Grundwortschatz (die 500 h'' @ [CHR 0xC3, CHR 0xA4] @ ''ufigsten W'' @
        [CHR 0xC3, CHR 0xB6] @ ''rter)'' @ [CHR 0x0A] @ ''- Keine Nebens'' @
        [CHR 0xC3, CHR 0xA4] @ ''tze'' @ [CHR 0x0A] @ ''- Keine Passivkonstruktionen'' @
        [CHR 0x0A] @ ''- Wiederhole wichtige W'' @ [CHR 0xC3, CHR 0xB6] @
        ''rter statt Pronomen zu verwenden'' @ [CHR 0x0A] @
        ''- Vermeide Metaphern und Redewendungen'' @ [CHR 0x0A, CHR 0x0A] @
        ''ORIGINALTEXT:'' @ [CHR 0x0A],
        [CHR 0x0A, CHR 0x0A] @ ''VEREINFACHTER TEXT (A1):''),
      (''A2'',
        ''Vereinfache den folgenden deutschen Text auf Sprachniveau A2'' @
        '' (Grundkenntnisse).'' @ [CHR 0x0A, CHR 0x0A] @ ''REGELN f'' @
        [CHR 0xC3, CHR 0xBC] @ ''r A2:'' @ [CHR 0x0A] @ ''- Pr'' @ [CHR 0xC3, CHR 0xA4] @
        ''sens und Perfekt erlaubt'' @ [CHR 0x0A] @ ''- Kurze, klare S'' @
        [CHR 0xC3, CHR 0xA4] @ ''tze (maximal 12 W'' @ [CHR 0xC3, CHR 0xB6] @ ''rter)'' @
        [CHR 0x0A] @ ''- Alltagswortschatz'' @ [CHR 0x0A] @ ''- Einfache Nebens'' @
        [CHR 0xC3, CHR 0xA4] @ ''tze mit '' @ [CHR 0x22] @ ''weil'' @ [CHR 0x22] @
        '', '' @ [CHR 0x22] @ ''dass'' @ [CHR 0x22] @ '', '' @ [CHR 0x22] @ ''wenn'' @
        [CHR 0x22] @ '' erlaubt'' @ [CHR 0x0A] @
        ''- Keine komplexen Passivkonstruktionen'' @ [CHR 0x0A] @
        ''- Einfache Konnektoren: und, aber, oder, dann'' @ [CHR 0x0A, CHR 0x0A] @
        ''ORIGINALTEXT:'' @ [CHR 0x0A],
        [CHR 0x0A, CHR 0x0A] @ ''VEREINFACHTER TEXT (A2):''),
      (''B1'',
        ''Vereinfache den folgenden deutschen Text auf Sprachniveau B1'' @
        '' (Mittelstufe).'' @ [CHR 0x0A, CHR 0x0A] @ ''REGELN f'' @
        [CHR 0xC3, CHR 0xBC] @ ''r B1:'' @ [CHR 0x0A] @
        ''- Alle Zeitformen erlaubt, aber klar strukturiert'' @ [CHR 0x0A] @
        ''- Mittellange S'' @ [CHR 0xC3, CHR 0xA4] @ ''tze (maximal 18 W'' @
        [CHR 0xC3, CHR 0xB6] @ ''rter)'' @ [CHR 0x0A] @
        ''- Erweiterter Wortschatz, aber keine Fachbegriffe ohne Erkl'' @
        [CHR 0xC3, CHR 0xA4] @ ''rung'' @ [CHR 0x0A] @ ''- Nebens'' @
        [CHR 0xC3, CHR 0xA4] @ ''tze erlaubt'' @ [CHR 0x0A] @ ''- Klare Textstruktur'' @
        [CHR 0x0A] @ ''- Schwierige W'' @ [CHR 0xC3, CHR 0xB6] @
        ''rter durch einfachere Synonyme ersetzen'' @ [CHR 0x0A, CHR 0x0A] @
        ''ORIGINALTEXT:'' @ [CHR 0x0A],
        [CHR 0x0A, CHR 0x0A] @ ''VEREINFACHTER TEXT (B1):'')]"

definition tasks_prompt :: "string \<Rightarrow> string" where
  "tasks_prompt txt =
     ''Erstelle 5 Verst'' @ [CHR 0xC3, CHR 0xA4] @
     ''ndnisaufgaben zu folgendem Text. Die Aufgaben sollen f'' @ [CHR 0xC3, CHR 0xBC] @
     ''r Sch'' @ [CHR 0xC3, CHR 0xBC] @ ''ler mit Leseschwierigkeiten geeignet sein.'' @
     [CHR 0x0A, CHR 0x0A] @ ''TEXT:'' @ [CHR 0x0A] @ txt @ [CHR 0x0A, CHR 0x0A] @
     ''Erstelle genau 5 Aufgaben in diesem JSON-Format (KEINE ander'' @
     ''en Texte, NUR das JSON-Array):'' @ [CHR 0x0A] @ ''['' @ [CHR 0x0A] @ ''  {'' @
     [CHR 0x22] @ ''type'' @ [CHR 0x22] @ '': '' @ [CHR 0x22] @ ''multiple_choice'' @
     [CHR 0x22] @ '', '' @ [CHR 0x22] @ ''question'' @ [CHR 0x22] @ '': '' @ [CHR 0x22] @
     ''Frage zum Text?'' @ [CHR 0x22] @ '', '' @ [CHR 0x22] @ ''options'' @ [CHR 0x22] @
     '': ['' @ [CHR 0x22] @ ''Antwort A'' @ [CHR 0x22] @ '', '' @ [CHR 0x22] @
     ''Antwort B'' @ [CHR 0x22] @ '', '' @ [CHR 0x22] @ ''Antwort C'' @ [CHR 0x22] @
     '', '' @ [CHR 0x22] @ ''Antwort D'' @ [CHR 0x22] @ ''], '' @ [CHR 0x22] @
     ''correct'' @ [CHR 0x22] @ '': 0},'' @ [CHR 0x0A] @ ''  {'' @ [CHR 0x22] @
     ''type'' @ [CHR 0x22] @ '': '' @ [CHR 0x22] @ ''true_false'' @ [CHR 0x22] @ '', '' @
     [CHR 0x22] @ ''question'' @ [CHR 0x22] @ '': '' @ [CHR 0x22] @
     ''Eine Aussage zum Text, die richtig oder falsch ist.'' @ [CHR 0x22] @ '', '' @
     [CHR 0x22] @ ''correct'' @ [CHR 0x22] @ '': true},'' @ [CHR 0x0A] @ ''  {'' @
     [CHR 0x22] @ ''type'' @ [CHR 0x22] @ '': '' @ [CHR 0x22] @ ''fill_blank'' @
     [CHR 0x22] @ '', '' @ [CHR 0x22] @ ''question'' @ [CHR 0x22] @ '': '' @ [CHR 0x22] @
     ''Ein Satz aus dem Text mit einer ___ L'' @ [CHR 0xC3, CHR 0xBC] @ ''cke.'' @
     [CHR 0x22] @ '', '' @ [CHR 0x22] @ ''correct'' @ [CHR 0x22] @ '': '' @ [CHR 0x22] @
     ''fehlendes Wort'' @ [CHR 0x22] @ ''},'' @ [CHR 0x0A] @ ''  {'' @ [CHR 0x22] @
     ''type'' @ [CHR 0x22] @ '': '' @ [CHR 0x22] @ ''short_answer'' @ [CHR 0x22] @
     '', '' @ [CHR 0x22] @ ''question'' @ [CHR 0x22] @ '': '' @ [CHR 0x22] @
     ''Eine offene Frage zum Text?'' @ [CHR 0x22] @ '', '' @ [CHR 0x22] @ ''hint'' @
     [CHR 0x22] @ '': '' @ [CHR 0x22] @ ''Ein kleiner Hinweis'' @ [CHR 0x22] @ ''},'' @
     [CHR 0x0A] @ ''  {'' @ [CHR 0x22] @ ''type'' @ [CHR 0x22] @ '': '' @ [CHR 0x22] @
     ''multiple_choice'' @ [CHR 0x22] @ '', '' @ [CHR 0x22] @ ''question'' @ [CHR 0x22] @
     '': '' @ [CHR 0x22] @ ''Noch eine Frage?'' @ [CHR 0x22] @ '', '' @ [CHR 0x22] @
     ''options'' @ [CHR 0x22] @ '': ['' @ [CHR 0x22] @ ''A'' @ [CHR 0x22] @ '', '' @
     [CHR 0x22] @ ''B'' @ [CHR 0x22] @ '', '' @ [CHR 0x22] @ ''C'' @ [CHR 0x22] @
     '', '' @ [CHR 0x22] @ ''D'' @ [CHR 0x22] @ ''], '' @ [CHR 0x22] @ ''correct'' @
     [CHR 0x22] @ '': 2}'' @ [CHR 0x0A] @ '']'' @ [CHR 0x0A, CHR 0x0A] @
     ''WICHTIGE REGELN:'' @ [CHR 0x0A] @ ''- Bei multiple_choice: '' @ [CHR 0x22] @
     ''correct'' @ [CHR 0x22] @ '' ist der INDEX (0-3) der richtigen Antwort'' @
     [CHR 0x0A] @ ''- Bei true_false: '' @ [CHR 0x22] @ ''correct'' @ [CHR 0x22] @
     '' ist true oder false'' @ [CHR 0x0A] @ ''- Bei fill_blank: '' @ [CHR 0x22] @
     ''correct'' @ [CHR 0x22] @ '' ist das fehlende Wort'' @ [CHR 0x0A] @
     ''- KEINE order/Sortier-Aufgaben erstellen - diese funktionier'' @
     ''en nicht gut'' @ [CHR 0x0A] @
     ''- Verwende verschiedene Aufgabentypen (mindestens 2 multiple'' @
     ''_choice, 1 true_false, 1 fill_blank)'' @ [CHR 0x0A] @ ''- Alle Fragen m'' @
     [CHR 0xC3, CHR 0xBC] @ ''ssen sich auf den gegebenen Text beziehen'' @
     [CHR 0x0A, CHR 0x0A] @ ''Antworte NUR mit dem JSON-Array, keine anderen Texte.''"

definition ocr_prompt :: string where
  "ocr_prompt =
     ''Extrahiere den gesamten Text aus diesem Bild. '' @ [CHR 0x0A] @
     ''Gib NUR den erkannten Text zur'' @ [CHR 0xC3, CHR 0xBC] @ ''ck, ohne Erkl'' @
     [CHR 0xC3, CHR 0xA4] @ ''rungen.'' @ [CHR 0x0A] @ ''Behalte Abs'' @
     [CHR 0xC3, CHR 0xA4] @
     ''tze bei. Wenn kein Text erkennbar ist: [KEIN TEXT ERKANNT]''"

definition translate_system_prompt :: "string \<Rightarrow> string" where
  "translate_system_prompt target_name =
     ''Du bist ein professioneller '' @ [CHR 0xC3, CHR 0x9C] @ ''bersetzer. '' @
     [CHR 0xC3, CHR 0x9C] @ ''bersetze ins '' @ target_name @ ''.'' @ [CHR 0x0A] @
     ''Regeln: NUR die '' @ [CHR 0xC3, CHR 0x9C] @ ''bersetzung ausgeben, keine Erkl'' @
     [CHR 0xC3, CHR 0xA4] @ ''rungen. Formatierung beibehalten.''"

definition transcribe_prompt :: "string \<Rightarrow> string" where
  "transcribe_prompt lang =
     ''Transkribiere diese Audio-Aufnahme auf '' @ lang @
     ''. Gib NUR den transkribierten Text zur'' @ [CHR 0xC3, CHR 0xBC] @ ''ck.''"


text \<open>
  \<^verbatim>\<open>get_word_info_from_ai(word, target_language, ai_key, ai_provider)\<close>.  \<open>fetch\<close> is
  \<^verbatim>\<open>requests.post\<close>; the value read is the content after \<^verbatim>\<open>.strip()\<close>.  \<open>json_object_in\<close> is
  the \<^verbatim>\<open>re.search\<close> for a brace, anything and a brace followed by \<^verbatim>\<open>json.loads\<close> of the match: the object, or
  \<open>None\<close> when nothing matches or \<^verbatim>\<open>json.loads\<close> raises.  Every exception is caught and
  logged, and the result is \<^verbatim>\<open>None\<close> then.
\<close>

definition get_word_info_from_ai ::
  "(api_call \<Rightarrow> string reply) \<Rightarrow> (string \<Rightarrow> (string \<times> json) list option) \<Rightarrow>
   string \<Rightarrow> string \<Rightarrow> string \<Rightarrow> string \<Rightarrow> (string \<times> json) list option" where
  "get_word_info_from_ai fetch json_object_in word target_language key provider =
     (let lang_name =
            (if target_language \<noteq> [] then Some (language_name_of target_language) else None);
          prompt = word_info_prompt word lang_name
      in case chat_call provider key
                [(''temperature'', ''0.3''), (''timeout'', ''15'')]
                [(''temperature'', ''0.3''), (''timeout'', ''15'')]
                [(''max_tokens'', ''1000''), (''timeout'', ''15'')] prompt of
           None \<Rightarrow> None
         | Some call \<Rightarrow>
             (case fetch call of
                Reply st body (Inr content) \<Rightarrow> if st = 200 then json_object_in content else None
              | _ \<Rightarrow> None))"

text \<open>
  \<^verbatim>\<open>generate_word_image_gemini(word, explanation, ai_key)\<close>.  The value read is what the two
  loops over the candidates and their parts find: \<open>None\<close>, or the \<^verbatim>\<open>data\<close> and the
  \<^verbatim>\<open>mimeType\<close> (\<^verbatim>\<open>image/png\<close> when missing) of the first part with \<^verbatim>\<open>inlineData\<close>.  Every
  exception is caught and logged.
\<close>

definition generate_word_image_gemini ::
  "(api_call \<Rightarrow> (json \<times> json) option reply) \<Rightarrow> string \<Rightarrow> string \<Rightarrow> string \<Rightarrow> json option" where
  "generate_word_image_gemini fetch word explanation key =
     (case fetch (google_generate key ''gemini-2.5-flash-image'' [(''timeout'', ''45'')]
                    [word_image_prompt word explanation]) of
        Reply st body (Inr (Some (img, mime))) \<Rightarrow>
          if st = 200 then Some (JObj [(''image_base64'', img), (''mime_type'', mime)])
          else None
      | _ \<Rightarrow> None)"

definition dict_update :: "(string \<times> json) list \<Rightarrow> (string \<times> json) list \<Rightarrow> (string \<times> json) list" where
  \<comment> \<open>\<^verbatim>\<open>result.update(other)\<close>\<close>
  "dict_update result other = foldl (\<lambda>d (k, v). AList.update k v d) result other"

text \<open>
  \<^verbatim>\<open>get_word_info\<close>, the route \<^verbatim>\<open>/api/word-info\<close>.  \<open>word\<close> is the field after \<^verbatim>\<open>.strip()\<close>,
  \<open>re_clean\<close> is the \<^verbatim>\<open>re.sub\<close> that removes punctuation, followed by \<^verbatim>\<open>.strip()\<close>, and
  \<open>py_repr\<close> the text Python gives for a value that is no string.
\<close>

definition get_word_info ::
  "(string \<Rightarrow> string) \<Rightarrow> (api_call \<Rightarrow> string reply) \<Rightarrow> (string \<Rightarrow> (string \<times> json) list option) \<Rightarrow>
   (api_call \<Rightarrow> (json \<times> json) option reply) \<Rightarrow> (json \<Rightarrow> string) \<Rightarrow>
   int \<Rightarrow> string \<Rightarrow> string \<Rightarrow> string \<Rightarrow> registry \<Rightarrow> sent list \<times> registry" where
  "get_word_info re_clean fetch json_object_in fetch_image py_repr
       now word session_code target_language sessions =
     (if word = [] then ([error_response ''Kein Wort angegeben'' 400], sessions)
      else
        (let clean_word = re_clean word
         in if clean_word = [] then
              ([error_response (''Ung'' @ [CHR 0xC3, CHR 0xBC] @ ''ltiges Wort'') 400], sessions)
            else
              (let (session, sessions') =
                     (if session_code \<noteq> [] then get_session now session_code sessions
                      else (None, sessions));
                   key = (case session of Some s \<Rightarrow> ai (keys s) | None \<Rightarrow> []);
                   provider = (case session of Some s \<Rightarrow> ai_provider (keys s) | None \<Rightarrow> ''google'');
                   result = [(''word'', JStr clean_word), (''original_word'', JStr word)];
                   result' =
                     (if key \<noteq> [] then
                        (case get_word_info_from_ai fetch json_object_in clean_word
                                target_language key provider of
                           Some word_info \<Rightarrow>
                             if word_info \<noteq> [] then dict_update result word_info else result
                         | None \<Rightarrow> result)
                      else
                        result @
                        [(''simple_explanation'',
                          JStr (''Keine Erkl'' @ [CHR 0xC3, CHR 0xA4] @ ''rung verf'' @
                                [CHR 0xC3, CHR 0xBC] @ ''gbar (kein AI-Key konfiguriert)'')),
                         (''word_type'', JStr []),
                         (''article'', JStr [])]);
                   result'' =
                     (if key \<noteq> [] \<and> provider = ''google'' then
                        (let explanation =
                               (case map_of result' ''simple_explanation'' of
                                  Some v \<Rightarrow> format_value py_repr v
                                | None \<Rightarrow> clean_word)
                         in case generate_word_image_gemini fetch_image clean_word explanation key of
                              Some image_data \<Rightarrow> AList.update ''image'' image_data result'
                            | None \<Rightarrow> result')
                      else result')
               in ([Response (JObj result'') 200], sessions'))))"

text \<open>
  \<^verbatim>\<open>simplify_text_with_ai(text, level, ai_key, ai_provider)\<close>: the simplified text, or \<open>Inl\<close>
  of the text of the exception it ends with.  The value read is the content after
  \<^verbatim>\<open>.strip()\<close>.  An exception of the request or of the reading is logged and raised again.
\<close>

definition simplification_failed :: "string \<Rightarrow> string" where
  "simplification_failed provider = ''Textvereinfachung fehlgeschlagen ('' @ provider @ '')''"

definition simplify_text_with_ai ::
  "(api_call \<Rightarrow> string reply) \<Rightarrow> string \<Rightarrow> string \<Rightarrow> string \<Rightarrow> string \<Rightarrow> string + string" where
  "simplify_text_with_ai fetch txt lvl key provider =
     (case map_of SIMPLIFICATION_PROMPTS lvl of
        None \<Rightarrow> Inl (''Unbekanntes Niveau: '' @ lvl)
      | Some (before, after) \<Rightarrow>
          (case chat_call provider key
                  [(''temperature'', ''0.3''), (''timeout'', ''30'')]
                  [(''temperature'', ''0.3''), (''timeout'', ''30'')]
                  [(''max_tokens'', ''4000''), (''timeout'', ''30'')] (before @ txt @ after) of
             None \<Rightarrow> Inl (simplification_failed provider)
           | Some call \<Rightarrow>
               (case fetch call of
                  Raised msg \<Rightarrow> Inl msg
                | TimedOut msg \<Rightarrow> Inl msg
                | Reply st body content \<Rightarrow>
                    if st = 200 then content else Inl (simplification_failed provider))))"

text \<open>
  \<^verbatim>\<open>simplify_text\<close>, the route \<^verbatim>\<open>/api/simplify-text\<close>.  \<open>txt\<close> is the field after \<^verbatim>\<open>.strip()\<close>
  and \<open>lvl\<close> the field, \<^verbatim>\<open>A2\<close> when missing, after \<^verbatim>\<open>.upper()\<close>.
\<close>

definition simplify_text ::
  "(api_call \<Rightarrow> string reply) \<Rightarrow> int \<Rightarrow> string \<Rightarrow> string \<Rightarrow> string \<Rightarrow> registry \<Rightarrow>
   sent list \<times> registry" where
  "simplify_text fetch now txt lvl session_code sessions =
     (if txt = [] then ([error_response ''Kein Text angegeben'' 400], sessions)
      else if lvl \<notin> set [''A1'', ''A2'', ''B1''] then
        ([error_response (''Ung'' @ [CHR 0xC3, CHR 0xBC] @ ''ltiges Niveau. Erlaubt: A1, A2, B1'') 400],
         sessions)
      else
        (case (if session_code \<noteq> [] then get_session now session_code sessions
               else (None, sessions)) of
           (None, sessions') \<Rightarrow> ([error_response ''Session nicht gefunden'' 404], sessions')
         | (Some s, sessions') \<Rightarrow>
             if \<not> simplification_enabled s then
               ([error_response ''Textvereinfachung ist nicht aktiviert'' 403], sessions')
             else if ai (keys s) = [] then
               ([error_response ''Kein AI-Key konfiguriert'' 400], sessions')
             else
               (case simplify_text_with_ai fetch txt lvl (ai (keys s)) (ai_provider (keys s)) of
                  Inl msg \<Rightarrow> ([error_response msg 500], sessions')
                | Inr simplified \<Rightarrow>
                    ([Response (JObj [(''original_text'', JStr txt),
                                      (''simplified_text'', JStr simplified),
                                      (''level'', JStr lvl)]) 200],
                     sessions'))))"

text \<open>
  \<^verbatim>\<open>api_generate_tasks\<close>, the route \<^verbatim>\<open>/api/generate-tasks\<close>.  The value read is the content.
  \<open>json_array_in\<close> is the \<^verbatim>\<open>re.search\<close> for a bracket, anything and a bracket followed by \<^verbatim>\<open>json.loads\<close> of the
  match: \<open>None\<close> when nothing matches, the text of the exception of \<^verbatim>\<open>json.loads\<close>, or the
  list.
\<close>

definition generate_tasks ::
  "(api_call \<Rightarrow> string reply) \<Rightarrow> (string \<Rightarrow> (string + json list) option) \<Rightarrow>
   string \<Rightarrow> string \<Rightarrow> string \<Rightarrow> string + json list" where
  \<comment> \<open>the \<^verbatim>\<open>tasks\<close> of \<^verbatim>\<open>api_generate_tasks\<close> after the request, or the text of an exception\<close>
  "generate_tasks fetch json_array_in txt key provider =
     (case chat_call provider key [(''temperature'', ''0.7'')] [(''temperature'', ''0.7'')]
             [(''max_tokens'', ''2000'')] (tasks_prompt txt) of
        None \<Rightarrow> Inr []
      | Some call \<Rightarrow>
          (case fetch call of
             Raised msg \<Rightarrow> Inl msg
           | TimedOut msg \<Rightarrow> Inl msg
           | Reply st body reading \<Rightarrow>
               if st = 200 then
                 (case reading of
                    Inl msg \<Rightarrow> Inl msg
                  | Inr content \<Rightarrow>
                      (case json_array_in content of
                         None \<Rightarrow> Inr []
                       | Some (Inl msg) \<Rightarrow> Inl msg
                       | Some (Inr found) \<Rightarrow> Inr found))
               else Inr []))"

definition api_generate_tasks ::
  "(api_call \<Rightarrow> string reply) \<Rightarrow> (string \<Rightarrow> (string + json list) option) \<Rightarrow>
   int \<Rightarrow> string \<Rightarrow> string \<Rightarrow> registry \<Rightarrow> sent list \<times> registry" where
  "api_generate_tasks fetch json_array_in now txt session_code sessions =
     (if txt = [] then ([error_response ''Text fehlt'' 400], sessions)
      else
        (case get_session_keys now session_code sessions of
           (None, sessions') \<Rightarrow> ([error_response ''Session nicht gefunden'' 404], sessions')
         | (Some ks, sessions') \<Rightarrow>
             if ai ks = [] then
               ([error_response ''KI API Key nicht konfiguriert'' 400], sessions')
             else
               (case generate_tasks fetch json_array_in txt (ai ks) (ai_provider ks) of
                  Inl msg \<Rightarrow> ([error_response msg 500], sessions')
                | Inr found \<Rightarrow>
                    if found = [] then
                      ([error_response ''Aufgabengenerierung fehlgeschlagen'' 500], sessions')
                    else ([Response (JObj [(''tasks'', JList found)]) 200], sessions'))))"

section \<open>Speech, images and translation\<close>

text \<open>
  The cache keys.  \<open>md5\<close> is \<^verbatim>\<open>hashlib.md5(content.encode('utf-8')).hexdigest()\<close>.
\<close>

definition get_cache_key :: "(string \<Rightarrow> string) \<Rightarrow> string \<Rightarrow> string \<Rightarrow> string" where
  "get_cache_key md5 txt voice = md5 (txt @ ''|'' @ voice)"

definition get_translation_cache_key :: "(string \<Rightarrow> string) \<Rightarrow> string \<Rightarrow> string \<Rightarrow> string" where
  "get_translation_cache_key md5 txt target_language = md5 (txt @ ''|'' @ target_language)"

definition key_error_text :: "py_error \<Rightarrow> string \<Rightarrow> string" where
  \<comment> \<open>\<^verbatim>\<open>str(e)\<close> of the \<^verbatim>\<open>KeyError\<close> of a dictionary for the key: the key in quotes\<close>
  "key_error_text e k = [CHR 0x27] @ k @ [CHR 0x27]"

text \<open>
  \<^verbatim>\<open>proxy_tts\<close>, the route \<^verbatim>\<open>/api/tts\<close>.  The fields of the request are optional; the value
  read is \<^verbatim>\<open>response.json()\<close>.  \<open>py_repr\<close> is the text Python gives for a value that is no
  string.  The route returns its response with the cache and the sessions it leaves.
\<close>

definition LANGUAGE_FALLBACKS :: "(string, string) py_dict" where
  "LANGUAGE_FALLBACKS = [(''uk'', ''ru''), (''bg'', ''ru'')]"

definition tts_error_message :: "(json \<Rightarrow> string) \<Rightarrow> nat \<Rightarrow> string + json \<Rightarrow> json" where
  \<comment> \<open>\<^verbatim>\<open>error_msg\<close> for a response whose status is not 200\<close>
  "tts_error_message py_repr st reading =
     (case reading of
        Inr (JObj error_data) \<Rightarrow>
          (case py_get (JObj []) (map_of error_data ''detail'') of
             JObj error_detail \<Rightarrow>
               py_get (JStr (py_repr (JObj error_data))) (map_of error_detail ''message'')
           | error_detail \<Rightarrow>
               if format_value py_repr error_detail \<noteq> []
               then JStr (format_value py_repr error_detail)
               else JStr (py_repr (JObj error_data)))
      | _ \<Rightarrow> JStr (''ElevenLabs API Fehler (Status '' @ py_str st @ '')''))"

definition proxy_tts ::
  "(string \<Rightarrow> string) \<Rightarrow> (api_call \<Rightarrow> json reply) \<Rightarrow> (json \<Rightarrow> string) \<Rightarrow>
   int \<Rightarrow> string option \<Rightarrow> string \<Rightarrow> string option \<Rightarrow> string option \<Rightarrow> string option \<Rightarrow>
   string option \<Rightarrow> (string, json) py_dict \<Rightarrow> registry \<Rightarrow>
   sent list \<times> (string, json) py_dict \<times> registry" where
  "proxy_tts md5 fetch py_repr now txt session_code api_key_field voice_field
       language_field model_field tts_cache sessions =
     (if \<not> truthy txt then ([error_response ''Text fehlt'' 400], tts_cache, sessions)
      else
        (let (found, sessions') =
               (if session_code \<noteq> [] then get_session_keys now session_code sessions
                else (None, sessions))
         in if session_code \<noteq> [] \<and> found = None then
              ([error_response ''Session nicht gefunden oder abgelaufen'' 404], tts_cache, sessions')
            else if session_code = [] \<and> \<not> truthy api_key_field then
              ([error_response ''API Key oder Session-Code erforderlich'' 400], tts_cache, sessions')
            else
              (let api_key = (case found of Some ks \<Rightarrow> elevenlabs ks | None \<Rightarrow> the api_key_field);
                   voice =
                     (case found of
                        Some ks \<Rightarrow> if truthy voice_field then the voice_field else voice_id ks
                      | None \<Rightarrow> py_get DEFAULT_VOICE voice_field);
                   original_language = py_get ''de'' language_field;
                   language_code = py_get original_language (map_of LANGUAGE_FALLBACKS original_language);
                   cache_key = get_cache_key md5 (the txt @ language_code) voice
               in case get_from_cache cache_key tts_cache of
                    Inl e \<Rightarrow> ([error_response (key_error_text e cache_key) 500], tts_cache, sessions')
                  | Inr (cached, tts_cache') \<Rightarrow>
                      if (case cached of Some v \<Rightarrow> json_truthy v | None \<Rightarrow> False) then
                        ([Response (the cached) 200], tts_cache', sessions')
                      else
                        (case fetch \<lparr> call_url = ''https://api.elevenlabs.io/v1/text-to-speech/'' @
                                                  voice @ ''/with-timestamps'',
                                       key_header = Some ''xi-api-key'',
                                       call_key = api_key,
                                       call_model = py_get ''eleven_multilingual_v2'' model_field,
                                       call_params = [(''stability'', ''0.5''),
                                                      (''similarity_boost'', ''0.75''),
                                                      (''timeout'', ''60'')],
                                       call_texts = [the txt, language_code] \<rparr> of
                           TimedOut msg \<Rightarrow> ([error_response ''Timeout'' 504], tts_cache', sessions')
                         | Raised msg \<Rightarrow> ([error_response msg 500], tts_cache', sessions')
                         | Reply st body reading \<Rightarrow>
                             if st \<noteq> 200 then
                               ([Response (JObj [(''error'', tts_error_message py_repr st reading)]) st],
                                tts_cache', sessions')
                             else
                               (case reading of
                                  Inl msg \<Rightarrow> ([error_response msg 500], tts_cache', sessions')
                                | Inr response_data \<Rightarrow>
                                    (case add_to_cache cache_key response_data tts_cache' of
                                       Inl e \<Rightarrow>
                                         ([error_response (key_error_text e cache_key) 500],
                                          tts_cache', sessions')
                                     | Inr tts_cache'' \<Rightarrow>
                                         ([Response response_data 200], tts_cache'', sessions')))))))"

text \<open>
  The three vision requests and the three text requests.  Each raises when the status is
  not 200, with the text of the response in the text of the exception, and returns the
  content it reads otherwise.
\<close>

definition raise_for_status :: "string \<Rightarrow> 'a reply \<Rightarrow> string + 'a" where
  "raise_for_status label r =
     (case r of
        Raised msg \<Rightarrow> Inl msg
      | TimedOut msg \<Rightarrow> Inl msg
      | Reply st body reading \<Rightarrow> if st \<noteq> 200 then Inl (label @ body) else reading)"

definition call_openai_vision ::
  "(api_call \<Rightarrow> 'a reply) \<Rightarrow> string \<Rightarrow> string \<Rightarrow> string \<Rightarrow> string \<Rightarrow> string + 'a" where
  "call_openai_vision fetch api_key prompt image_base64 mime_type =
     raise_for_status ''OpenAI Vision Error: ''
       (fetch (openai_chat api_key ''gpt-4o'' [(''max_tokens'', ''4000''), (''timeout'', ''60'')]
                 [prompt, ''data:'' @ mime_type @ '';base64,'' @ image_base64]))"

definition call_anthropic_vision ::
  "(api_call \<Rightarrow> 'a reply) \<Rightarrow> string \<Rightarrow> string \<Rightarrow> string \<Rightarrow> string \<Rightarrow> string + 'a" where
  "call_anthropic_vision fetch api_key prompt image_base64 mime_type =
     raise_for_status ''Anthropic Vision Error: ''
       (fetch (anthropic_messages api_key ''claude-sonnet-4-20250514''
                 [(''max_tokens'', ''4000''), (''timeout'', ''60'')]
                 [mime_type, image_base64, prompt]))"

definition call_google_vision ::
  "(api_call \<Rightarrow> 'a reply) \<Rightarrow> string \<Rightarrow> string \<Rightarrow> string \<Rightarrow> string \<Rightarrow> string + 'a" where
  "call_google_vision fetch api_key prompt image_base64 mime_type =
     raise_for_status ''Google Vision Error: ''
       (fetch (google_generate api_key ''gemini-2.0-flash'' [(''timeout'', ''60'')]
                 [prompt, mime_type, image_base64]))"

definition call_openai_text ::
  "(api_call \<Rightarrow> 'a reply) \<Rightarrow> string \<Rightarrow> string \<Rightarrow> string \<Rightarrow> string + 'a" where
  "call_openai_text fetch api_key system_prompt user_message =
     raise_for_status ''OpenAI Error: ''
       (fetch (openai_chat api_key ''gpt-4o'' [(''max_tokens'', ''4000''), (''timeout'', ''60'')]
                 [system_prompt, user_message]))"

definition call_anthropic_text ::
  "(api_call \<Rightarrow> 'a reply) \<Rightarrow> string \<Rightarrow> string \<Rightarrow> string \<Rightarrow> string + 'a" where
  "call_anthropic_text fetch api_key system_prompt user_message =
     raise_for_status ''Anthropic Error: ''
       (fetch (anthropic_messages api_key ''claude-sonnet-4-20250514''
                 [(''max_tokens'', ''4000''), (''timeout'', ''60'')]
                 [system_prompt, user_message]))"

definition call_google_text ::
  "(api_call \<Rightarrow> 'a reply) \<Rightarrow> string \<Rightarrow> string \<Rightarrow> string \<Rightarrow> string + 'a" where
  "call_google_text fetch api_key system_prompt user_message =
     raise_for_status ''Google Error: ''
       (fetch (google_generate api_key ''gemini-2.0-flash'' [(''timeout'', ''60'')]
                 [system_prompt @ [CHR 0x0A, CHR 0x0A] @ user_message]))"

text \<open>
  \<^verbatim>\<open>ocr_image\<close>, the route \<^verbatim>\<open>/api/ocr\<close>.  The value read is the content, a string; \<open>strip\<close>
  is \<^verbatim>\<open>str.strip\<close>.
\<close>

definition ocr_image ::
  "(api_call \<Rightarrow> string reply) \<Rightarrow> (string \<Rightarrow> string) \<Rightarrow>
   int \<Rightarrow> string option \<Rightarrow> string option \<Rightarrow> string \<Rightarrow> string option \<Rightarrow> string option \<Rightarrow>
   registry \<Rightarrow> sent list \<times> registry" where
  "ocr_image fetch strip now image_field mime_field session_code api_key_field provider_field sessions =
     (if \<not> truthy image_field then
        ([error_response (''Kein Bild '' @ [CHR 0xC3, CHR 0xBC] @ ''bermittelt'') 400], sessions)
      else
        (let (found, sessions') =
               (if session_code \<noteq> [] then get_session_keys now session_code sessions
                else (None, sessions))
         in if session_code \<noteq> [] \<and> found = None then
              ([error_response ''Session nicht gefunden'' 404], sessions')
            else
              (let api_key = (case found of Some ks \<Rightarrow> Some (ai ks) | None \<Rightarrow> api_key_field);
                   provider =
                     (case found of Some ks \<Rightarrow> ai_provider ks | None \<Rightarrow> py_get ''openai'' provider_field);
                   mime_type = py_get ''image/jpeg'' mime_field
               in if \<not> truthy api_key then
                    ([error_response ''KI API Key erforderlich'' 400], sessions')
                  else if provider \<notin> set [''openai'', ''anthropic'', ''google''] then
                    ([error_response (''Unbekannter Provider: '' @ provider) 400], sessions')
                  else
                    (case (if provider = ''openai'' then
                             call_openai_vision fetch (the api_key) ocr_prompt (the image_field) mime_type
                           else if provider = ''anthropic'' then
                             call_anthropic_vision fetch (the api_key) ocr_prompt (the image_field) mime_type
                           else call_google_vision fetch (the api_key) ocr_prompt (the image_field) mime_type) of
                       Inl msg \<Rightarrow> ([error_response (''OCR-Fehler: '' @ msg) 500], sessions')
                     | Inr found_text \<Rightarrow>
                         if is_infix ''[KEIN TEXT ERKANNT]'' found_text then
                           ([error_response ''Kein Text im Bild erkannt'' 400], sessions')
                         else ([Response (JObj [(''text'', JStr (strip found_text))]) 200], sessions')))))"

text \<open>
  \<^verbatim>\<open>proxy_translate\<close>, the route \<^verbatim>\<open>/api/translate\<close>.  The value read is the content.
\<close>

definition language_names :: "(string, string) py_dict" where
  \<comment> \<open>the local \<^verbatim>\<open>language_names\<close> of \<^verbatim>\<open>proxy_translate\<close>\<close>
  "language_names =
     [(''de'', ''Deutsch''), (''tr'', ''T'' @ [CHR 0xC3, CHR 0xBC] @ ''rkisch''),
      (''bg'', ''Bulgarisch''), (''ar'', ''Arabisch''), (''uk'', ''Ukrainisch''),
      (''en'', ''Englisch'')]"

definition proxy_translate ::
  "(string \<Rightarrow> string) \<Rightarrow> (api_call \<Rightarrow> json reply) \<Rightarrow>
   int \<Rightarrow> string option \<Rightarrow> string option \<Rightarrow> string \<Rightarrow> string option \<Rightarrow> string option \<Rightarrow>
   (string, json) py_dict \<Rightarrow> registry \<Rightarrow> sent list \<times> (string, json) py_dict \<times> registry" where
  "proxy_translate md5 fetch now txt language_field session_code api_key_field provider_field
       translation_cache sessions =
     (let target_language = py_get ''de'' language_field
      in if \<not> truthy txt then ([error_response ''Text fehlt'' 400], translation_cache, sessions)
         else if target_language = ''de'' then
           ([Response (JObj [(''translated_text'', JStr (the txt))]) 200], translation_cache, sessions)
         else
           (let (found, sessions') =
                  (if session_code \<noteq> [] then get_session_keys now session_code sessions
                   else (None, sessions))
            in if session_code \<noteq> [] \<and> found = None then
                 ([error_response ''Session nicht gefunden'' 404], translation_cache, sessions')
               else
                 (let api_key = (case found of Some ks \<Rightarrow> Some (ai ks) | None \<Rightarrow> api_key_field);
                      provider =
                        (case found of
                           Some ks \<Rightarrow> ai_provider ks
                         | None \<Rightarrow> py_get ''openai'' provider_field);
                      cache_key = get_translation_cache_key md5 (the txt) target_language
                  in if \<not> truthy api_key then
                       ([error_response ''KI API Key erforderlich'' 400], translation_cache, sessions')
                     else
                       (case get_from_translation_cache cache_key translation_cache of
                          Inl e \<Rightarrow>
                            ([error_response (key_error_text e cache_key) 500],
                             translation_cache, sessions')
                        | Inr (cached, cache') \<Rightarrow>
                            if (case cached of Some v \<Rightarrow> json_truthy v | None \<Rightarrow> False) then
                              ([Response (JObj [(''translated_text'', the cached),
                                                (''cached'', JBool True)]) 200],
                               cache', sessions')
                            else if provider \<notin> set [''openai'', ''anthropic'', ''google''] then
                              ([error_response ''Unbekannter Provider'' 400], cache', sessions')
                            else
                              (let system_prompt =
                                     translate_system_prompt
                                       (py_get ''Deutsch'' (map_of language_names target_language))
                               in case (if provider = ''openai'' then
                                          call_openai_text fetch (the api_key) system_prompt (the txt)
                                        else if provider = ''anthropic'' then
                                          call_anthropic_text fetch (the api_key) system_prompt (the txt)
                                        else call_google_text fetch (the api_key) system_prompt (the txt)) of
                                    Inl msg \<Rightarrow> ([error_response msg 500], cache', sessions')
                                  | Inr result \<Rightarrow>
                                      (case add_to_translation_cache cache_key result cache' of
                                         Inl e \<Rightarrow>
                                           ([error_response (key_error_text e cache_key) 500],
                                            cache', sessions')
                                       | Inr cache'' \<Rightarrow>
                                           ([Response (JObj [(''translated_text'', result)]) 200],
                                            cache'', sessions')))))))"

text \<open>
  \<^verbatim>\<open>transcribe_with_whisper\<close> and \<^verbatim>\<open>transcribe_with_gemini\<close>: the response of the route, or \<open>Inl\<close> of
  the text of an exception.  The value read is the transcription.  \<open>b64\<close> is
  \<^verbatim>\<open>base64.b64encode(audio_data).decode('utf-8')\<close>.
\<close>

definition transcribe_with_whisper ::
  "(api_call \<Rightarrow> json reply) \<Rightarrow> string \<Rightarrow> string \<Rightarrow> string \<Rightarrow> string + sent" where
  "transcribe_with_whisper fetch api_key audio_data lang =
     (case fetch \<lparr> call_url = ''https://api.openai.com/v1/audio/transcriptions'',
                   key_header = Some ''Authorization'',
                   call_key = api_key,
                   call_model = ''whisper-1'',
                   call_params = [(''timeout'', ''60'')],
                   call_texts = [audio_data, lang] \<rparr> of
        Raised msg \<Rightarrow> Inl msg
      | TimedOut msg \<Rightarrow> Inl msg
      | Reply st body reading \<Rightarrow>
          if st \<noteq> 200 then Inr (error_response (''Whisper Error: '' @ body) st)
          else (case reading of
                  Inl msg \<Rightarrow> Inl msg
                | Inr transcribed \<Rightarrow> Inr (Response (JObj [(''text'', transcribed)]) 200)))"

definition transcribe_with_gemini ::
  "(string \<Rightarrow> string) \<Rightarrow> (api_call \<Rightarrow> json reply) \<Rightarrow> string \<Rightarrow> string \<Rightarrow> string \<Rightarrow> string + sent" where
  "transcribe_with_gemini b64 fetch api_key audio_data lang =
     (case fetch (google_generate api_key ''gemini-2.0-flash'' [(''timeout'', ''60'')]
                    [transcribe_prompt lang, ''audio/webm'', b64 audio_data]) of
        Raised msg \<Rightarrow> Inl msg
      | TimedOut msg \<Rightarrow> Inl msg
      | Reply st body reading \<Rightarrow>
          if st \<noteq> 200 then Inr (error_response (''Gemini Error: '' @ body) st)
          else (case reading of
                  Inl msg \<Rightarrow> Inl msg
                | Inr transcribed \<Rightarrow> Inr (Response (JObj [(''text'', transcribed)]) 200)))"

text \<open>
  \<^verbatim>\<open>proxy_speech_to_text\<close>, the route \<^verbatim>\<open>/api/speech-to-text\<close>.  \<open>audio\<close> is the content of the
  file \<^verbatim>\<open>audio\<close> of the request, \<open>None\<close> when there is none.
\<close>

definition proxy_speech_to_text ::
  "(string \<Rightarrow> string) \<Rightarrow> (api_call \<Rightarrow> json reply) \<Rightarrow>
   int \<Rightarrow> string option \<Rightarrow> string \<Rightarrow> string option \<Rightarrow> string option \<Rightarrow> string option \<Rightarrow>
   registry \<Rightarrow> sent list \<times> registry" where
  "proxy_speech_to_text b64 fetch now audio session_code api_key_field provider_field
       language_field sessions =
     (if audio = None then ([error_response ''Keine Audio-Datei'' 400], sessions)
      else
        (let (found, sessions') =
               (if session_code \<noteq> [] then get_session_keys now session_code sessions
                else (None, sessions))
         in if session_code \<noteq> [] \<and> found = None then
              ([error_response ''Session nicht gefunden'' 404], sessions')
            else
              (let api_key = (case found of Some ks \<Rightarrow> Some (ai ks) | None \<Rightarrow> api_key_field);
                   provider =
                     (case found of Some ks \<Rightarrow> ai_provider ks | None \<Rightarrow> py_get ''openai'' provider_field);
                   lang = py_get ''de'' language_field
               in if \<not> truthy api_key then
                    ([error_response ''API Key erforderlich'' 400], sessions')
                  else
                    (case (if provider = ''google'' then
                             transcribe_with_gemini b64 fetch (the api_key) (the audio) lang
                           else transcribe_with_whisper fetch (the api_key) (the audio) lang) of
                       Inl msg \<Rightarrow> ([error_response msg 500], sessions')
                     | Inr response \<Rightarrow> ([response], sessions')))))"

text \<open>
  \<^verbatim>\<open>proxy_speech_to_text_scribe\<close>, the route \<^verbatim>\<open>/api/speech-to-text-scribe\<close>.  The value read is
  \<^verbatim>\<open>response.json()\<close>.  \<open>py_repr\<close> is the text Python gives for a value that is no string,
  \<open>attribute_error\<close> the text of the exception of \<^verbatim>\<open>.get\<close> on a value that is no
  dictionary, and \<open>slice_error\<close> that of \<^verbatim>\<open>[:50]\<close>, which the log line applies to the text of
  the transcription, on a value that is neither a string nor a list.
\<close>

definition scribe_error_detail :: "string \<Rightarrow> string + json \<Rightarrow> json" where
  \<comment> \<open>\<^verbatim>\<open>error_detail\<close> for a response whose status is not 200\<close>
  "scribe_error_detail body reading =
     (case reading of
        Inr (JObj error_json) \<Rightarrow>
          (case py_get (JObj []) (map_of error_json ''detail'') of
             JObj detail \<Rightarrow>
               py_get (py_get (JStr body) (map_of error_json ''detail'')) (map_of detail ''message'')
           | _ \<Rightarrow> JStr body)
      | _ \<Rightarrow> JStr body)"

definition proxy_speech_to_text_scribe ::
  "(api_call \<Rightarrow> json reply) \<Rightarrow> (json \<Rightarrow> string) \<Rightarrow> (json \<Rightarrow> string) \<Rightarrow> (json \<Rightarrow> string) \<Rightarrow>
   int \<Rightarrow> string option \<Rightarrow> string \<Rightarrow> string option \<Rightarrow> string option \<Rightarrow>
   registry \<Rightarrow> sent list \<times> registry" where
  "proxy_speech_to_text_scribe fetch py_repr attribute_error slice_error now audio session_code
       api_key_field language_field sessions =
     (if audio = None then ([error_response ''Keine Audio-Datei'' 400], sessions)
      else
        (let (found, sessions') =
               (if session_code \<noteq> [] then get_session_keys now session_code sessions
                else (None, sessions))
         in if session_code \<noteq> [] \<and> found = None then
              ([error_response ''Session nicht gefunden'' 404], sessions')
            else
              (let api_key =
                     (case found of Some ks \<Rightarrow> Some (elevenlabs ks) | None \<Rightarrow> api_key_field);
                   lang = py_get ''de'' language_field
               in if \<not> truthy api_key then
                    ([error_response ''ElevenLabs API Key erforderlich'' 400], sessions')
                  else if length (the audio) < 100 then
                    ([error_response ''Audio-Aufnahme zu kurz'' 400], sessions')
                  else
                    (case fetch \<lparr> call_url = ''https://api.elevenlabs.io/v1/speech-to-text'',
                                   key_header = Some ''xi-api-key'',
                                   call_key = the api_key,
                                   call_model = ''scribe_v1'',
                                   call_params =
                                     [(''tag_audio_events'', ''false''),
                                      (''timestamps_granularity'', ''word'')] @
                                     (if lang \<noteq> [] \<and> lang \<noteq> ''auto''
                                      then [(''language_code'', lang)] else []) @
                                     [(''timeout'', ''30'')],
                                   call_texts = [the audio] \<rparr> of
                       Raised msg \<Rightarrow> ([error_response msg 500], sessions')
                     | TimedOut msg \<Rightarrow> ([error_response msg 500], sessions')
                     | Reply st body reading \<Rightarrow>
                         if st \<noteq> 200 then
                           ([error_response
                               (''ElevenLabs Scribe Fehler: '' @
                                format_value py_repr (scribe_error_detail body reading)) st],
                            sessions')
                         else
                           (case reading of
                              Inl msg \<Rightarrow> ([error_response msg 500], sessions')
                            | Inr (JObj result) \<Rightarrow>
                                (let transcribed = py_get (JStr []) (map_of result ''text'')
                                 in if (case transcribed of
                                          JStr t \<Rightarrow> False | JList ts \<Rightarrow> False | _ \<Rightarrow> True)
                                    then ([error_response (slice_error transcribed) 500], sessions')
                                    else
                                      ([Response
                                          (JObj [(''text'', transcribed),
                                                 (''language'',
                                                  py_get (JStr lang)
                                                    (map_of result ''language_code'')),
                                                 (''words'', py_get (JList []) (map_of result ''words'')),
                                                 (''provider'', JStr ''elevenlabs_scribe'')]) 200],
                                       sessions'))
                            | Inr other \<Rightarrow> ([error_response (attribute_error other) 500], sessions'))))))"

text \<open>
  \<^verbatim>\<open>extract_text_from_file\<close>, the route \<^verbatim>\<open>/api/extract-text\<close>.  \<open>upload\<close> is the file of the
  request, its name after \<^verbatim>\<open>.lower()\<close> and its content.  The libraries are outside the
  program: \<open>docx_text\<close> and \<open>pdf_text\<close> give the text read out of a document, joined as the
  route joins it, \<open>decode\<close> is \<^verbatim>\<open>.decode('utf-8')\<close>, each with the text of its exception as
  \<open>Inl\<close>; \<open>docx_available\<close> and \<open>pdf_available\<close> tell whether the imports worked;
  \<open>cleanup\<close> is what \<^verbatim>\<open>cleanup_extracted_text\<close> does to a text that is not empty, a chain of
  \<^verbatim>\<open>re.sub\<close> and a \<^verbatim>\<open>.strip()\<close>, and \<open>strip\<close> is \<^verbatim>\<open>str.strip\<close>.
\<close>

definition ends_with :: "string \<Rightarrow> string \<Rightarrow> bool" where
  "ends_with filename suffix \<longleftrightarrow>
     length suffix \<le> length filename \<and>
     drop (length filename - length suffix) filename = suffix"

definition extract_text_from_file ::
  "bool \<Rightarrow> bool \<Rightarrow> (string \<Rightarrow> string + string) \<Rightarrow> (string \<Rightarrow> string + string) \<Rightarrow>
   (string \<Rightarrow> string + string) \<Rightarrow> (string \<Rightarrow> string) \<Rightarrow> (string \<Rightarrow> string) \<Rightarrow>
   (string \<times> string) option \<Rightarrow> sent list" where
  "extract_text_from_file docx_available pdf_available docx_text pdf_text decode cleanup strip
       upload =
     (case upload of
        None \<Rightarrow> [error_response ''Keine Datei hochgeladen'' 400]
      | Some (filename, content) \<Rightarrow>
          (let extracted =
                 (if ends_with filename ''.docx'' then
                    (if \<not> docx_available then
                       Inr (Inl (error_response (''DOCX-Verarbeitung nicht verf'' @
                                                 [CHR 0xC3, CHR 0xBC] @ ''gbar'') 500))
                     else map_sum id Inr (docx_text content))
                  else if ends_with filename ''.pdf'' then
                    (if \<not> pdf_available then
                       Inr (Inl (error_response (''PDF-Verarbeitung nicht verf'' @
                                                 [CHR 0xC3, CHR 0xBC] @ ''gbar'') 500))
                     else map_sum id Inr (pdf_text content))
                  else if ends_with filename ''.txt'' then map_sum id Inr (decode content)
                  else
                    Inr (Inl (error_response
                                (''Nicht unterst'' @ [CHR 0xC3, CHR 0xBC] @
                                 ''tztes Format. Erlaubt: .docx, .pdf, .txt'') 400)))
           in case extracted of
                Inl msg \<Rightarrow> [error_response (''Fehler: '' @ msg) 500]
              | Inr (Inl response) \<Rightarrow> [response]
              | Inr (Inr raw) \<Rightarrow>
                  (let cleaned = (if raw = [] then raw else cleanup raw)
                   in if strip cleaned = [] then
                        [error_response ''Kein Text in der Datei gefunden'' 400]
                      else [Response (JObj [(''text'', JStr (strip cleaned))]) 200])))"

text \<open>
  \<^verbatim>\<open>api_session_qr\<close>, the route \<^verbatim>\<open>/api/session/qr/<code>\<close>.  \<open>host_url\<close> is
  \<^verbatim>\<open>request.host_url.rstrip('/')\<close> and \<open>qr_png\<close> the PNG that the \<^verbatim>\<open>qrcode\<close> library makes of a
  text.
\<close>

definition api_session_qr ::
  "(string \<Rightarrow> string) \<Rightarrow> string \<Rightarrow> int \<Rightarrow> string \<Rightarrow> registry \<Rightarrow> sent list \<times> registry" where
  "api_session_qr qr_png host_url now code sessions =
     (case get_session now code sessions of
        (None, sessions') \<Rightarrow> ([error_response ''Session nicht gefunden'' 404], sessions')
      | (Some s, sessions') \<Rightarrow>
          ([SendFile (qr_png (host_url @ ''/student?code='' @ code)) ''image/png''], sessions'))"

text \<open>\<^verbatim>\<open>cache_stats\<close>, the route \<^verbatim>\<open>/api/cache-stats\<close>.\<close>

definition cache_stats ::
  "(string, json) py_dict \<Rightarrow> (string, json) py_dict \<Rightarrow> registry \<Rightarrow> sent list" where
  "cache_stats tts_cache translation_cache sessions =
     [Response
        (JObj [(''tts_cache'',
                JObj [(''size'', JInt (int (length tts_cache))),
                      (''max'', JInt (int MAX_CACHE_SIZE))]),
               (''translation_cache'',
                JObj [(''size'', JInt (int (length translation_cache))),
                      (''max'', JInt (int MAX_TRANSLATION_CACHE_SIZE))]),
               (''active_sessions'', JInt (int (length sessions)))]) 200]"

section \<open>The whole server\<close>

text \<open>
  Every request the server takes: an operation on the sessions, a page, a connection, and
  the routes above, each with its clock reading, the fields of its request and what it
  uses of the libraries and the providers.  The server holds the two caches, the position
  of the random source and the sessions.
\<close>

datatype page = Index | Teacher | Student | Aufgaben | Nachsprechen

fun template_of :: "page \<Rightarrow> string" where
  "template_of Index = ''index.html''"
| "template_of Teacher = ''teacher.html''"
| "template_of Student = ''student.html''"
| "template_of Aufgaben = ''aufgaben.html''"
| "template_of Nachsprechen = ''nachsprechen.html''"

datatype request =
    Session op
  | Page page
  | Connect string
  | SessionQr "string \<Rightarrow> string" string int string
  | WordInfo "string \<Rightarrow> string" "api_call \<Rightarrow> string reply" "string \<Rightarrow> (string \<times> json) list option"
      "api_call \<Rightarrow> (json \<times> json) option reply" "json \<Rightarrow> string" int string string string
  | SimplifyText "api_call \<Rightarrow> string reply" int string string string
  | ExtractText bool bool "string \<Rightarrow> string + string" "string \<Rightarrow> string + string"
      "string \<Rightarrow> string + string" "string \<Rightarrow> string" "string \<Rightarrow> string" "(string \<times> string) option"
  | GenerateTasks "api_call \<Rightarrow> string reply" "string \<Rightarrow> (string + json list) option" int string string
  | Tts "string \<Rightarrow> string" "api_call \<Rightarrow> json reply" "json \<Rightarrow> string" int "string option" string
      "string option" "string option" "string option" "string option"
  | Ocr "api_call \<Rightarrow> string reply" "string \<Rightarrow> string" int "string option" "string option" string
      "string option" "string option"
  | Translate "string \<Rightarrow> string" "api_call \<Rightarrow> json reply" int "string option" "string option" string
      "string option" "string option"
  | SpeechToText "string \<Rightarrow> string" "api_call \<Rightarrow> json reply" int "string option" string
      "string option" "string option" "string option"
  | Scribe "api_call \<Rightarrow> json reply" "json \<Rightarrow> string" "json \<Rightarrow> string" "json \<Rightarrow> string" int
      "string option" string "string option" "string option"
  | CacheStats

type_synonym server = "(string, json) py_dict \<times> (string, json) py_dict \<times> nat \<times> registry"

fun serve :: "(nat \<Rightarrow> nat) \<Rightarrow> request \<Rightarrow> server \<Rightarrow> (sent list \<times> server) option" where
  "serve draw (Session x) (tts_cache, translation_cache, pos, sessions) =
     (case step draw x (pos, sessions) of
        None \<Rightarrow> None
      | Some (outs, pos', sessions') \<Rightarrow> Some (outs, tts_cache, translation_cache, pos', sessions'))"
| "serve draw (Page p) server = Some ([Rendered (template_of p)], server)"
| "serve draw (Connect sid) server = Some ([], server)"
| "serve draw (SessionQr qr_png host_url now code) (tts_cache, translation_cache, pos, sessions) =
     (let (outs, sessions') = api_session_qr qr_png host_url now code sessions
      in Some (outs, tts_cache, translation_cache, pos, sessions'))"
| "serve draw (WordInfo re_clean fetch json_object_in fetch_image py_repr now w session_code target)
       (tts_cache, translation_cache, pos, sessions) =
     (let (outs, sessions') =
            get_word_info re_clean fetch json_object_in fetch_image py_repr now w session_code
              target sessions
      in Some (outs, tts_cache, translation_cache, pos, sessions'))"
| "serve draw (SimplifyText fetch now txt lvl session_code)
       (tts_cache, translation_cache, pos, sessions) =
     (let (outs, sessions') = simplify_text fetch now txt lvl session_code sessions
      in Some (outs, tts_cache, translation_cache, pos, sessions'))"
| "serve draw (ExtractText docx_available pdf_available docx_text pdf_text decode cleanup strip upload)
       server =
     Some (extract_text_from_file docx_available pdf_available docx_text pdf_text decode cleanup
             strip upload, server)"
| "serve draw (GenerateTasks fetch json_array_in now txt session_code)
       (tts_cache, translation_cache, pos, sessions) =
     (let (outs, sessions') = api_generate_tasks fetch json_array_in now txt session_code sessions
      in Some (outs, tts_cache, translation_cache, pos, sessions'))"
| "serve draw (Tts md5 fetch py_repr now txt session_code api_key_field voice_field language_field
                 model_field)
       (tts_cache, translation_cache, pos, sessions) =
     (let (outs, tts_cache', sessions') =
            proxy_tts md5 fetch py_repr now txt session_code api_key_field voice_field
              language_field model_field tts_cache sessions
      in Some (outs, tts_cache', translation_cache, pos, sessions'))"
| "serve draw (Ocr fetch strip now image_field mime_field session_code api_key_field provider_field)
       (tts_cache, translation_cache, pos, sessions) =
     (let (outs, sessions') =
            ocr_image fetch strip now image_field mime_field session_code api_key_field
              provider_field sessions
      in Some (outs, tts_cache, translation_cache, pos, sessions'))"
| "serve draw (Translate md5 fetch now txt language_field session_code api_key_field provider_field)
       (tts_cache, translation_cache, pos, sessions) =
     (let (outs, translation_cache', sessions') =
            proxy_translate md5 fetch now txt language_field session_code api_key_field
              provider_field translation_cache sessions
      in Some (outs, tts_cache, translation_cache', pos, sessions'))"
| "serve draw (SpeechToText b64 fetch now audio session_code api_key_field provider_field
                 language_field)
       (tts_cache, translation_cache, pos, sessions) =
     (let (outs, sessions') =
            proxy_speech_to_text b64 fetch now audio session_code api_key_field provider_field
              language_field sessions
      in Some (outs, tts_cache, translation_cache, pos, sessions'))"
| "serve draw (Scribe fetch py_repr attribute_error slice_error now audio session_code api_key_field
                 language_field)
       (tts_cache, translation_cache, pos, sessions) =
     (let (outs, sessions') =
            proxy_speech_to_text_scribe fetch py_repr attribute_error slice_error now audio
              session_code api_key_field language_field sessions
      in Some (outs, tts_cache, translation_cache, pos, sessions'))"
| "serve draw CacheStats (tts_cache, translation_cache, pos, sessions) =
     Some (cache_stats tts_cache translation_cache sessions,
           tts_cache, translation_cache, pos, sessions)"

fun serve_all :: "(nat \<Rightarrow> nat) \<Rightarrow> request list \<Rightarrow> server \<Rightarrow> (sent list \<times> server) option" where
  "serve_all draw [] server = Some ([], server)"
| "serve_all draw (r # rs) server =
     (case serve draw r server of
        None \<Rightarrow> None
      | Some (outs, server') \<Rightarrow>
          (case serve_all draw rs server' of
             None \<Rightarrow> None
           | Some (outs', server'') \<Rightarrow> Some (outs @ outs', server'')))"

text \<open>
  The redaction of a request blanks the keys that the creation of a session brings.  The
  keys that a request brings for itself, to a route called without a session code, are
  no keys of a session and stay.
\<close>

fun redact_request_of :: "request \<Rightarrow> request" where
  "redact_request_of (Session x) = Session (redact_op x)"
| "redact_request_of r = r"

text \<open>
  \<^verbatim>\<open>requests.post\<close> is blind to the key when what it gives is the same whatever the value
  of the key of the request; a request to the server is, when everything it carries is.
\<close>

definition key_blind_fetch :: "(api_call \<Rightarrow> 'a) \<Rightarrow> bool" where
  "key_blind_fetch fetch \<longleftrightarrow> (\<forall>call. fetch call = fetch (call\<lparr>call_key := blank (call_key call)\<rparr>))"

fun key_blind_request :: "request \<Rightarrow> bool" where
  "key_blind_request (Session x) = key_blind_op x"
| "key_blind_request (WordInfo re_clean fetch json_object_in fetch_image py_repr now w session_code
                        target) =
     (key_blind_fetch fetch \<and> key_blind_fetch fetch_image)"
| "key_blind_request (SimplifyText fetch now txt lvl session_code) = key_blind_fetch fetch"
| "key_blind_request (GenerateTasks fetch json_array_in now txt session_code) = key_blind_fetch fetch"
| "key_blind_request (Tts md5 fetch py_repr now txt session_code api_key_field voice_field
                        language_field model_field) = key_blind_fetch fetch"
| "key_blind_request (Ocr fetch strip now image_field mime_field session_code api_key_field
                        provider_field) = key_blind_fetch fetch"
| "key_blind_request (Translate md5 fetch now txt language_field session_code api_key_field
                        provider_field) = key_blind_fetch fetch"
| "key_blind_request (SpeechToText b64 fetch now audio session_code api_key_field provider_field
                        language_field) = key_blind_fetch fetch"
| "key_blind_request (Scribe fetch py_repr attribute_error slice_error now audio session_code
                        api_key_field language_field) = key_blind_fetch fetch"
| "key_blind_request r = True"

text \<open>
  Two results of a request, or of a sequence of them, show the same: both never return,
  or both return, send the same and leave the same caches, the random source at the same
  position and sessions with the same redaction.
\<close>

definition same_served ::
  "(sent list \<times> server) option \<Rightarrow> (sent list \<times> server) option \<Rightarrow> bool" where
  "same_served r1 r2 =
     (case (r1, r2) of
        (None, None) \<Rightarrow> True
      | (Some (outs1, c1, d1, pos1, t1), Some (outs2, c2, d2, pos2, t2)) \<Rightarrow>
          outs1 = outs2 \<and> c1 = c2 \<and> d1 = d2 \<and> pos1 = pos2 \<and> redact t1 = redact t2
      | _ \<Rightarrow> False)"

definition answering_fetch :: "api_call \<Rightarrow> json reply" where
  \<comment> \<open>a provider that answers every request with the translation \<^verbatim>\<open>Hello\<close>\<close>
  "answering_fetch call = Reply 200 [] (Inr (JStr ''Hello''))"

definition unreachable_fetch :: "api_call \<Rightarrow> json reply" where
  \<comment> \<open>a provider that cannot be reached: the HTTP library raises, quoting the URL\<close>
  "unreachable_fetch call = Raised (''Max retries exceeded with url: '' @ sent_url call)"

definition plain_digest :: "string \<Rightarrow> string" where
  \<comment> \<open>a digest that leaves its text as it is\<close>
  "plain_digest content = content"

section \<open>Facts about the containers\<close>

lemma in_keys_iff: "k \<in> fst ` set d \<longleftrightarrow> map_of d k \<noteq> None"
  by (simp add: map_of_eq_None_iff)

lemma update_fresh: "k \<notin> fst ` set d \<Longrightarrow> AList.update k v d = d @ [(k, v)]"
  by (induction d) auto

lemma remdups_snoc: "remdups (h @ [k]) = removeAll k (remdups h) @ [k]"
  by (induction h) auto

lemma last_n_all: "length xs \<le> n \<Longrightarrow> last_n n xs = xs"
  by (simp add: last_n_def)

lemma length_last_n: "length (last_n n xs) = min n (length xs)"
  by (simp add: last_n_def)

lemma last_n_append_exact: "length zs = n \<Longrightarrow> last_n n (ys @ zs) = zs"
  by (simp add: last_n_def)

lemma last_n_split:
  obtains ys where "xs = ys @ last_n n xs" "length xs \<le> n \<Longrightarrow> ys = []"
    "n < length xs \<Longrightarrow> length (last_n n xs) = n"
proof
  show "xs = take (length xs - n) xs @ last_n n xs"
    by (simp add: last_n_def)
  show "length xs \<le> n \<Longrightarrow> take (length xs - n) xs = []"
    by simp
  show "n < length xs \<Longrightarrow> length (last_n n xs) = n"
    by (simp add: last_n_def)
qed

lemma length_removeAll_distinct:
  "distinct xs \<Longrightarrow> k \<in> set xs \<Longrightarrow> Suc (length (removeAll k xs)) = length xs"
  by (induction xs) (auto simp: removeAll_id)

lemma last_n_hit:
  assumes "distinct R" "k \<in> set (last_n n R)"
  shows "last_n n (removeAll k R @ [k]) = removeAll k (last_n n R) @ [k]"
proof -
  obtain A where R: "R = A @ last_n n R" and small: "length R \<le> n \<Longrightarrow> A = []"
    and big: "n < length R \<Longrightarrow> length (last_n n R) = n"
    by (rule last_n_split [of R n]) blast
  let ?B = "last_n n R"
  from assms R have dB: "distinct ?B" and kA: "k \<notin> set A"
    by (metis distinct_append, metis distinct_append disjoint_iff)
  have len: "length (removeAll k ?B @ [k]) = length ?B"
    using length_removeAll_distinct [OF dB assms(2)] by simp
  have eq: "removeAll k R @ [k] = A @ (removeAll k ?B @ [k])"
    using kA by (subst R) (simp add: removeAll_id)
  show ?thesis
  proof (cases "length R \<le> n")
    case True
    then have "A = []" by (rule small)
    with eq have eq': "removeAll k R @ [k] = removeAll k ?B @ [k]" by simp
    have "length (removeAll k ?B @ [k]) \<le> n"
      unfolding len by (simp add: length_last_n)
    then have "last_n n (removeAll k ?B @ [k]) = removeAll k ?B @ [k]"
      by (rule last_n_all)
    with eq' show ?thesis by simp
  next
    case False
    then have "length ?B = n" using big by simp
    with len have "length (removeAll k ?B @ [k]) = n" by simp
    then have "last_n n (A @ (removeAll k ?B @ [k])) = removeAll k ?B @ [k]"
      by (rule last_n_append_exact)
    with eq show ?thesis by simp
  qed
qed

lemma last_n_miss_full:
  assumes "k \<notin> set (last_n n R)" "n \<le> length (last_n n R)" "0 < n"
  shows "last_n n (removeAll k R @ [k]) = tl (last_n n R) @ [k]"
proof -
  obtain A where R: "R = A @ last_n n R"
    by (rule last_n_split [of R n])
  let ?B = "last_n n R"
  have lenB: "length ?B = n" using assms(2) by (simp add: length_last_n)
  then have "?B \<noteq> []" using assms(3) by auto
  then have len: "length (tl ?B @ [k]) = n" using lenB assms(3) by simp
  have "removeAll k R @ [k] = removeAll k A @ ?B @ [k]"
    using assms(1) by (subst R) (simp add: removeAll_id)
  also have "\<dots> = (removeAll k A @ [hd ?B]) @ (tl ?B @ [k])"
    using \<open>?B \<noteq> []\<close> by simp
  finally show ?thesis using len
    by (simp only: last_n_append_exact)
qed

lemma last_n_miss_room:
  assumes "k \<notin> set (last_n n R)" "length (last_n n R) < n"
  shows "last_n n (removeAll k R @ [k]) = last_n n R @ [k]"
proof -
  from assms(2) have "length R < n" by (simp add: length_last_n)
  then have "last_n n R = R" by (simp add: last_n_all)
  with assms \<open>length R < n\<close> show ?thesis
    by (simp add: removeAll_id last_n_all)
qed

lemma add_to_cache_bounded: "add_to_cache = bounded_put MAX_CACHE_SIZE"
  by (intro ext) (simp add: add_to_cache_def bounded_put_def)

lemma add_to_translation_cache_bounded:
  "add_to_translation_cache = bounded_put MAX_TRANSLATION_CACHE_SIZE"
  by (intro ext) (simp add: add_to_translation_cache_def bounded_put_def)

lemma get_from_translation_cache_eq: "get_from_translation_cache = get_from_cache"
  by (intro ext) (simp add: get_from_translation_cache_def get_from_cache_def)

lemma map_of_moved: "map_of (AList.delete k c @ [(k, v)]) k = Some v"
  by (simp add: map_add_def AList.delete_conv')

lemma move_to_end_hit:
  "map_of c k = Some v \<Longrightarrow> move_to_end k c = Inr (AList.delete k c @ [(k, v)])"
  by (simp add: move_to_end_def)

lemma get_hit:
  "map_of c k = Some v \<Longrightarrow> get_from_cache k c = Inr (Some v, AList.delete k c @ [(k, v)])"
  by (simp add: get_from_cache_def in_keys_iff move_to_end_hit map_of_moved del: map_of_append)

lemma get_miss: "map_of c k = None \<Longrightarrow> get_from_cache k c = Inr (None, c)"
  by (simp add: get_from_cache_def in_keys_iff)

lemma put_hit:
  "map_of c k = Some v \<Longrightarrow> bounded_put cap k v' c = Inr (AList.delete k c @ [(k, v)])"
  by (simp add: bounded_put_def in_keys_iff move_to_end_hit)

lemma put_miss_room:
  "map_of c k = None \<Longrightarrow> length c < cap \<Longrightarrow> bounded_put cap k v c = Inr (c @ [(k, v)])"
  by (simp add: bounded_put_def in_keys_iff update_fresh)

lemma put_miss_full:
  assumes "map_of c k = None" "cap \<le> length c" "0 < cap"
  shows "bounded_put cap k v c = Inr (tl c @ [(k, v)])"
proof -
  from assms obtain kv rest where c: "c = kv # rest"
    by (cases c) auto
  with assms(1) have "k \<noteq> fst kv" and "k \<notin> fst ` set rest"
    by (auto simp: in_keys_iff split: if_splits)
  with assms(2) c show ?thesis
    by (simp add: bounded_put_def popitem_first_def update_fresh)
qed

lemma keys_moved:
  "map fst (AList.delete k c @ [(k, v)]) = removeAll k (map fst c) @ [k]"
  by (simp add: AList.delete_keys)

lemma distinct_moved:
  "distinct (map fst c) \<Longrightarrow> distinct (map fst (AList.delete k c @ [(k, v)]))"
  by (simp add: AList.delete_keys distinct_removeAll)

lemma lru_keys_snoc:
  "lru_keys cap (h @ [k]) = last_n cap (removeAll k (remdups h) @ [k])"
  by (simp add: lru_keys_def remdups_snoc)

lemma run_cache_keys:
  assumes "0 < cap"
  shows "distinct (map fst c) \<Longrightarrow> map fst c = lru_keys cap h \<Longrightarrow>
    \<exists>c'. run_cache get_from_cache (bounded_put cap) ops c = Inr c' \<and>
         distinct (map fst c') \<and> map fst c' = lru_keys cap (access_log cap ops h)"
proof (induction ops arbitrary: c h)
  case Nil
  then show ?case by simp
next
  case (Cons x ops)
  show ?case
  proof (cases x)
    case (Get k)
    show ?thesis
    proof (cases "map_of c k")
      case None
      then have "k \<notin> set (lru_keys cap h)"
        using Cons.prems(2) by (metis in_keys_iff set_map)
      with None Get Cons.IH [OF Cons.prems] show ?thesis
        by (simp add: get_miss)
    next
      case (Some v)
      let ?c = "AList.delete k c @ [(k, v)]"
      from Some have hit: "k \<in> set (lru_keys cap h)"
        using Cons.prems(2) by (metis in_keys_iff set_map option.distinct(1))
      have "map fst ?c = lru_keys cap (h @ [k])"
        using hit Cons.prems(2)
        by (simp only: keys_moved lru_keys_snoc) (simp add: lru_keys_def last_n_hit)
      with Cons.IH [OF distinct_moved [OF Cons.prems(1)], of k v "h @ [k]"] Some Get hit
      show ?thesis
        by (simp add: get_hit)
    qed
  next
    case (Put k v)
    have R: "distinct (remdups h)" by simp
    show ?thesis
    proof (cases "map_of c k")
      case (Some v0)
      let ?c = "AList.delete k c @ [(k, v0)]"
      from Some have hit: "k \<in> set (lru_keys cap h)"
        using Cons.prems(2) by (metis in_keys_iff set_map option.distinct(1))
      have "map fst ?c = lru_keys cap (h @ [k])"
        using hit Cons.prems(2)
        by (simp only: keys_moved lru_keys_snoc) (simp add: lru_keys_def last_n_hit)
      with Cons.IH [OF distinct_moved [OF Cons.prems(1)], of k v0 "h @ [k]"] Some Put
      show ?thesis
        by (simp add: put_hit)
    next
      case None
      then have miss: "k \<notin> set (lru_keys cap h)"
        using Cons.prems(2) by (metis in_keys_iff set_map)
      then have kc: "k \<notin> set (map fst c)"
        using Cons.prems(2) by simp
      have len: "length c = length (lru_keys cap h)"
        using Cons.prems(2) by (metis length_map)
      show ?thesis
      proof (cases "length c < cap")
        case True
        let ?c = "c @ [(k, v)]"
        have d: "distinct (map fst ?c)"
          using Cons.prems(1) kc by simp
        have "map fst ?c = lru_keys cap (h @ [k])"
          using miss True len Cons.prems(2)
          by (simp only: lru_keys_snoc) (simp add: lru_keys_def last_n_miss_room)
        with Cons.IH [OF d, of "h @ [k]"] None Put True
        show ?thesis
          by (simp add: put_miss_room)
      next
        case False
        let ?c = "tl c @ [(k, v)]"
        have "distinct (tl (map fst c))" and "k \<notin> set (tl (map fst c))"
          using Cons.prems(1) kc by (cases c; simp)+
        then have d: "distinct (map fst ?c)"
          by (simp add: map_tl)
        have "map fst ?c = lru_keys cap (h @ [k])"
          using miss False len Cons.prems(2) assms
          by (simp only: lru_keys_snoc) (simp add: lru_keys_def last_n_miss_full map_tl)
        with Cons.IH [OF d, of "h @ [k]"] None Put False assms
        show ?thesis
          by (simp add: put_miss_full)
      qed
    qed
  qed
qed

lemma run_cache_length:
  assumes "0 < cap" "distinct (map fst c)" "length c \<le> cap"
  shows "\<exists>c'. run_cache get_from_cache (bounded_put cap) ops c = Inr c' \<and>
         distinct (map fst c') \<and> length c' \<le> cap \<and>
         map fst c' = lru_keys cap (access_log cap ops (map fst c))"
proof -
  have "map fst c = lru_keys cap (map fst c)"
    using assms(2,3) by (simp add: lru_keys_def last_n_all distinct_remdups_id)
  from run_cache_keys [OF assms(1,2) this, of ops]
  obtain c' where c': "run_cache get_from_cache (bounded_put cap) ops c = Inr c'"
    "distinct (map fst c')" "map fst c' = lru_keys cap (access_log cap ops (map fst c))"
    by blast
  have "length c' = length (map fst c')" by simp
  also have "\<dots> \<le> cap"
    unfolding c'(3) by (simp add: lru_keys_def length_last_n)
  finally show ?thesis using c' by blast
qed

text \<open>
  C6.  Both caches are the bounded store, at capacities 500 and 1000, and share the
  lookup.  For a store of any capacity \<open>N > 0\<close> that holds at most \<open>N\<close> distinct keys: every
  sequence of lookups and stores runs without an exception, leaves at most \<open>N\<close> distinct
  keys, and leaves exactly the \<open>N\<close> most recently accessed keys in the order of their last
  access, where every store and every lookup that hits counts as an access; and a store
  of a new key into a full store drops the first item, the least recently accessed one,
  and nothing else.
\<close>

theorem lru_cache_correct:
  fixes c :: "('k, 'v) py_dict"
  assumes "0 < N" "distinct (map fst c)" "length c \<le> N"
  shows "(add_to_cache :: 'k \<Rightarrow> 'v \<Rightarrow> _) = bounded_put MAX_CACHE_SIZE \<and>
         (add_to_translation_cache :: 'k \<Rightarrow> 'v \<Rightarrow> _) = bounded_put MAX_TRANSLATION_CACHE_SIZE \<and>
         (get_from_translation_cache :: 'k \<Rightarrow> ('k, 'v) py_dict \<Rightarrow> _) = get_from_cache \<and>
         0 < MAX_CACHE_SIZE \<and> 0 < MAX_TRANSLATION_CACHE_SIZE \<and>
         (\<exists>c'. run_cache get_from_cache (bounded_put N) ops c = Inr c' \<and>
               distinct (map fst c') \<and> length c' \<le> N \<and>
               map fst c' = lru_keys N (access_log N ops (map fst c))) \<and>
         (length c = N \<and> k \<notin> fst ` set c \<longrightarrow>
            bounded_put N k v c = Inr (tl c @ [(k, v)]))"
proof -
  have "length c = N \<and> k \<notin> fst ` set c \<longrightarrow> bounded_put N k v c = Inr (tl c @ [(k, v)])"
    using assms(1) by (auto simp: in_keys_iff intro: put_miss_full)
  moreover note run_cache_length [OF assms, of ops]
  ultimately show ?thesis
    by (simp add: add_to_cache_bounded add_to_translation_cache_bounded
        get_from_translation_cache_eq MAX_CACHE_SIZE_def MAX_TRANSLATION_CACHE_SIZE_def)
qed

theorem lru_cache_correct_witness:
  "(0::nat) < 2 \<and> distinct (map fst [(1::nat, ''a''), (2, ''b'')]) \<and>
   length [(1::nat, ''a''), (2, ''b'')] \<le> 2 \<and>
   run_cache get_from_cache (bounded_put 2) [Get 1, Put 3 ''c''] [(1::nat, ''a''), (2, ''b'')]
     = Inr [(1, ''a''), (3, ''c'')] \<and>
   lru_keys 2 (access_log 2 [Get 1, Put 3 ''c''] (map fst [(1::nat, ''a''), (2, ''b'')])) = [1, 3] \<and>
   bounded_put 2 3 ''c'' [(1::nat, ''a''), (2, ''b'')] = Inr [(2, ''b''), (3, ''c'')]"
proof -
  have h: "(0::nat) < 2" "distinct (map fst [(1::nat, ''a''), (2, ''b'')])"
    "length [(1::nat, ''a''), (2, ''b'')] \<le> 2"
    by simp_all
  have k: "length [(1::nat, ''a''), (2, ''b'')] = 2 \<and> 3 \<notin> fst ` set [(1::nat, ''a''), (2, ''b'')]"
    by simp
  have r: "run_cache get_from_cache (bounded_put 2) [Get 1, Put 3 ''c''] [(1::nat, ''a''), (2, ''b'')]
     = Inr [(1, ''a''), (3, ''c'')]"
    by (simp add: get_from_cache_def bounded_put_def move_to_end_def popitem_first_def)
  from lru_cache_correct [OF h, of "[Get 1, Put 3 ''c'']" 3 "''c''"] h k r show ?thesis
    by auto
qed

text \<open>
  C9.  A store under a key that is already present, in either cache, raises nothing,
  stores nothing and refreshes the recency of the key: the item of the key, with the value
  stored first, moves to the end of the store, the most recently accessed position, and
  the other items keep their order and their values.  So no stored value changes, the
  later value is dropped, the keys are the same, and the next lookup of the key returns
  the first value.
\<close>

theorem put_existing_keeps_value:
  assumes "map_of c k = Some v"
  shows "add_to_cache k v' c = Inr (AList.delete k c @ [(k, v)]) \<and>
         add_to_translation_cache k v' c = Inr (AList.delete k c @ [(k, v)]) \<and>
         map_of (AList.delete k c @ [(k, v)]) = map_of c \<and>
         fst ` set (AList.delete k c @ [(k, v)]) = fst ` set c \<and>
         last (AList.delete k c @ [(k, v)]) = (k, v) \<and>
         butlast (AList.delete k c @ [(k, v)]) = filter (\<lambda>item. fst item \<noteq> k) c \<and>
         get_from_cache k (AList.delete k c @ [(k, v)]) =
           Inr (Some v, AList.delete k c @ [(k, v)]) \<and>
         get_from_translation_cache k (AList.delete k c @ [(k, v)]) =
           Inr (Some v, AList.delete k c @ [(k, v)])"
proof -
  let ?c = "AList.delete k c @ [(k, v)]"
  have m: "map_of ?c = map_of c"
    using assms by (auto simp: map_add_def AList.delete_conv' fun_eq_iff split: option.splits)
  have "k \<in> fst ` set c"
    using assms by (simp add: in_keys_iff)
  then have d: "fst ` set ?c = fst ` set c"
    by (auto simp: AList.delete_eq)
  have b: "butlast ?c = filter (\<lambda>item. fst item \<noteq> k) c"
    by (simp add: AList.delete_eq case_prod_unfold eq_commute [of k])
  from m assms have l: "map_of ?c k = Some v" by simp
  have p: "add_to_cache k v' c = Inr ?c" "add_to_translation_cache k v' c = Inr ?c"
    using assms by (simp_all add: add_to_cache_def add_to_translation_cache_def move_to_end_def
        in_keys_iff)
  have "AList.delete k ?c = AList.delete k c"
    by (simp add: AList.delete_eq)
  with l have g: "get_from_cache k ?c = Inr (Some v, ?c)"
    "get_from_translation_cache k ?c = Inr (Some v, ?c)"
    by (simp_all add: get_from_cache_def get_from_translation_cache_def move_to_end_def
        in_keys_iff)
  from m d b p g show ?thesis
    by simp
qed

theorem put_existing_keeps_value_witness:
  "map_of [(''k1'', ''first''), (''k2'', ''other''), (''k3'', ''third'')] ''k1'' = Some ''first'' \<and>
   add_to_cache ''k1'' ''second'' [(''k1'', ''first''), (''k2'', ''other''), (''k3'', ''third'')]
     = Inr [(''k2'', ''other''), (''k3'', ''third''), (''k1'', ''first'')] \<and>
   add_to_translation_cache ''k1'' ''second''
       [(''k1'', ''first''), (''k2'', ''other''), (''k3'', ''third'')]
     = Inr [(''k2'', ''other''), (''k3'', ''third''), (''k1'', ''first'')] \<and>
   get_from_cache ''k1'' [(''k2'', ''other''), (''k3'', ''third''), (''k1'', ''first'')] =
     Inr (Some ''first'', [(''k2'', ''other''), (''k3'', ''third''), (''k1'', ''first'')]) \<and>
   get_from_translation_cache ''k1''
       [(''k2'', ''other''), (''k3'', ''third''), (''k1'', ''first'')] =
     Inr (Some ''first'', [(''k2'', ''other''), (''k3'', ''third''), (''k1'', ''first'')])"
proof -
  have h: "map_of [(''k1'', ''first''), (''k2'', ''other''), (''k3'', ''third'')] ''k1'' = Some ''first''"
    by simp
  have e: "AList.delete ''k1'' [(''k1'', ''first''), (''k2'', ''other''), (''k3'', ''third'')] @
             [(''k1'', ''first'')] =
           [(''k2'', ''other''), (''k3'', ''third''), (''k1'', ''first'')]"
    by (simp add: AList.delete_eq)
  from put_existing_keeps_value [OF h, of "''second''"] h show ?thesis
    unfolding e by simp
qed

section \<open>Session codes\<close>

lemma generate_first_fresh:
  "attempt draw pos n \<notin> fst ` set sessions \<Longrightarrow>
   \<forall>m<n. attempt draw pos m \<in> fst ` set sessions \<Longrightarrow>
   generate_session_code draw pos sessions =
     Some (attempt draw pos n, pos + SESSION_CODE_LENGTH * (n + 1))"
proof (induction n arbitrary: pos)
  case 0
  then show ?case
    by (subst generate_session_code.simps) simp
next
  case (Suc n)
  from Suc.prems(2) have taken: "attempt draw pos 0 \<in> fst ` set sessions"
    by blast
  have shift: "attempt draw (pos + SESSION_CODE_LENGTH) m = attempt draw pos (Suc m)" for m
    by (simp add: add.assoc)
  have "generate_session_code draw (pos + SESSION_CODE_LENGTH) sessions =
     Some (attempt draw (pos + SESSION_CODE_LENGTH) n, pos + SESSION_CODE_LENGTH + SESSION_CODE_LENGTH * (n + 1))"
    using Suc.prems by (intro Suc.IH) (auto simp only: shift)
  with taken show ?case
    by (subst generate_session_code.simps) (simp add: add.assoc)
qed

lemma generate_result:
  "generate_session_code draw pos sessions = Some r \<Longrightarrow>
   \<exists>n. r = (attempt draw pos n, pos + SESSION_CODE_LENGTH * (n + 1)) \<and>
       attempt draw pos n \<notin> fst ` set sessions \<and>
       (\<forall>m<n. attempt draw pos m \<in> fst ` set sessions)"
proof (induction draw pos sessions r rule: generate_session_code.raw_induct [rotated, consumes 1])
  case (1 gen draw pos sessions r)
  show ?case
  proof (cases "attempt draw pos 0 \<in> fst ` set sessions")
    case False
    with 1(2) have "r = (attempt draw pos 0, pos + SESSION_CODE_LENGTH * (0 + 1))"
      by (auto simp: Let_def)
    with False show ?thesis by blast
  next
    case True
    with 1(2) have "gen draw (pos + SESSION_CODE_LENGTH) sessions = Some r"
      by (simp add: Let_def)
    from 1(1) [OF this] obtain n where n:
      "r = (attempt draw (pos + SESSION_CODE_LENGTH) n, pos + SESSION_CODE_LENGTH + SESSION_CODE_LENGTH * (n + 1))"
      "attempt draw (pos + SESSION_CODE_LENGTH) n \<notin> fst ` set sessions"
      "\<forall>m<n. attempt draw (pos + SESSION_CODE_LENGTH) m \<in> fst ` set sessions"
      by blast
    have shift: "attempt draw (pos + SESSION_CODE_LENGTH) m = attempt draw pos (Suc m)" for m
      by (simp add: add.assoc)
    have "\<forall>m<Suc n. attempt draw pos m \<in> fst ` set sessions"
      using True n(3) unfolding shift by (auto simp: less_Suc_eq_0_disj)
    with n(1,2) show ?thesis
      unfolding shift by (intro exI [of _ "Suc n"]) (simp add: add.assoc)
  qed
qed

lemma generate_forever:
  "\<forall>n. attempt draw pos n \<in> fst ` set sessions \<Longrightarrow> generate_session_code draw pos sessions = None"
  using generate_result [of draw pos sessions]
  by (cases "generate_session_code draw pos sessions") auto

lemma length_choices: "length (choices population k draw pos) = k"
  by (simp add: choices_def)

lemma set_choices: "population \<noteq> [] \<Longrightarrow> set (choices population k draw pos) \<subseteq> set population"
  by (auto simp: choices_def)

lemma chars_letters_digits:
  "set chars = (set ''ABCDEFGHIJKLMNOPQRSTUVWXYZ'' - {CHR ''I'', CHR ''O''}) \<union>
               (set ''0123456789'' - {CHR ''0'', CHR ''1''})"
  by (auto simp: chars_def)

text \<open>
  C3, as the code has it.  Every code that \<^verbatim>\<open>generate_session_code\<close> returns has 6
  characters, each from the alphabet \<open>chars\<close>; the alphabet has 32 characters, all
  different: the 26 capital letters without I and O and the 10 digits without 0 and 1.
\<close>

theorem session_code_shape:
  assumes "generate_session_code draw pos sessions = Some (code, pos')"
  shows "length code = 6 \<and> set code \<subseteq> set chars \<and>
         length chars = 32 \<and> distinct chars \<and>
         set chars = (set ''ABCDEFGHIJKLMNOPQRSTUVWXYZ'' - {CHR ''I'', CHR ''O''}) \<union>
                     (set ''0123456789'' - {CHR ''0'', CHR ''1''})"
proof -
  from generate_result [OF assms] obtain n where "code = attempt draw pos n"
    by auto
  moreover have "chars \<noteq> []" by (simp add: chars_def)
  ultimately have "length code = 6" "set code \<subseteq> set chars"
    by (simp_all add: length_choices set_choices SESSION_CODE_LENGTH_def)
  moreover have "length chars = 32" "distinct chars"
    by (simp_all add: chars_def)
  ultimately show ?thesis
    using chars_letters_digits by blast
qed

theorem session_code_shape_witness:
  "generate_session_code (\<lambda>i. 7 * i) 0 [] = Some (''AHQX6D'', 6) \<and>
   length ''AHQX6D'' = 6 \<and> set ''AHQX6D'' \<subseteq> set chars \<and> length chars = 32"
proof -
  have g: "generate_session_code (\<lambda>i. 7 * i) 0 [] = Some (''AHQX6D'', 6)"
    by (subst generate_session_code.simps)
       (simp add: choices_def chars_def SESSION_CODE_LENGTH_def upt_rec [of 0] upt_rec [of "Suc _"])
  from session_code_shape [OF g] g show ?thesis
    by simp
qed

text \<open>
  C3, as it is stated, fails: the alphabet of the codes does not have 33 characters.
\<close>

theorem session_code_alphabet_counterexample:
  "card (set chars) \<noteq> 33"
proof -
  have "distinct chars" "length chars = 32"
    by (simp_all add: chars_def)
  then have "card (set chars) = 32"
    by (simp add: distinct_card)
  then show ?thesis by simp
qed



lemma create_session_forever:
  "\<forall>n. attempt draw pos n \<in> fst ` set sessions \<Longrightarrow>
   create_session draw pos between now_c now_e t_sid ks p sessions = None"
  by (simp add: create_session_def generate_forever)



lemma attempt_repeat_draw:
  "choices chars 6 repeat_draw 0 = ''AAAAAA''" "choices chars 6 repeat_draw 6 = ''BBBBBB''"
  "choices chars 6 repeat_draw 12 = ''CCCCCC''"
  by code_simp+




section \<open>Anonymous names\<close>












text \<open>
  C10.  For a code that is no key of the registry, \<^verbatim>\<open>get_anonymous_name\<close> raises nothing
  and returns index 0 with the first entry of the catalogue, the fox emoji (U+1F98A, the
  four bytes below) and the label Fuchs, and draws no random number.
\<close>

theorem anonymous_name_unknown_session:
  assumes "map_of sessions code = None"
  shows "get_anonymous_name draw pos code sid sessions =
           Inr ((0, [CHR 0xF0, CHR 0x9F, CHR 0xA6, CHR 0x8A], ''Fuchs''), pos)"
  using assms by (simp add: get_anonymous_name_def py_index_def ANONYMOUS_ANIMALS_def)

theorem anonymous_name_unknown_session_witness:
  "map_of [(''ABC234'', new_session None example_keys '''' 0 0)] ''XYZ789'' = None \<and>
   get_anonymous_name repeat_draw 0 ''XYZ789'' ''sid1'' [(''ABC234'', new_session None example_keys '''' 0 0)]
     = Inr ((0, [CHR 0xF0, CHR 0x9F, CHR 0xA6, CHR 0x8A], ''Fuchs''), 0)"
proof -
  have h: "map_of [(''ABC234'', new_session None example_keys '''' 0 0)] ''XYZ789'' = None"
    by simp
  from anonymous_name_unknown_session [OF h, of repeat_draw 0 "''sid1''"] h show ?thesis
    by simp
qed

section \<open>The expiry sweep\<close>

lemma thread_unfold_ok:
  "fst (cleanup_expired_sessions (logger i) (nows i) (others i st)) = None \<Longrightarrow>
   session_cleanup_thread logger nows others i st =
   session_cleanup_thread logger nows others (i + 1)
     (snd (cleanup_expired_sessions (logger i) (nows i) (others i st)))"
  by (subst session_cleanup_thread.simps) (auto split: prod.splits option.splits)

lemma thread_unfold_raise:
  "fst (cleanup_expired_sessions (logger i) (nows i) (others i st)) = Some e \<Longrightarrow>
   session_cleanup_thread logger nows others i st =
   Some (e, i, snd (cleanup_expired_sessions (logger i) (nows i) (others i st)))"
  by (subst session_cleanup_thread.simps) (auto split: prod.splits option.splits)

lemma thread_skip:
  "\<forall>i<k. fst (sweep logger nows others i s) = None \<Longrightarrow>
   session_cleanup_thread logger nows others 0 s =
   session_cleanup_thread logger nows others k (sessions_at logger nows others k s)"
proof (induction k)
  case 0
  then show ?case by simp
next
  case (Suc k)
  then have "fst (sweep logger nows others k s) = None" by simp
  then have "session_cleanup_thread logger nows others k (sessions_at logger nows others k s) =
     session_cleanup_thread logger nows others (Suc k) (sessions_at logger nows others (Suc k) s)"
    unfolding sweep_def by (simp add: thread_unfold_ok)
  with Suc show ?case by simp
qed

lemma thread_stops:
  assumes "fst (sweep logger nows others n s) = Some e"
    and "\<forall>i<n. fst (sweep logger nows others i s) = None"
  shows "session_cleanup_thread logger nows others 0 s =
     Some (e, n, snd (sweep logger nows others n s))"
  using assms(1) unfolding thread_skip [OF assms(2)] sweep_def
  by (rule thread_unfold_raise)

lemma thread_returns_raise:
  "session_cleanup_thread logger nows others k st = Some r \<Longrightarrow>
   st = sessions_at logger nows others k s \<Longrightarrow>
   \<exists>n\<ge>k. fst (sweep logger nows others n s) \<noteq> None"
proof (induction logger nows others k st r arbitrary: s
    rule: session_cleanup_thread.raw_induct [rotated, consumes 1])
  case (1 thread logger nows others k st r)
  show ?case
  proof (cases "fst (sweep logger nows others k s)")
    case (Some e)
    then show ?thesis by blast
  next
    case None
    with 1(2,3) have "thread logger nows others (k + 1) (sessions_at logger nows others (k + 1) s) = Some r"
      by (auto simp: sweep_def split: prod.splits option.splits)
    from 1(1) [OF this refl] obtain n where "n \<ge> k + 1" "fst (sweep logger nows others n s) \<noteq> None"
      by blast
    then show ?thesis
      by (intro exI [of _ n]) simp
  qed
qed

lemma thread_forever:
  assumes "\<forall>i. fst (sweep logger nows others i s) = None"
  shows "session_cleanup_thread logger nows others 0 s = None"
proof (cases "session_cleanup_thread logger nows others 0 s")
  case None
  then show ?thesis .
next
  case (Some r)
  from thread_returns_raise [OF this, of s] assms show ?thesis
    by simp
qed

lemma delete_and_log_quiet:
  "\<forall>msg. logger msg = None \<Longrightarrow> fst (delete_and_log logger expired sessions) = None"
  by (induction expired arbitrary: sessions) (simp_all add: Let_def)

lemma cleanup_quiet:
  "\<forall>msg. logger msg = None \<Longrightarrow> fst (cleanup_expired_sessions logger nows sessions) = None"
  by (simp add: cleanup_expired_sessions_def delete_and_log_quiet)

text \<open>
  C8, as the code has it.  The sweep loop has no handler: when round \<open>n\<close> is the first
  whose sweep raises, the thread ends in that round with the exception, and no later
  round runs.  When no round raises, the loop never ends.
\<close>

theorem sweep_thread_ends_at_first_exception:
  "(fst (sweep logger nows others n s) = Some e \<and>
    (\<forall>i<n. fst (sweep logger nows others i s) = None) \<longrightarrow>
      session_cleanup_thread logger nows others 0 s =
        Some (e, n, snd (sweep logger nows others n s))) \<and>
   ((\<forall>i. fst (sweep logger nows others i s) = None) \<longrightarrow>
      session_cleanup_thread logger nows others 0 s = None)"
  using thread_stops [of logger nows others n s e] thread_forever [of logger nows others s]
  by blast

lemma sweep_rising_0:
  "sweep failing_logger rising_clock nobody 0
     [(''ABC234'', new_session None example_keys p 0 (-10800000000))] =
   (None, [(''ABC234'', new_session None example_keys p 0 (-10800000000))])"
  by (simp add: sweep_def cleanup_expired_sessions_def rising_clock_def nobody_def
      new_session_def timedelta_hours_def SESSION_TIMEOUT_HOURS_def)

lemma sweep_rising_1:
  "sweep failing_logger rising_clock nobody 1
     [(''ABC234'', new_session None example_keys p 0 (-10800000000))] =
   (Some LoggingError, [])"
proof -
  have "sessions_at failing_logger rising_clock nobody (Suc 0)
     [(''ABC234'', new_session None example_keys p 0 (-10800000000))] =
     [(''ABC234'', new_session None example_keys p 0 (-10800000000))]"
    using sweep_rising_0 [of p] by (simp add: sweep_def)
  then show ?thesis
    by (simp add: sweep_def cleanup_expired_sessions_def rising_clock_def nobody_def
        failing_logger_def new_session_def timedelta_hours_def SESSION_TIMEOUT_HOURS_def)
qed

theorem sweep_thread_ends_at_first_exception_witness:
  "fst (sweep failing_logger rising_clock nobody 1
         [(''ABC234'', new_session None example_keys '''' 0 (-10800000000))]) = Some LoggingError \<and>
   fst (sweep failing_logger rising_clock nobody 0
         [(''ABC234'', new_session None example_keys '''' 0 (-10800000000))]) = None \<and>
   session_cleanup_thread failing_logger rising_clock nobody 0
         [(''ABC234'', new_session None example_keys '''' 0 (-10800000000))] =
     Some (LoggingError, 1, []) \<and>
   (\<forall>i. fst (sweep quiet_logger rising_clock nobody i
         [(''ABC234'', new_session None example_keys '''' 0 (-10800000000))]) = None) \<and>
   session_cleanup_thread quiet_logger rising_clock nobody 0
         [(''ABC234'', new_session None example_keys '''' 0 (-10800000000))] = None"
proof -
  let ?s = "[(''ABC234'', new_session None example_keys '''' 0 (-10800000000))]"
  have h1: "fst (sweep failing_logger rising_clock nobody 1 ?s) = Some LoggingError"
    by (simp only: sweep_rising_1 fst_conv)
  have h2: "\<forall>i<1. fst (sweep failing_logger rising_clock nobody i ?s) = None"
    by (simp add: sweep_rising_0)
  have h3: "\<forall>i. fst (sweep quiet_logger rising_clock nobody i ?s) = None"
    by (simp add: sweep_def cleanup_quiet quiet_logger_def)
  from sweep_thread_ends_at_first_exception [of failing_logger rising_clock nobody 1 ?s LoggingError]
    h1 h2
  have r1: "session_cleanup_thread failing_logger rising_clock nobody 0 ?s = Some (LoggingError, 1, [])"
    by (simp only: sweep_rising_1 snd_conv)
  from sweep_thread_ends_at_first_exception [of quiet_logger rising_clock nobody 0 ?s LoggingError] h3
  have r2: "session_cleanup_thread quiet_logger rising_clock nobody 0 ?s = None"
    by blast
  from h2 have h2': "fst (sweep failing_logger rising_clock nobody 0 ?s) = None"
    by blast
  from h1 h2' h3 r1 r2 show ?thesis
    by blast
qed

text \<open>
  C8, as it is stated, fails.  A sweep that raises ends the loop: here the only session is expired, the logger raises
  on the first message, and the thread returns in its first round.
\<close>

theorem sweep_thread_counterexample:
  "fst (sweep failing_logger fixed_clock nobody 0
         [(''ABC234'', new_session None example_keys '''' 0 (-10800000000))]) = Some LoggingError \<and>
   session_cleanup_thread failing_logger fixed_clock nobody 0
         [(''ABC234'', new_session None example_keys '''' 0 (-10800000000))]
     = Some (LoggingError, 0, [])"
proof -
  let ?s = "[(''ABC234'', new_session None example_keys '''' 0 (-10800000000))]"
  have c: "cleanup_expired_sessions (failing_logger 0) (fixed_clock 0) (nobody 0 ?s)
     = (Some LoggingError, [])"
    by (simp add: cleanup_expired_sessions_def fixed_clock_def nobody_def
        failing_logger_def new_session_def timedelta_hours_def SESSION_TIMEOUT_HOURS_def)
  then have "fst (sweep failing_logger fixed_clock nobody 0 ?s) = Some LoggingError"
    by (simp add: sweep_def)
  moreover from c have "session_cleanup_thread failing_logger fixed_clock nobody 0 ?s
     = Some (LoggingError, 0, [])"
    by (subst session_cleanup_thread.simps) simp
  ultimately show ?thesis by blast
qed

section \<open>Which operations add a session\<close>

lemma keys_update_present:
  "map_of s c = Some x \<Longrightarrow> fst ` set (AList.update c y s) = fst ` set s"
  by (auto simp: AList.dom_update in_keys_iff)

lemma keys_delete: "fst ` set (AList.delete c s) \<subseteq> fst ` set s"
  by (rule AList.dom_delete_subset)

lemma get_session_cases:
  obtains (live) s where "map_of sessions code = Some s" "now < expires s"
      "get_session now code sessions = (Some s, sessions)"
  | (expired) s where "map_of sessions code = Some s" "expires s \<le> now"
      "get_session now code sessions = (None, AList.delete code sessions)"
  | (absent) "map_of sessions code = None" "get_session now code sessions = (None, sessions)"
proof (cases "map_of sessions code")
  case None
  then show ?thesis by (intro absent) (simp_all add: get_session_def)
next
  case (Some s)
  show ?thesis
  proof (cases "now < expires s")
    case True
    with Some show ?thesis by (intro live [of s]) (simp_all add: get_session_def)
  next
    case False
    with Some show ?thesis by (intro expired [of s]) (simp_all add: get_session_def)
  qed
qed

lemma shrinks_refl [simp]: "shrinks s s"
  by (simp add: shrinks_def)

lemma shrinks_delete [simp]: "shrinks (AList.delete c s) s"
  by (simp add: shrinks_def keys_delete)

lemma shrinks_update: "map_of s c = Some x \<Longrightarrow> shrinks (AList.update c y s) s"
  by (simp add: shrinks_def keys_update_present)

lemma shrinks_set_if_present [simp]: "shrinks (set_if_present code f s) s"
  by (simp add: set_if_present_def shrinks_update split: option.splits)

lemma shrinks_trans: "shrinks s'' s' \<Longrightarrow> shrinks s' s \<Longrightarrow> shrinks s'' s"
  by (auto simp: shrinks_def)

lemma shrinks_set_if_present_delete [simp]: "shrinks (set_if_present code f (AList.delete c s)) s"
  by (rule shrinks_trans [OF shrinks_set_if_present shrinks_delete])

lemma shrinks_get_session [simp]: "shrinks (snd (get_session now code s)) s"
  by (cases now code s rule: get_session_cases) simp_all

lemma shrinks_handle_disconnect [simp]: "shrinks (snd (handle_disconnect sid s)) s"
proof -
  have "map fst (snd (handle_disconnect sid s)) = map fst s"
    by (induction s) (auto simp: Let_def split: prod.splits)
  then have "set (map fst (snd (handle_disconnect sid s))) = set (map fst s)"
    by simp
  then show ?thesis
    unfolding shrinks_def by simp
qed

lemma shrinks_end_session [simp]: "shrinks (snd (end_session code s)) s"
  by (simp add: end_session_def)

lemma add_student_result:
  assumes "add_student_to_session draw pos now code sid nm s = Inr ((st, pos'), s')"
  shows "s' = s \<or> (\<exists>a x. map_of s code = Some a \<and> s' = AList.update code x s)"
proof (cases "map_of s code")
  case None
  with assms show ?thesis
    by (simp add: add_student_to_session_def split: sum.splits prod.splits)
next
  case (Some a)
  with assms show ?thesis
    by (simp add: add_student_to_session_def Let_def split: sum.splits prod.splits) blast
qed

lemma shrinks_add_student:
  "add_student_to_session draw pos now code sid nm s = Inr ((st, pos'), s') \<Longrightarrow> shrinks s' s"
  by (drule add_student_result) (auto simp: shrinks_update)

lemma shrinks_remove_student [simp]: "shrinks (snd (remove_student_from_session code sid s)) s"
  by (simp add: remove_student_from_session_def shrinks_update split: option.splits)

lemma shrinks_delete_and_log [simp]: "shrinks (snd (delete_and_log logger expired s)) s"
proof (induction expired arbitrary: s)
  case Nil
  then show ?case by simp
next
  case (Cons c expired)
  have "shrinks (snd (delete_and_log logger expired (AList.delete c s))) s"
    by (rule shrinks_trans [OF Cons shrinks_delete])
  then show ?case
    by (simp add: Let_def split: option.splits)
qed

lemma shrinks_cleanup [simp]: "shrinks (snd (cleanup_expired_sessions logger nows s)) s"
  by (simp add: cleanup_expired_sessions_def)

lemma shrinks_api_join [simp]: "shrinks (snd (api_join_session now code s)) s"
  by (cases now code s rule: get_session_cases) (simp_all add: api_join_session_def)

lemma shrinks_api_end [simp]: "shrinks (snd (api_end_session code s)) s"
  by (simp add: api_end_session_def end_session_def)

lemma shrinks_api_status [simp]: "shrinks (snd (api_session_status now code s)) s"
  by (cases now code s rule: get_session_cases) (simp_all add: api_session_status_def)

lemma shrinks_api_settings [simp]: "shrinks (snd (api_session_settings now code s)) s"
  by (cases now code s rule: get_session_cases) (simp_all add: api_session_settings_def)

lemma shrinks_api_set_text [simp]: "shrinks (snd (api_set_session_text code txt s)) s"
  by (simp add: api_set_session_text_def shrinks_update split: option.splits)

lemma shrinks_api_get_text [simp]: "shrinks (snd (api_get_session_text now code s)) s"
  by (cases now code s rule: get_session_cases) (simp_all add: api_get_session_text_def)

lemma shrinks_join [simp]:
  "shrinks (snd (snd (handle_student_join_session draw pos now now_j sid code nm s))) s"
proof (cases now code s rule: get_session_cases)
  case (live a)
  then show ?thesis
    by (simp add: handle_student_join_session_def Let_def shrinks_add_student
        split: sum.splits prod.splits)
next
  case (expired a)
  have "add_student_to_session draw pos now_j code sid x (AList.delete code s) = Inr ((st, p), s')
    \<Longrightarrow> shrinks s' s" for x st p s'
    by (rule shrinks_trans [OF shrinks_add_student shrinks_delete])
  with expired show ?thesis
    by (simp add: handle_student_join_session_def Let_def)
next
  case absent
  then show ?thesis
    by (simp add: handle_student_join_session_def Let_def)
qed

lemma shrinks_teacher_end [simp]: "shrinks (snd (handle_teacher_end_session now sid code s)) s"
  by (cases now code s rule: get_session_cases)
     (simp_all add: handle_teacher_end_session_def end_session_def)

lemma shrinks_update_settings [simp]:
  "shrinks (snd (handle_teacher_update_settings now sid code v s)) s"
  by (cases now code s rule: get_session_cases)
     (simp_all add: handle_teacher_update_settings_def)

lemma shrinks_release_tasks [simp]:
  "shrinks (snd (handle_teacher_release_tasks now sid code v s)) s"
  by (cases now code s rule: get_session_cases)
     (simp_all add: handle_teacher_release_tasks_def)

lemma shrinks_request_translation [simp]:
  "shrinks (snd (handle_student_request_translation now now_r sid code lang s)) s"
  by (cases now code s rule: get_session_cases)
     (simp_all add: handle_student_request_translation_def Let_def)

lemma shrinks_approve [simp]:
  "shrinks (snd (handle_teacher_approve_translation tr now sid code student_sid layout s)) s"
  by (cases now code s rule: get_session_cases)
     (simp_all add: handle_teacher_approve_translation_def split: option.splits sum.splits)

lemma shrinks_deny [simp]:
  "shrinks (snd (handle_teacher_deny_translation now sid code student_sid s)) s"
  by (cases now code s rule: get_session_cases)
     (simp_all add: handle_teacher_deny_translation_def)

lemma shrinks_toggle [simp]:
  "shrinks (snd (handle_teacher_toggle_simplification now sid code enabled s)) s"
  by (cases now code s rule: get_session_cases)
     (simp_all add: handle_teacher_toggle_simplification_def)

lemma shrinks_using_simplified [simp]:
  "shrinks (snd (handle_student_using_simplified now now_s sid code lvl s)) s"
  by (cases now code s rule: get_session_cases)
     (simp_all add: handle_student_using_simplified_def Let_def)

lemma step_shrinks:
  assumes "\<not> is_create x"
  shows "\<exists>outs pos' s'. step draw x (pos, s) = Some (outs, pos', s') \<and> shrinks s' s"
proof (cases x)
  case (StudentJoinSession now now_j sid code nm)
  then show ?thesis
    using shrinks_join [of draw pos now now_j sid code nm s]
    by (cases "handle_student_join_session draw pos now now_j sid code nm s") auto
next
  case (ApiJoinSession now code)
  then show ?thesis
    using shrinks_api_join [of now code s] by (simp add: split_beta)
next
  case (ApiEndSession code)
  then show ?thesis
    using shrinks_api_end [of code s] by (simp add: split_beta)
next
  case (ApiSessionStatus now code)
  then show ?thesis
    using shrinks_api_status [of now code s] by (simp add: split_beta)
next
  case (ApiSessionSettings now code)
  then show ?thesis
    using shrinks_api_settings [of now code s] by (simp add: split_beta)
next
  case (ApiSetSessionText code new_text)
  then show ?thesis
    using shrinks_api_set_text [of code new_text s] by (simp add: split_beta)
next
  case (ApiGetSessionText now code)
  then show ?thesis
    using shrinks_api_get_text [of now code s] by (simp add: split_beta)
next
  case (Disconnect sid)
  then show ?thesis
    using shrinks_handle_disconnect [of sid s] by (simp add: split_beta)
next
  case (TeacherEndSession now sid code)
  then show ?thesis
    using shrinks_teacher_end [of now sid code s] by (simp add: split_beta)
next
  case (TeacherUpdateSettings now sid code v)
  then show ?thesis
    using shrinks_update_settings [of now sid code v s] by (simp add: split_beta)
next
  case (TeacherReleaseTasks now sid code v)
  then show ?thesis
    using shrinks_release_tasks [of now sid code v s] by (simp add: split_beta)
next
  case (StudentRequestTranslation now now_r sid code lang)
  then show ?thesis
    using shrinks_request_translation [of now now_r sid code lang s] by (simp add: split_beta)
next
  case (TeacherApproveTranslation answer now sid code student_sid layout)
  then show ?thesis
    using shrinks_approve [of _ now sid code student_sid layout s] by (simp add: split_beta)
next
  case (TeacherDenyTranslation now sid code student_sid)
  then show ?thesis
    using shrinks_deny [of now sid code student_sid s] by (simp add: split_beta)
next
  case (TeacherToggleSimplification now sid code enabled)
  then show ?thesis
    using shrinks_toggle [of now sid code enabled s] by (simp add: split_beta)
next
  case (StudentUsingSimplified now now_s sid code lvl)
  then show ?thesis
    using shrinks_using_simplified [of now now_s sid code lvl s] by (simp add: split_beta)
qed (use assms in simp_all)

lemma run_shrinks:
  "\<forall>x\<in>set ops. \<not> is_create x \<Longrightarrow>
   \<exists>outs pos' s'. run draw ops (pos, s) = Some (outs, pos', s') \<and> shrinks s' s"
proof (induction ops arbitrary: pos s)
  case Nil
  then show ?case by simp
next
  case (Cons x ops)
  from Cons.prems have "\<not> is_create x" by simp
  from step_shrinks [OF this, of draw pos s] obtain o1 p1 s1
    where 1: "step draw x (pos, s) = Some (o1, p1, s1)" "shrinks s1 s" by blast
  from Cons.prems have "\<forall>x\<in>set ops. \<not> is_create x" by simp
  from Cons.IH [OF this, of p1 s1] obtain o2 p2 s2
    where 2: "run draw ops (p1, s1) = Some (o2, p2, s2)" "shrinks s2 s1" by blast
  from 1 2 show ?case
    by (auto intro: shrinks_trans)
qed

section \<open>Lookup and expiry\<close>

lemma get_session_absent:
  "code \<notin> fst ` set sessions \<Longrightarrow> get_session now code sessions = (None, sessions)"
  by (simp add: get_session_def in_keys_iff)

text \<open>
  C5.  \<^verbatim>\<open>get_session\<close> returns a session exactly when the code is a key and the clock is
  before the expiry of its session.  When the code is a key and the clock is at or past
  the expiry, the result is \<^verbatim>\<open>None\<close> and the entry is deleted; in every other case
  the sessions are left as they were.  Once a code is no key, it stays none through every
  sequence of operations that creates no session: such a sequence always returns, and
  every later lookup of the code gives \<^verbatim>\<open>None\<close>.
\<close>

theorem get_session_expiry:
  "(fst (get_session now code sessions) = Some s \<longleftrightarrow>
      map_of sessions code = Some s \<and> now < expires s) \<and>
   (map_of sessions code = Some s \<and> expires s \<le> now \<longrightarrow>
      get_session now code sessions = (None, AList.delete code sessions)) \<and>
   (\<not> (\<exists>s. map_of sessions code = Some s \<and> expires s \<le> now) \<longrightarrow>
      snd (get_session now code sessions) = sessions) \<and>
   code \<notin> fst ` set (AList.delete code sessions) \<and>
   (\<forall>ops pos later.
      code \<notin> fst ` set later \<and> (\<forall>x\<in>set ops. \<not> is_create x) \<longrightarrow>
      (\<exists>outs pos' sessions'.
         run draw ops (pos, later) = Some (outs, pos', sessions') \<and>
         code \<notin> fst ` set sessions' \<and>
         (\<forall>now'. get_session now' code sessions' = (None, sessions'))))"
proof -
  have 1: "fst (get_session now code sessions) = Some s \<longleftrightarrow>
      map_of sessions code = Some s \<and> now < expires s"
    by (cases now code sessions rule: get_session_cases) auto
  have 2: "map_of sessions code = Some s \<and> expires s \<le> now \<longrightarrow>
      get_session now code sessions = (None, AList.delete code sessions)"
    by (simp add: get_session_def)
  have 3: "\<not> (\<exists>s. map_of sessions code = Some s \<and> expires s \<le> now) \<longrightarrow>
      snd (get_session now code sessions) = sessions"
    by (cases now code sessions rule: get_session_cases) auto
  have 4: "code \<notin> fst ` set (AList.delete code sessions)"
    by (rule AList.delete_notin_dom)
  have 5: "\<exists>outs pos' sessions'.
         run draw ops (pos, later) = Some (outs, pos', sessions') \<and>
         code \<notin> fst ` set sessions' \<and>
         (\<forall>now'. get_session now' code sessions' = (None, sessions'))"
    if "code \<notin> fst ` set later" "\<forall>x\<in>set ops. \<not> is_create x" for ops pos later
  proof -
    from run_shrinks [OF that(2), of draw pos later] obtain outs pos' sessions'
      where r: "run draw ops (pos, later) = Some (outs, pos', sessions')" "shrinks sessions' later"
      by blast
    with that(1) have "code \<notin> fst ` set sessions'"
      by (auto simp: shrinks_def)
    with r(1) show ?thesis
      by (simp add: get_session_absent)
  qed
  from 1 2 3 4 5 show ?thesis
    by blast
qed

theorem get_session_expiry_witness:
  "fst (get_session (-1) ''ABC234'' [(''ABC234'', new_session None example_keys '''' 0 (-10800000000))])
     = Some (new_session None example_keys '''' 0 (-10800000000)) \<and>
   expires (new_session None example_keys '''' 0 (-10800000000)) = 0 \<and>
   get_session 0 ''ABC234'' [(''ABC234'', new_session None example_keys '''' 0 (-10800000000))]
     = (None, []) \<and>
   run repeat_draw [ApiSessionStatus 2 ''ABC234'', TeacherEndSession 3 ''T'' ''ABC234''] (0, [])
     = Some ([not_found ''Session nicht gefunden'',
              session_error ''Keine Berechtigung oder Session nicht gefunden''], 0, []) \<and>
   get_session 4 ''ABC234'' [] = (None, [])"
proof -
  let ?s = "new_session None example_keys '''' 0 (-10800000000)"
  let ?ops = "[ApiSessionStatus 2 ''ABC234'', TeacherEndSession 3 ''T'' ''ABC234'']"
  note t = get_session_expiry [of "-1" "''ABC234''" "[(''ABC234'', ?s)]" ?s repeat_draw]
  note u = get_session_expiry [of 0 "''ABC234''" "[(''ABC234'', ?s)]" ?s repeat_draw]
  have e: "expires ?s = 0"
    by (simp add: new_session_def timedelta_hours_def SESSION_TIMEOUT_HOURS_def)
  have m: "map_of [(''ABC234'', ?s)] ''ABC234'' = Some ?s"
    by simp
  from t [THEN conjunct1] m e have 1: "fst (get_session (-1) ''ABC234'' [(''ABC234'', ?s)]) = Some ?s"
    by simp
  from u [THEN conjunct2, THEN conjunct1] m e
  have 2: "get_session 0 ''ABC234'' [(''ABC234'', ?s)] = (None, [])"
    by simp
  have 3: "run repeat_draw ?ops (0, []) = Some ([not_found ''Session nicht gefunden'',
              session_error ''Keine Berechtigung oder Session nicht gefunden''], 0, [])"
    by (simp add: api_session_status_def handle_teacher_end_session_def get_session_def)
  have h: "''ABC234'' \<notin> fst ` set ([] :: registry) \<and> (\<forall>x\<in>set ?ops. \<not> is_create x)"
    by simp
  from u [THEN conjunct2, THEN conjunct2, THEN conjunct2, THEN conjunct2, rule_format, OF h, of 0]
  obtain outs pos' sessions' where
    r: "run repeat_draw ?ops (0, []) = Some (outs, pos', sessions')"
    "\<And>now'. get_session now' ''ABC234'' sessions' = (None, sessions')"
    by blast
  from r(1) have "sessions' = []"
    unfolding 3 by simp
  with r(2) [of 4] have 4: "get_session 4 ''ABC234'' [] = (None, [])"
    by simp
  from 1 e 2 3 4 show ?thesis
    by blast
qed

section \<open>What payloads show of the keys\<close>

lemma redact_session_fields [simp]:
  "teacher_sid (redact_session s) = teacher_sid s"
  "created (redact_session s) = created s"
  "expires (redact_session s) = expires s"
  "students (redact_session s) = students s"
  "session_text (redact_session s) = session_text s"
  "pin (redact_session s) = pin s"
  "tasks (redact_session s) = tasks s"
  "tasks_available (redact_session s) = tasks_available s"
  "translation_requests (redact_session s) = translation_requests s"
  "simplification_enabled (redact_session s) = simplification_enabled s"
  "student_levels (redact_session s) = student_levels s"
  "settings (redact_session s) = settings s"
  "keys (redact_session s) = redact_keys (keys s)"
  by (simp_all add: redact_session_def)

lemma redact_keys_fields [simp]:
  "voice_id (redact_keys k) = voice_id k"
  "stt_provider (redact_keys k) = stt_provider k"
  "ai_provider (redact_keys k) = ai_provider k"
  "elevenlabs (redact_keys k) = [] \<longleftrightarrow> elevenlabs k = []"
  "ai (redact_keys k) = [] \<longleftrightarrow> ai k = []"
  "elevenlabs (redact_keys k) = blank (elevenlabs k)"
  "ai (redact_keys k) = blank (ai k)"
  by (simp_all add: redact_keys_def blank_def)

lemma blank_blank [simp]: "blank (blank key) = blank key"
  by (simp add: blank_def)

lemma blank_empty [simp]: "blank key = [] \<longleftrightarrow> key = []"
  by (simp add: blank_def)

lemma redact_keys_idem [simp]: "redact_keys (redact_keys k) = redact_keys k"
  by (simp add: redact_keys_def)

lemma redact_session_idem [simp]: "redact_session (redact_session s) = redact_session s"
  by (simp add: redact_session_def)

lemma redact_idem [simp]: "redact (redact s) = redact s"
  by (simp add: redact_def split_beta)

lemma redact_Nil [simp]: "redact [] = []"
  by (simp add: redact_def)

lemma redact_Cons [simp]: "redact ((c, s) # rest) = (c, redact_session s) # redact rest"
  by (simp add: redact_def)

lemma redact_append [simp]: "redact (xs @ ys) = redact xs @ redact ys"
  by (simp add: redact_def)

lemma keys_redact [simp]: "map fst (redact s) = map fst s"
  by (induction s) auto

lemma dom_redact [simp]: "fst ` set (redact s) = fst ` set s"
  using keys_redact [of s] by (metis set_map)

lemma length_redact [simp]: "length (redact s) = length s"
  by (simp add: redact_def)

lemma map_of_redact [simp]: "map_of (redact s) c = map_option redact_session (map_of s c)"
  by (induction s) auto

lemma redact_update [simp]:
  "redact (AList.update c x s) = AList.update c (redact_session x) (redact s)"
  by (induction s) auto

lemma redact_delete [simp]: "redact (AList.delete c s) = AList.delete c (redact s)"
  by (induction s) auto

lemma redact_set_if_present:
  "(\<And>s. redact_session (f s) = f (redact_session s)) \<Longrightarrow>
   redact (set_if_present code f s) = set_if_present code f (redact s)"
  by (simp add: set_if_present_def split: option.splits)

lemma redact_session_update [simp]:
  "redact_session (s\<lparr>settings := v\<rparr>) = (redact_session s)\<lparr>settings := v\<rparr>"
  "redact_session (s\<lparr>tasks := t, tasks_available := b\<rparr>) = (redact_session s)\<lparr>tasks := t, tasks_available := b\<rparr>"
  "redact_session (s\<lparr>simplification_enabled := b\<rparr>) = (redact_session s)\<lparr>simplification_enabled := b\<rparr>"
  "redact_session (s\<lparr>session_text := x\<rparr>) = (redact_session s)\<lparr>session_text := x\<rparr>"
  "redact_session (s\<lparr>students := st\<rparr>) = (redact_session s)\<lparr>students := st\<rparr>"
  "redact_session (s\<lparr>translation_requests := r\<rparr>) = (redact_session s)\<lparr>translation_requests := r\<rparr>"
  "redact_session (s\<lparr>student_levels := l\<rparr>) = (redact_session s)\<lparr>student_levels := l\<rparr>"
  by (simp_all add: redact_session_def)

lemma redact_set_request [simp]:
  "redact_session (set_request sid f s) = set_request sid f (redact_session s)"
  by (simp add: set_request_def split: option.splits)

lemma get_session_redact:
  "get_session now code (redact s) =
     (map_option redact_session (fst (get_session now code s)), redact (snd (get_session now code s)))"
  by (cases now code s rule: get_session_cases) (simp_all add: get_session_def)

lemma redact_api_join:
  "api_join_session now code (redact s) =
     (fst (api_join_session now code s), redact (snd (api_join_session now code s)))"
  by (cases now code s rule: get_session_cases)
     (simp_all add: api_join_session_def get_session_redact)

lemma redact_api_end:
  "api_end_session code (redact s) =
     (fst (api_end_session code s), redact (snd (api_end_session code s)))"
  by (simp add: api_end_session_def end_session_def)

lemma redact_api_status:
  "api_session_status now code (redact s) =
     (fst (api_session_status now code s), redact (snd (api_session_status now code s)))"
  by (cases now code s rule: get_session_cases)
     (simp_all add: api_session_status_def get_session_redact)

lemma redact_api_settings:
  "api_session_settings now code (redact s) =
     (fst (api_session_settings now code s), redact (snd (api_session_settings now code s)))"
  by (cases now code s rule: get_session_cases)
     (simp_all add: api_session_settings_def get_session_redact)

lemma redact_api_set_text:
  "api_set_session_text code x (redact s) =
     (fst (api_set_session_text code x s), redact (snd (api_set_session_text code x s)))"
  by (simp add: api_set_session_text_def split: option.splits)

lemma redact_api_get_text:
  "api_get_session_text now code (redact s) =
     (fst (api_get_session_text now code s), redact (snd (api_get_session_text now code s)))"
  by (cases now code s rule: get_session_cases)
     (simp_all add: api_get_session_text_def get_session_redact)

lemma redact_disconnect:
  "handle_disconnect sid (redact s) =
     (fst (handle_disconnect sid s), redact (snd (handle_disconnect sid s)))"
  by (induction s) (auto simp: Let_def split: prod.splits)

lemma redact_teacher_end:
  "handle_teacher_end_session now sid code (redact s) =
     (fst (handle_teacher_end_session now sid code s),
      redact (snd (handle_teacher_end_session now sid code s)))"
  by (cases now code s rule: get_session_cases)
     (simp_all add: handle_teacher_end_session_def get_session_redact end_session_def)

lemma redact_update_settings:
  "handle_teacher_update_settings now sid code v (redact s) =
     (fst (handle_teacher_update_settings now sid code v s),
      redact (snd (handle_teacher_update_settings now sid code v s)))"
  by (cases now code s rule: get_session_cases)
     (simp_all add: handle_teacher_update_settings_def get_session_redact redact_set_if_present)

lemma redact_release_tasks:
  "handle_teacher_release_tasks now sid code v (redact s) =
     (fst (handle_teacher_release_tasks now sid code v s),
      redact (snd (handle_teacher_release_tasks now sid code v s)))"
  by (cases now code s rule: get_session_cases)
     (simp_all add: handle_teacher_release_tasks_def get_session_redact redact_set_if_present)

lemma redact_request_translation:
  "handle_student_request_translation now now_r sid code lang (redact s) =
     (fst (handle_student_request_translation now now_r sid code lang s),
      redact (snd (handle_student_request_translation now now_r sid code lang s)))"
  by (cases now code s rule: get_session_cases)
     (simp_all add: handle_student_request_translation_def get_session_redact
        redact_set_if_present Let_def)

lemma translate_blind:
  assumes "key_blind post"
  shows "translate_text_with_ai post txt lang (blank key) provider =
         translate_text_with_ai post txt lang key provider"
proof -
  from assms have "post (OpenAI key p) = post (OpenAI (blank key) p)"
    "post (Google key p) = post (Google (blank key) p)"
    "post (Anthropic key p) = post (Anthropic (blank key) p)" for p
    unfolding key_blind_def
    using blank_call.simps by metis+
  then show ?thesis
    by (simp add: translate_text_with_ai_def Let_def)
qed

lemma redact_approve:
  assumes "key_blind post"
  shows "handle_teacher_approve_translation post now sid code student_sid layout (redact s) =
     (fst (handle_teacher_approve_translation post now sid code student_sid layout s),
      redact (snd (handle_teacher_approve_translation post now sid code student_sid layout s)))"
  by (cases now code s rule: get_session_cases)
     (simp_all add: handle_teacher_approve_translation_def get_session_redact
        redact_set_if_present translate_blind [OF assms] split: option.splits sum.splits)

lemma redact_deny:
  "handle_teacher_deny_translation now sid code student_sid (redact s) =
     (fst (handle_teacher_deny_translation now sid code student_sid s),
      redact (snd (handle_teacher_deny_translation now sid code student_sid s)))"
  by (cases now code s rule: get_session_cases)
     (simp_all add: handle_teacher_deny_translation_def get_session_redact redact_set_if_present)

lemma redact_toggle:
  "handle_teacher_toggle_simplification now sid code b (redact s) =
     (fst (handle_teacher_toggle_simplification now sid code b s),
      redact (snd (handle_teacher_toggle_simplification now sid code b s)))"
  by (cases now code s rule: get_session_cases)
     (simp_all add: handle_teacher_toggle_simplification_def get_session_redact redact_set_if_present)

lemma redact_using_simplified:
  "handle_student_using_simplified now now_s sid code lvl (redact s) =
     (fst (handle_student_using_simplified now now_s sid code lvl s),
      redact (snd (handle_student_using_simplified now now_s sid code lvl s)))"
  by (cases now code s rule: get_session_cases)
     (simp_all add: handle_student_using_simplified_def get_session_redact
        redact_set_if_present Let_def)

lemma redact_remove_student:
  "remove_student_from_session code sid (redact s) =
     (fst (remove_student_from_session code sid s),
      redact (snd (remove_student_from_session code sid s)))"
  by (simp add: remove_student_from_session_def split: option.splits)

lemma used_indices_redact [simp]: "used_indices (redact_session s) = used_indices s"
  by (simp add: used_indices_def)

lemma redact_get_anonymous_name [simp]:
  "get_anonymous_name draw pos code sid (redact s) = get_anonymous_name draw pos code sid s"
  by (simp add: get_anonymous_name_def Let_def split: option.splits sum.splits prod.splits)

lemma redact_add_student:
  "add_student_to_session draw pos now code sid nm (redact s) =
     map_sum id (\<lambda>(r, t). (r, redact t)) (add_student_to_session draw pos now code sid nm s)"
  by (simp add: add_student_to_session_def Let_def split: sum.splits prod.splits option.splits)

lemma redact_join:
  "handle_student_join_session draw pos now now_j sid code nm (redact s) =
     (fst (handle_student_join_session draw pos now now_j sid code nm s),
      fst (snd (handle_student_join_session draw pos now now_j sid code nm s)),
      redact (snd (snd (handle_student_join_session draw pos now now_j sid code nm s))))"
proof (cases now code s rule: get_session_cases)
  case (live a)
  show ?thesis
  proof (cases "add_student_to_session draw pos now_j code sid (Some (py_get ''Anonym'' nm)) s")
    case (Inl e)
    with live show ?thesis
      by (simp add: handle_student_join_session_def get_session_redact redact_add_student Let_def)
  next
    case (Inr r)
    obtain st p t where r: "r = ((st, p), t)" by (cases r) auto
    have "py_get (redact_session a) (map_option redact_session (map_of t code)) =
          redact_session (py_get a (map_of t code))"
      by (simp add: py_get_def split: option.splits)
    with live Inr r show ?thesis
      by (simp add: handle_student_join_session_def get_session_redact redact_add_student Let_def)
  qed
next
  case (expired a)
  then show ?thesis
    by (simp add: handle_student_join_session_def get_session_redact Let_def)
next
  case absent
  then show ?thesis
    by (simp add: handle_student_join_session_def get_session_redact Let_def)
qed

lemma redact_delete_and_log:
  "delete_and_log logger expired (redact s) =
     (fst (delete_and_log logger expired s), redact (snd (delete_and_log logger expired s)))"
proof (induction expired arbitrary: s)
  case Nil
  then show ?case by simp
next
  case (Cons c expired)
  from Cons [of "AList.delete c s"] show ?case
    by (simp add: Let_def split: option.splits)
qed

lemma zip_redact:
  "map (\<lambda>(i, code, s). code) (filter (\<lambda>(i, code, s). nows i \<ge> expires s) (zip ns (redact s))) =
   map (\<lambda>(i, code, s). code) (filter (\<lambda>(i, code, s). nows i \<ge> expires s) (zip ns s))"
proof (induction s arbitrary: ns)
  case Nil
  then show ?case by simp
next
  case (Cons x s)
  obtain c a where "x = (c, a)" by (cases x) auto
  with Cons show ?case
    by (cases ns) simp_all
qed

lemma redact_cleanup:
  "cleanup_expired_sessions logger nows (redact s) =
     (fst (cleanup_expired_sessions logger nows s),
      redact (snd (cleanup_expired_sessions logger nows s)))"
  by (simp add: cleanup_expired_sessions_def Let_def zip_redact redact_delete_and_log)

lemma step_redact:
  assumes "\<not> is_create x" "key_blind_op x"
  shows "step draw x (pos, redact s) =
     map_option (\<lambda>(outs, pos', s'). (outs, pos', redact s')) (step draw x (pos, s))"
proof (cases x)
  case (ApiSetSessionText code new_text)
  then show ?thesis
    by (simp add: redact_api_set_text split_beta)
qed (use assms in \<open>simp_all add: split_beta get_session_redact redact_api_join redact_api_end
      redact_api_status redact_api_settings redact_api_get_text redact_disconnect
      redact_teacher_end redact_update_settings redact_release_tasks redact_request_translation
      redact_approve redact_deny redact_toggle redact_using_simplified redact_remove_student
      redact_cleanup redact_join\<close>)

lemma generate_same_keys:
  assumes "fst ` set s1 = fst ` set s2"
  shows "generate_session_code draw pos s1 = generate_session_code draw pos s2"
proof (cases "\<exists>n. attempt draw pos n \<notin> fst ` set s1")
  case True
  define n where "n = (LEAST n. attempt draw pos n \<notin> fst ` set s1)"
  from True have fresh: "attempt draw pos n \<notin> fst ` set s1"
    unfolding n_def by (rule LeastI_ex)
  have least: "\<forall>m<n. attempt draw pos m \<in> fst ` set s1"
    unfolding n_def using not_less_Least by blast
  from generate_first_fresh [OF fresh least]
    generate_first_fresh [OF fresh [unfolded assms] least [unfolded assms]]
  show ?thesis by simp
next
  case False
  then have all: "\<forall>n. attempt draw pos n \<in> fst ` set s1" by blast
  from generate_forever [OF all] generate_forever [OF all [unfolded assms]]
  show ?thesis by simp
qed

lemma same_payloads_Some [simp]:
  "same_payloads (Some (o1, p1, t1)) (Some (o2, p2, t2)) \<longleftrightarrow>
     o1 = o2 \<and> p1 = p2 \<and> redact t1 = redact t2"
  by (simp add: same_payloads_def)

lemma same_payloads_None [simp]:
  "same_payloads None None" "\<not> same_payloads None (Some r)" "\<not> same_payloads (Some r) None"
  by (simp_all add: same_payloads_def split: prod.splits)

lemma same_payloads_cases:
  assumes "same_payloads r1 r2"
  obtains (never) "r1 = None" "r2 = None"
  | (returns) outs pos t1 t2 where "r1 = Some (outs, pos, t1)" "r2 = Some (outs, pos, t2)"
      "redact t1 = redact t2"
proof (cases r1)
  case None
  with assms have "r2 = None" by (cases r2) simp_all
  with None show ?thesis by (rule never)
next
  case (Some a)
  obtain outs pos t1 where a: "a = (outs, pos, t1)" by (cases a) auto
  from assms Some obtain b where b: "r2 = Some b" by (cases r2) simp_all
  obtain outs' pos' t2 where b': "b = (outs', pos', t2)" by (cases b) auto
  from assms Some a b b' have "outs' = outs" "pos' = pos" "redact t1 = redact t2"
    by simp_all
  with Some a b b' show ?thesis
    by (intro returns [of outs pos t1 t2]) simp_all
qed

lemma redact_new_session [simp]:
  "redact_session (new_session t_sid ks p now_c now_e) =
     new_session t_sid (redact_keys ks) p now_c now_e"
  by (simp add: redact_session_def new_session_def)

lemma create_session_low:
  assumes "redact s1 = redact s2" "redact_keys k1 = redact_keys k2"
    and "\<And>pos'. same_payloads (ba (pos', s1)) (bb (pos', s2))"
  obtains (never) "create_session draw pos ba now_c now_e t_sid k1 p s1 = None"
      "create_session draw pos bb now_c now_e t_sid k2 p s2 = None"
  | (created) code seen pos' t1 t2 where
      "create_session draw pos ba now_c now_e t_sid k1 p s1 =
         Some (code, seen, pos', AList.update code (new_session t_sid k1 p now_c now_e) t1)"
      "create_session draw pos bb now_c now_e t_sid k2 p s2 =
         Some (code, seen, pos', AList.update code (new_session t_sid k2 p now_c now_e) t2)"
      "redact t1 = redact t2"
proof -
  from assms(1) have "fst ` set (redact s1) = fst ` set (redact s2)" by simp
  then have k: "fst ` set s1 = fst ` set s2" by simp
  note g = generate_same_keys [OF k, of draw pos]
  show ?thesis
  proof (cases "generate_session_code draw pos s1")
    case None
    with g show ?thesis
      by (intro never) (simp_all add: create_session_def)
  next
    case (Some r)
    obtain code pos' where r: "r = (code, pos')" by (cases r) auto
    from assms(3) [of pos'] show ?thesis
    proof (cases rule: same_payloads_cases)
      case never
      with Some g r show ?thesis
        by (intro that(1)) (simp_all add: create_session_def)
    next
      case (returns seen pos'' t1 t2)
      with Some g r show ?thesis
        by (intro created [of code seen pos'' t1 t2]) (simp_all add: create_session_def)
    qed
  qed
qed

lemma redact_request_fields:
  assumes "redact_request d1 = redact_request d2"
  shows "blank (py_get [] (elevenlabs_key d1)) = blank (py_get [] (elevenlabs_key d2))"
    "blank (py_get [] (ai_key d1)) = blank (py_get [] (ai_key d2))"
    "rq_ai_provider d1 = rq_ai_provider d2" "rq_voice_id d1 = rq_voice_id d2"
    "rq_stt_provider d1 = rq_stt_provider d2" "rq_pin d1 = rq_pin d2"
proof -
  from assms have e: "map_option blank (elevenlabs_key d1) = map_option blank (elevenlabs_key d2)"
    and a: "map_option blank (ai_key d1) = map_option blank (ai_key d2)"
    and r: "rq_ai_provider d1 = rq_ai_provider d2" "rq_voice_id d1 = rq_voice_id d2"
      "rq_stt_provider d1 = rq_stt_provider d2" "rq_pin d1 = rq_pin d2"
    unfolding redact_request_def
    by (cases d1; cases d2; simp)+
  from e show "blank (py_get [] (elevenlabs_key d1)) = blank (py_get [] (elevenlabs_key d2))"
    by (cases "elevenlabs_key d1"; cases "elevenlabs_key d2") (simp_all add: py_get_def)
  from a show "blank (py_get [] (ai_key d1)) = blank (py_get [] (ai_key d2))"
    by (cases "ai_key d1"; cases "ai_key d2") (simp_all add: py_get_def)
  from r show "rq_ai_provider d1 = rq_ai_provider d2" "rq_voice_id d1 = rq_voice_id d2"
    "rq_stt_provider d1 = rq_stt_provider d2" "rq_pin d1 = rq_pin d2"
    by simp_all
qed

lemma blank_eq_empty: "blank a = blank b \<Longrightarrow> a = [] \<longleftrightarrow> b = []"
  by (simp add: blank_def split: if_splits)

lemma api_create_low:
  assumes "redact s1 = redact s2" "redact_request d1 = redact_request d2"
    and "\<And>pos'. same_payloads (ba (pos', s1)) (bb (pos', s2))"
  shows "same_payloads (api_create_session draw pos ba now_c now_e d1 s1)
                       (api_create_session draw pos bb now_c now_e d2 s2)"
proof -
  note f = redact_request_fields [OF assms(2)]
  let ?k1 = "\<lparr> elevenlabs = py_get [] (elevenlabs_key d1),
                  ai = py_get [] (ai_key d1),
                  ai_provider = py_get ''openai'' (rq_ai_provider d1),
                  voice_id = py_get DEFAULT_VOICE (rq_voice_id d1),
                  stt_provider = None \<rparr>"
  let ?k2 = "\<lparr> elevenlabs = py_get [] (elevenlabs_key d2),
                  ai = py_get [] (ai_key d2),
                  ai_provider = py_get ''openai'' (rq_ai_provider d2),
                  voice_id = py_get DEFAULT_VOICE (rq_voice_id d2),
                  stt_provider = None \<rparr>"
  have k: "redact_keys ?k1 = redact_keys ?k2"
    using f by (simp add: redact_keys_def)
  have e: "py_get [] (elevenlabs_key d1) = [] \<longleftrightarrow> py_get [] (elevenlabs_key d2) = []"
    by (rule blank_eq_empty [OF f(1)])
  show ?thesis
  proof (cases "py_get [] (elevenlabs_key d1) = []")
    case True
    with e assms(1) show ?thesis
      by (simp add: api_create_session_def Let_def)
  next
    case False
    note c = create_session_low [where ba = ba and bb = bb, OF assms(1) k assms(3),
        of draw pos now_c now_e None "[]"]
    show ?thesis
    proof (rule c, goal_cases never created)
      case never
      with False e show ?thesis
        by (simp add: api_create_session_def Let_def)
    next
      case (created code seen pos' t1 t2)
      have x: "expires (new_session None ?k1 [] now_c now_e) = expires (new_session None ?k2 [] now_c now_e)"
        by (simp add: new_session_def)
      have r: "redact (AList.update code (new_session None ?k1 [] now_c now_e) t1) =
               redact (AList.update code (new_session None ?k2 [] now_c now_e) t2)"
        using k created(3) by simp
      from False e created(1,2) x r show ?thesis
        by (simp add: api_create_session_def Let_def update_conv' del: redact_update)
    qed
  qed
qed

lemma teacher_create_low:
  assumes "redact s1 = redact s2" "redact_request d1 = redact_request d2"
    and "\<And>pos'. same_payloads (ba (pos', s1)) (bb (pos', s2))"
  shows "same_payloads (handle_teacher_create_session draw pos ba now_c now_e sid d1 s1)
                       (handle_teacher_create_session draw pos bb now_c now_e sid d2 s2)"
proof -
  note f = redact_request_fields [OF assms(2)]
  let ?k1 = "\<lparr> elevenlabs = py_get [] (elevenlabs_key d1),
                  ai = py_get [] (ai_key d1),
                  ai_provider = py_get ''openai'' (rq_ai_provider d1),
                  voice_id = py_get DEFAULT_VOICE (rq_voice_id d1),
                  stt_provider = Some (py_get ''browser'' (rq_stt_provider d1)) \<rparr>"
  let ?k2 = "\<lparr> elevenlabs = py_get [] (elevenlabs_key d2),
                  ai = py_get [] (ai_key d2),
                  ai_provider = py_get ''openai'' (rq_ai_provider d2),
                  voice_id = py_get DEFAULT_VOICE (rq_voice_id d2),
                  stt_provider = Some (py_get ''browser'' (rq_stt_provider d2)) \<rparr>"
  have k: "redact_keys ?k1 = redact_keys ?k2"
    using f by (simp add: redact_keys_def)
  have e: "py_get [] (elevenlabs_key d1) = [] \<longleftrightarrow> py_get [] (elevenlabs_key d2) = []"
    by (rule blank_eq_empty [OF f(1)])
  show ?thesis
  proof (cases "py_get [] (elevenlabs_key d1) = []")
    case True
    with e assms(1) show ?thesis
      by (simp add: handle_teacher_create_session_def Let_def)
  next
    case False
    note c = create_session_low [where ba = ba and bb = bb, OF assms(1) k assms(3),
        of draw pos now_c now_e "Some sid" "py_get [] (rq_pin d1)"]
    show ?thesis
    proof (rule c, goal_cases never created)
      case never
      with False e f(6) show ?thesis
        by (simp add: handle_teacher_create_session_def Let_def)
    next
      case (created code seen pos' t1 t2)
      let ?p = "py_get [] (rq_pin d1)"
      have x: "expires (new_session (Some sid) ?k1 ?p now_c now_e) =
               expires (new_session (Some sid) ?k2 ?p now_c now_e)"
        by (simp add: new_session_def)
      have r: "redact (AList.update code (new_session (Some sid) ?k1 ?p now_c now_e) t1) =
               redact (AList.update code (new_session (Some sid) ?k2 ?p now_c now_e) t2)"
        using k created(3) by simp
      from False e created(1,2) x r f(6) show ?thesis
        by (simp add: handle_teacher_create_session_def Let_def update_conv' del: redact_update)
    qed
  qed
qed

lemma redact_op_plain:
  assumes "\<not> is_create x" "redact_op x = redact_op y"
  shows "y = x"
  using assms by (cases x; cases y) simp_all

lemma step_low_plain:
  assumes "\<not> is_create x" "key_blind_op x" "redact s1 = redact s2"
  shows "same_payloads (step draw x (pos, s1)) (step draw x (pos, s2))"
proof -
  from step_shrinks [OF assms(1), of draw pos s1] obtain o1 p1 t1
    where 1: "step draw x (pos, s1) = Some (o1, p1, t1)" by blast
  from step_shrinks [OF assms(1), of draw pos s2] obtain o2 p2 t2
    where 2: "step draw x (pos, s2) = Some (o2, p2, t2)" by blast
  from step_redact [OF assms(1,2), of draw pos s1] step_redact [OF assms(1,2), of draw pos s2]
    assms(3) 1 2
  show ?thesis by simp
qed

lemma run_low_steps:
  assumes "\<And>x y pos s1 s2. x \<in> set ops \<Longrightarrow> redact_op x = redact_op y \<Longrightarrow> key_blind_op x \<Longrightarrow>
             redact s1 = redact s2 \<Longrightarrow>
             same_payloads (step draw x (pos, s1)) (step draw y (pos, s2))"
    and "map redact_op ops = map redact_op ops'" "list_all key_blind_op ops" "redact s1 = redact s2"
  shows "same_payloads (run draw ops (pos, s1)) (run draw ops' (pos, s2))"
  using assms
proof (induction ops arbitrary: ops' pos s1 s2)
  case Nil
  then show ?case by simp
next
  case (Cons x ops)
  from Cons.prems(2) obtain y ops2 where ops': "ops' = y # ops2"
    and xy: "redact_op x = redact_op y" and rest: "map redact_op ops = map redact_op ops2"
    by (cases ops') auto
  from Cons.prems(3) have bx: "key_blind_op x" and bs: "list_all key_blind_op ops"
    by simp_all
  have st: "same_payloads (step draw x (pos, s1)) (step draw y (pos, s2))"
    by (rule Cons.prems(1) [OF _ xy bx Cons.prems(4)]) simp
  have ih: "same_payloads (run draw ops (p, t1)) (run draw ops2 (p, t2))"
    if "redact t1 = redact t2" for p t1 t2
    by (rule Cons.IH [OF _ rest bs that]) (rule Cons.prems(1); simp)
  from st show ?case
  proof (cases rule: same_payloads_cases)
    case never
    then show ?thesis
      by (simp add: ops')
  next
    case (returns outs p t1 t2)
    from ih [OF returns(3), of p] show ?thesis
    proof (cases rule: same_payloads_cases)
      case never
      with returns show ?thesis
        by (simp add: ops')
    next
      case (returns outs' p' u1 u2)
      with \<open>step draw x (pos, s1) = Some (outs, p, t1)\<close> \<open>step draw y (pos, s2) = Some (outs, p, t2)\<close>
      show ?thesis
        by (simp add: ops')
    qed
  qed
qed

lemma step_low:
  "redact_op x = redact_op y \<Longrightarrow> key_blind_op x \<Longrightarrow> redact s1 = redact s2 \<Longrightarrow>
   same_payloads (step draw x (pos, s1)) (step draw y (pos, s2))"
proof (induction x arbitrary: y pos s1 s2)
  case (ApiCreateSession now_c now_e d1 between)
  from ApiCreateSession.prems(1) obtain d2 between' where
    y: "y = ApiCreateSession now_c now_e d2 between'"
    and d: "redact_request d1 = redact_request d2"
    and b: "map redact_op between = map redact_op between'"
    by (cases y) simp_all
  from ApiCreateSession.prems(2) have kb: "list_all key_blind_op between"
    by simp
  have "same_payloads (run draw between (p, s1)) (run draw between' (p, s2))" for p
    by (rule run_low_steps [OF ApiCreateSession.IH b kb ApiCreateSession.prems(3)])
  from api_create_low [where ba = "run draw between" and bb = "run draw between'",
      OF ApiCreateSession.prems(3) d this] show ?case
    by (simp add: y)
next
  case (TeacherCreateSession now_c now_e sid d1 between)
  from TeacherCreateSession.prems(1) obtain d2 between' where
    y: "y = TeacherCreateSession now_c now_e sid d2 between'"
    and d: "redact_request d1 = redact_request d2"
    and b: "map redact_op between = map redact_op between'"
    by (cases y) simp_all
  from TeacherCreateSession.prems(2) have kb: "list_all key_blind_op between"
    by simp
  have "same_payloads (run draw between (p, s1)) (run draw between' (p, s2))" for p
    by (rule run_low_steps [OF TeacherCreateSession.IH b kb TeacherCreateSession.prems(3)])
  from teacher_create_low [where ba = "run draw between" and bb = "run draw between'",
      OF TeacherCreateSession.prems(3) d this] show ?case
    by (simp add: y)
qed (use redact_op_plain step_low_plain in \<open>(metis is_create.simps)+\<close>)

lemma run_low:
  "map redact_op ops = map redact_op ops' \<Longrightarrow> list_all key_blind_op ops \<Longrightarrow>
   redact s1 = redact s2 \<Longrightarrow>
   same_payloads (run draw ops (pos, s1)) (run draw ops' (pos, s2))"
  by (rule run_low_steps [OF step_low])

section \<open>What the routes show of the keys\<close>

lemma blind_call:
  assumes "key_blind_fetch fetch"
  shows "fetch (call\<lparr>call_key := blank key\<rparr>) = fetch (call\<lparr>call_key := key\<rparr>)"
proof -
  from assms have "fetch (call\<lparr>call_key := key\<rparr>) =
      fetch (call\<lparr>call_key := key\<rparr>\<lparr>call_key := blank (call_key (call\<lparr>call_key := key\<rparr>))\<rparr>)"
    unfolding key_blind_fetch_def by blast
  then show ?thesis by simp
qed

lemma blind_builders:
  assumes "key_blind_fetch fetch"
  shows "fetch (openai_chat (blank key) model params texts) = fetch (openai_chat key model params texts)"
    and "fetch (google_generate (blank key) model params texts) =
         fetch (google_generate key model params texts)"
    and "fetch (anthropic_messages (blank key) model params texts) =
         fetch (anthropic_messages key model params texts)"
  using blind_call [OF assms, where call = "openai_chat key model params texts" and key = key]
    blind_call [OF assms, where call = "google_generate key model params texts" and key = key]
    blind_call [OF assms, where call = "anthropic_messages key model params texts" and key = key]
  by (simp_all add: openai_chat_def google_generate_def anthropic_messages_def)

lemma blind_record:
  assumes "key_blind_fetch fetch"
  shows "fetch \<lparr> call_url = u, key_header = h, call_key = blank key, call_model = m,
                 call_params = ps, call_texts = ts \<rparr> =
         fetch \<lparr> call_url = u, key_header = h, call_key = key, call_model = m,
                 call_params = ps, call_texts = ts \<rparr>"
  using blind_call [OF assms, where call = "\<lparr> call_url = u, key_header = h, call_key = key,
                 call_model = m, call_params = ps, call_texts = ts \<rparr>" and key = key]
  by simp

lemma get_session_keys_redact:
  "get_session_keys now code (redact s) =
     (map_option redact_keys (fst (get_session_keys now code s)),
      redact (snd (get_session_keys now code s)))"
  by (cases now code s rule: get_session_cases)
     (simp_all add: get_session_keys_def get_session_redact)

lemma get_session_keys_cases:
  obtains (live) a where "map_of s code = Some a" "now < expires a"
      "get_session_keys now code s = (Some (keys a), s)"
      "get_session_keys now code (redact s) = (Some (redact_keys (keys a)), redact s)"
  | (gone) s' where "get_session_keys now code s = (None, s')"
      "get_session_keys now code (redact s) = (None, redact s')"
proof (cases now code s rule: get_session_cases)
  case (live a)
  then show ?thesis
    by (intro that(1) [of a]) (simp_all add: get_session_keys_def get_session_redact)
next
  case (expired a)
  then show ?thesis
    by (intro that(2) [of "AList.delete code s"])
       (simp_all add: get_session_keys_def get_session_redact)
next
  case absent
  then show ?thesis
    by (intro that(2) [of s]) (simp_all add: get_session_keys_def get_session_redact)
qed

lemma word_info_blind:
  assumes "key_blind_fetch fetch"
  shows "get_word_info_from_ai fetch json_object_in w target (blank key) provider =
         get_word_info_from_ai fetch json_object_in w target key provider"
  by (simp add: get_word_info_from_ai_def chat_call_def blind_builders [OF assms] Let_def)

lemma word_image_blind:
  assumes "key_blind_fetch fetch"
  shows "generate_word_image_gemini fetch w explanation (blank key) =
         generate_word_image_gemini fetch w explanation key"
  by (simp add: generate_word_image_gemini_def blind_builders [OF assms])

lemma redact_word_info:
  assumes "key_blind_fetch fetch" "key_blind_fetch fetch_image"
  shows "get_word_info re_clean fetch json_object_in fetch_image py_repr now w code target (redact s) =
     (fst (get_word_info re_clean fetch json_object_in fetch_image py_repr now w code target s),
      redact (snd (get_word_info re_clean fetch json_object_in fetch_image py_repr now w code target s)))"
proof (cases "code = []")
  case True
  then show ?thesis
    by (simp add: get_word_info_def Let_def)
next
  case False
  then show ?thesis
    by (cases now code s rule: get_session_cases)
       (simp_all add: get_word_info_def Let_def get_session_redact
          word_info_blind [OF assms(1)] word_image_blind [OF assms(2)] split: option.splits)
qed

lemma simplify_blind:
  assumes "key_blind_fetch fetch"
  shows "simplify_text_with_ai fetch txt lvl (blank key) provider =
         simplify_text_with_ai fetch txt lvl key provider"
  by (simp add: simplify_text_with_ai_def chat_call_def blind_builders [OF assms]
      split: option.splits)

lemma redact_simplify:
  assumes "key_blind_fetch fetch"
  shows "simplify_text fetch now txt lvl code (redact s) =
     (fst (simplify_text fetch now txt lvl code s),
      redact (snd (simplify_text fetch now txt lvl code s)))"
proof (cases "code = []")
  case True
  then show ?thesis
    by (simp add: simplify_text_def)
next
  case False
  then show ?thesis
    by (cases now code s rule: get_session_cases)
       (simp_all add: simplify_text_def get_session_redact simplify_blind [OF assms]
          split: sum.splits)
qed

lemma tasks_blind:
  assumes "key_blind_fetch fetch"
  shows "generate_tasks fetch json_array_in txt (blank key) provider =
         generate_tasks fetch json_array_in txt key provider"
  by (simp add: generate_tasks_def chat_call_def blind_builders [OF assms])

lemma redact_tasks:
  assumes "key_blind_fetch fetch"
  shows "api_generate_tasks fetch json_array_in now txt code (redact s) =
     (fst (api_generate_tasks fetch json_array_in now txt code s),
      redact (snd (api_generate_tasks fetch json_array_in now txt code s)))"
  by (rule get_session_keys_cases [where s = s and code = code and now = now])
     (simp_all add: api_generate_tasks_def tasks_blind [OF assms] split: sum.splits)

lemma redact_qr:
  "api_session_qr qr_png host_url now code (redact s) =
     (fst (api_session_qr qr_png host_url now code s),
      redact (snd (api_session_qr qr_png host_url now code s)))"
  by (cases now code s rule: get_session_cases)
     (simp_all add: api_session_qr_def get_session_redact)

lemma redact_tts:
  assumes "key_blind_fetch fetch"
  shows "proxy_tts md5 fetch py_repr now txt code kf vf lf mf cache (redact s) =
     (fst (proxy_tts md5 fetch py_repr now txt code kf vf lf mf cache s),
      fst (snd (proxy_tts md5 fetch py_repr now txt code kf vf lf mf cache s)),
      redact (snd (snd (proxy_tts md5 fetch py_repr now txt code kf vf lf mf cache s))))"
proof (cases "code = []")
  case True
  then show ?thesis
    by (simp add: proxy_tts_def Let_def split: sum.splits prod.splits reply.splits)
next
  case False
  show ?thesis
    by (rule get_session_keys_cases [where s = s and code = code and now = now])
       (use False in \<open>simp_all add: proxy_tts_def Let_def blind_record [OF assms]
          split: sum.splits prod.splits reply.splits\<close>)
qed

lemma vision_blind:
  assumes "key_blind_fetch fetch"
  shows "call_openai_vision fetch (blank key) p i m = call_openai_vision fetch key p i m"
    and "call_anthropic_vision fetch (blank key) p i m = call_anthropic_vision fetch key p i m"
    and "call_google_vision fetch (blank key) p i m = call_google_vision fetch key p i m"
  by (simp_all add: call_openai_vision_def call_anthropic_vision_def call_google_vision_def
      blind_builders [OF assms])

lemma text_blind:
  assumes "key_blind_fetch fetch"
  shows "call_openai_text fetch (blank key) p u = call_openai_text fetch key p u"
    and "call_anthropic_text fetch (blank key) p u = call_anthropic_text fetch key p u"
    and "call_google_text fetch (blank key) p u = call_google_text fetch key p u"
  by (simp_all add: call_openai_text_def call_anthropic_text_def call_google_text_def
      blind_builders [OF assms])

lemma truthy_blank [simp]: "truthy (Some (blank key)) = truthy (Some key)"
  by (simp add: truthy_def)

lemma redact_ocr:
  assumes "key_blind_fetch fetch"
  shows "ocr_image fetch strip now img mime code kf pf (redact s) =
     (fst (ocr_image fetch strip now img mime code kf pf s),
      redact (snd (ocr_image fetch strip now img mime code kf pf s)))"
proof (cases "code = []")
  case True
  then show ?thesis
    by (simp add: ocr_image_def Let_def split: sum.splits)
next
  case False
  show ?thesis
    by (rule get_session_keys_cases [where s = s and code = code and now = now])
       (use False in \<open>simp_all add: ocr_image_def Let_def vision_blind [OF assms] split: sum.splits\<close>)
qed

lemma redact_translate:
  assumes "key_blind_fetch fetch"
  shows "proxy_translate md5 fetch now txt lf code kf pf cache (redact s) =
     (fst (proxy_translate md5 fetch now txt lf code kf pf cache s),
      fst (snd (proxy_translate md5 fetch now txt lf code kf pf cache s)),
      redact (snd (snd (proxy_translate md5 fetch now txt lf code kf pf cache s))))"
proof (cases "code = []")
  case True
  then show ?thesis
    by (simp add: proxy_translate_def Let_def split: sum.splits prod.splits)
next
  case False
  show ?thesis
    by (rule get_session_keys_cases [where s = s and code = code and now = now])
       (use False in \<open>simp_all add: proxy_translate_def Let_def text_blind [OF assms]
          split: sum.splits prod.splits\<close>)
qed

lemma transcribe_blind:
  assumes "key_blind_fetch fetch"
  shows "transcribe_with_whisper fetch (blank key) audio lang =
         transcribe_with_whisper fetch key audio lang"
    and "transcribe_with_gemini b64 fetch (blank key) audio lang =
         transcribe_with_gemini b64 fetch key audio lang"
  by (simp_all add: transcribe_with_whisper_def transcribe_with_gemini_def
      blind_builders [OF assms] blind_record [OF assms])

lemma redact_speech:
  assumes "key_blind_fetch fetch"
  shows "proxy_speech_to_text b64 fetch now audio code kf pf lf (redact s) =
     (fst (proxy_speech_to_text b64 fetch now audio code kf pf lf s),
      redact (snd (proxy_speech_to_text b64 fetch now audio code kf pf lf s)))"
proof (cases "code = []")
  case True
  then show ?thesis
    by (simp add: proxy_speech_to_text_def Let_def split: sum.splits)
next
  case False
  show ?thesis
    by (rule get_session_keys_cases [where s = s and code = code and now = now])
       (use False in \<open>simp_all add: proxy_speech_to_text_def Let_def transcribe_blind [OF assms]
          split: sum.splits\<close>)
qed

lemma redact_scribe:
  assumes "key_blind_fetch fetch"
  shows "proxy_speech_to_text_scribe fetch py_repr ae se now audio code kf lf (redact s) =
     (fst (proxy_speech_to_text_scribe fetch py_repr ae se now audio code kf lf s),
      redact (snd (proxy_speech_to_text_scribe fetch py_repr ae se now audio code kf lf s)))"
proof (cases "code = []")
  case True
  then show ?thesis
    by (simp add: proxy_speech_to_text_scribe_def Let_def
        split: sum.splits reply.splits json.splits)
next
  case False
  show ?thesis
    by (rule get_session_keys_cases [where s = s and code = code and now = now])
       (use False in \<open>simp_all add: proxy_speech_to_text_scribe_def Let_def blind_record [OF assms]
          split: sum.splits reply.splits json.splits\<close>)
qed


subsection \<open>Two servers with the same redaction\<close>

lemma low_pair:
  assumes "\<And>s. f (redact s) = (fst (f s), redact (snd (f s)))" "redact s1 = redact s2"
  shows "fst (f s1) = fst (f s2)" "redact (snd (f s1)) = redact (snd (f s2))"
proof -
  have "(fst (f s1), redact (snd (f s1))) = (fst (f s2), redact (snd (f s2)))"
    using assms(1) [of s1] assms(1) [of s2] assms(2) by simp
  then show "fst (f s1) = fst (f s2)" "redact (snd (f s1)) = redact (snd (f s2))"
    by simp_all
qed

lemma low_triple:
  assumes "\<And>s. f (redact s) = (fst (f s), fst (snd (f s)), redact (snd (snd (f s))))"
    "redact s1 = redact s2"
  shows "fst (f s1) = fst (f s2)" "fst (snd (f s1)) = fst (snd (f s2))"
    "redact (snd (snd (f s1))) = redact (snd (snd (f s2)))"
proof -
  have "(fst (f s1), fst (snd (f s1)), redact (snd (snd (f s1)))) =
        (fst (f s2), fst (snd (f s2)), redact (snd (snd (f s2))))"
    using assms(1) [of s1] assms(1) [of s2] assms(2) by simp
  then show "fst (f s1) = fst (f s2)" "fst (snd (f s1)) = fst (snd (f s2))"
    "redact (snd (snd (f s1))) = redact (snd (snd (f s2)))"
    by simp_all
qed

lemma same_served_Some [simp]:
  "same_served (Some (outs1, c1, d1, pos1, t1)) (Some (outs2, c2, d2, pos2, t2)) \<longleftrightarrow>
     outs1 = outs2 \<and> c1 = c2 \<and> d1 = d2 \<and> pos1 = pos2 \<and> redact t1 = redact t2"
  by (simp add: same_served_def)

lemma same_served_None [simp]:
  "same_served None None" "\<not> same_served None (Some b)" "\<not> same_served (Some a) None"
  by (simp_all add: same_served_def split: prod.splits)

lemma same_served_cases:
  assumes "same_served r1 r2"
  obtains (never) "r1 = None" "r2 = None"
  | (returns) outs c d pos t1 t2 where "r1 = Some (outs, c, d, pos, t1)"
      "r2 = Some (outs, c, d, pos, t2)" "redact t1 = redact t2"
proof (cases r1)
  case None
  with assms have "r2 = None" by (cases r2) simp_all
  with None show ?thesis by (rule never)
next
  case (Some a)
  obtain outs c d pos t1 where a: "a = (outs, c, d, pos, t1)" by (cases a) auto
  from assms Some obtain b where b: "r2 = Some b" by (cases r2) simp_all
  obtain outs' c' d' pos' t2 where b': "b = (outs', c', d', pos', t2)" by (cases b) auto
  from assms Some a b b' have "outs' = outs" "c' = c" "d' = d" "pos' = pos"
    "redact t1 = redact t2"
    by simp_all
  with Some a b b' show ?thesis
    by (intro returns [of outs c d pos t1 t2]) simp_all
qed

lemma serve_pair:
  assumes "fst (f s1) = fst (f s2)" "redact (snd (f s1)) = redact (snd (f s2))"
  shows "same_served (let (outs, sessions') = f s1 in Some (outs, c, d, pos, sessions'))
           (let (outs, sessions') = f s2 in Some (outs, c, d, pos, sessions'))"
  using assms by (cases "f s1"; cases "f s2") simp

lemma serve_low:
  assumes "redact_request_of r1 = redact_request_of r2" "key_blind_request r1"
    "redact s1 = redact s2"
  shows "same_served (serve draw r1 (c, d, pos, s1)) (serve draw r2 (c, d, pos, s2))"
proof (cases r1)
  case (Session x)
  with assms(1) obtain y where r2: "r2 = Session y" and xy: "redact_op x = redact_op y"
    by (cases r2) simp_all
  from assms(2) Session have "key_blind_op x" by simp
  from step_low [OF xy this assms(3), of draw pos] show ?thesis
    by (cases rule: same_payloads_cases) (simp_all add: Session r2)
next
  case (Page p)
  with assms show ?thesis by (cases r2) simp_all
next
  case (Connect sid)
  with assms show ?thesis by (cases r2) simp_all
next
  case (SessionQr qr_png host_url now code)
  with assms(1) have r2: "r2 = r1" by (cases r2) simp_all
  from low_pair [where f = "api_session_qr qr_png host_url now code", OF redact_qr assms(3)]
  show ?thesis
    unfolding r2 SessionQr serve.simps by (rule serve_pair)
next
  case (WordInfo re_clean fetch json_object_in fetch_image py_repr now w code target)
  with assms(1) have r2: "r2 = r1" by (cases r2) simp_all
  from assms(2) WordInfo have kb: "key_blind_fetch fetch" "key_blind_fetch fetch_image"
    by simp_all
  from low_pair [where f = "get_word_info re_clean fetch json_object_in fetch_image py_repr now w
      code target", OF redact_word_info [OF kb] assms(3)]
  show ?thesis
    unfolding r2 WordInfo serve.simps by (rule serve_pair)
next
  case (SimplifyText fetch now tx lvl code)
  with assms(1) have r2: "r2 = r1" by (cases r2) simp_all
  from assms(2) SimplifyText have kb: "key_blind_fetch fetch" by simp
  from low_pair [where f = "simplify_text fetch now tx lvl code", OF redact_simplify [OF kb]
      assms(3)]
  show ?thesis
    unfolding r2 SimplifyText serve.simps by (rule serve_pair)
next
  case (ExtractText a1 a2 a3 a4 a5 a6 a7 a8)
  with assms show ?thesis by (cases r2) simp_all
next
  case (GenerateTasks fetch json_array_in now tx code)
  with assms(1) have r2: "r2 = r1" by (cases r2) simp_all
  from assms(2) GenerateTasks have kb: "key_blind_fetch fetch" by simp
  from low_pair [where f = "api_generate_tasks fetch json_array_in now tx code",
      OF redact_tasks [OF kb] assms(3)]
  show ?thesis
    unfolding r2 GenerateTasks serve.simps by (rule serve_pair)
next
  case (Tts md5 fetch py_repr now tx code kf vf lf mf)
  with assms(1) have r2: "r2 = r1" by (cases r2) simp_all
  from assms(2) Tts have kb: "key_blind_fetch fetch" by simp
  from low_triple [where f = "proxy_tts md5 fetch py_repr now tx code kf vf lf mf c",
      OF redact_tts [OF kb] assms(3)]
  show ?thesis
    unfolding r2 Tts serve.simps
    by (cases "proxy_tts md5 fetch py_repr now tx code kf vf lf mf c s1";
        cases "proxy_tts md5 fetch py_repr now tx code kf vf lf mf c s2") simp
next
  case (Ocr fetch strip now img mime code kf pf)
  with assms(1) have r2: "r2 = r1" by (cases r2) simp_all
  from assms(2) Ocr have kb: "key_blind_fetch fetch" by simp
  from low_pair [where f = "ocr_image fetch strip now img mime code kf pf",
      OF redact_ocr [OF kb] assms(3)]
  show ?thesis
    unfolding r2 Ocr serve.simps by (rule serve_pair)
next
  case (Translate md5 fetch now tx lf code kf pf)
  with assms(1) have r2: "r2 = r1" by (cases r2) simp_all
  from assms(2) Translate have kb: "key_blind_fetch fetch" by simp
  from low_triple [where f = "proxy_translate md5 fetch now tx lf code kf pf d",
      OF redact_translate [OF kb] assms(3)]
  show ?thesis
    unfolding r2 Translate serve.simps
    by (cases "proxy_translate md5 fetch now tx lf code kf pf d s1";
        cases "proxy_translate md5 fetch now tx lf code kf pf d s2") simp
next
  case (SpeechToText b64 fetch now audio code kf pf lf)
  with assms(1) have r2: "r2 = r1" by (cases r2) simp_all
  from assms(2) SpeechToText have kb: "key_blind_fetch fetch" by simp
  from low_pair [where f = "proxy_speech_to_text b64 fetch now audio code kf pf lf",
      OF redact_speech [OF kb] assms(3)]
  show ?thesis
    unfolding r2 SpeechToText serve.simps by (rule serve_pair)
next
  case (Scribe fetch py_repr ae se now audio code kf lf)
  with assms(1) have r2: "r2 = r1" by (cases r2) simp_all
  from assms(2) Scribe have kb: "key_blind_fetch fetch" by simp
  from low_pair [where f = "proxy_speech_to_text_scribe fetch py_repr ae se now audio code kf lf",
      OF redact_scribe [OF kb] assms(3)]
  show ?thesis
    unfolding r2 Scribe serve.simps by (rule serve_pair)
next
  case CacheStats
  with assms(1) have r2: "r2 = r1" by (cases r2) simp_all
  from assms(3) have "length s1 = length s2"
    by (metis length_map redact_def)
  with assms(3) show ?thesis
    by (simp add: r2 CacheStats cache_stats_def)
qed

lemma serve_all_low:
  "map redact_request_of rs = map redact_request_of rs' \<Longrightarrow> list_all key_blind_request rs \<Longrightarrow>
   redact s1 = redact s2 \<Longrightarrow>
   same_served (serve_all draw rs (c, d, pos, s1)) (serve_all draw rs' (c, d, pos, s2))"
proof (induction rs arbitrary: rs' c d pos s1 s2)
  case Nil
  then show ?case by simp
next
  case (Cons r rs)
  from Cons.prems(1) obtain r' rs2 where rs': "rs' = r' # rs2"
    and rr: "redact_request_of r = redact_request_of r'"
    and rest: "map redact_request_of rs = map redact_request_of rs2"
    by (cases rs') auto
  from Cons.prems(2) have br: "key_blind_request r" and bs: "list_all key_blind_request rs"
    by simp_all
  from serve_low [OF rr br Cons.prems(3), of draw c d pos] show ?case
  proof (cases rule: same_served_cases)
    case never
    then show ?thesis
      by (simp add: rs')
  next
    case (returns outs c' d' p t1 t2)
    note first = returns
    from Cons.IH [OF rest bs first(3), of c' d' p] show ?thesis
    proof (cases rule: same_served_cases)
      case never
      with first show ?thesis
        by (simp add: rs')
    next
      case (returns outs' c'' d'' p' u1 u2)
      with first show ?thesis
        by (simp add: rs')
    qed
  qed
qed

lemma approve_failed:
  assumes "map_of s1 code = Some s" "now < expires s" "teacher_sid s = Some sid"
    and "map_of (translation_requests s) student_sid = Some req"
    and "session_text s \<noteq> []" "ai (keys s) \<noteq> []" "st \<noteq> 200"
  shows "handle_teacher_approve_translation (\<lambda>call. Answer st body) now sid code student_sid layout s1 =
     ([session_error ([CHR 0xC3, CHR 0x9C] @ ''bersetzungsfehler: '' @
                      translation_failed (ai_provider (keys s)))], s1)"
  using assms
  by (simp add: handle_teacher_approve_translation_def get_session_def
      translate_text_with_ai_def read_answer_def)

lemma approve_no_key:
  assumes "map_of s1 code = Some s" "now < expires s" "teacher_sid s = Some sid"
    and "map_of (translation_requests s) student_sid = Some req"
    and "session_text s \<noteq> []" "ai (keys s) = []"
  shows "fst (handle_teacher_approve_translation post now sid code student_sid layout s1) =
     [SocketioEmit ''translation_approved''
        (JObj [(''language'', JStr (language req)),
               (''translated_text'', JNull),
               (''layout'', JStr layout),
               (''message'',
                  JStr ([CHR 0xC3, CHR 0x9C] @ ''bersetzung genehmigt, aber kein AI-Key f'' @
                        [CHR 0xC3, CHR 0xBC] @ ''r automatische '' @
                        [CHR 0xC3, CHR 0x9C] @ ''bersetzung konfiguriert.''))])
        student_sid]"
  using assms
  by (simp add: handle_teacher_approve_translation_def get_session_def)

lemma serve_all_sessions:
  "serve_all draw (map Session ops @ rs) (c, d, pos, s) =
     (case run draw ops (pos, s) of
        None \<Rightarrow> None
      | Some (outs, pos', s') \<Rightarrow>
          (case serve_all draw rs (c, d, pos', s') of
             None \<Rightarrow> None
           | Some (outs', server) \<Rightarrow> Some (outs @ outs', server)))"
proof (induction ops arbitrary: pos s)
  case Nil
  show ?case
    by (simp split: option.splits)
next
  case (Cons x ops)
  show ?case
    by (simp add: Cons.IH split: option.splits prod.splits)
qed

text \<open>
  C2, as the code has it.  Take two registries with the same redaction, and two sequences
  of requests with the same redaction: the same sessions and the same requests but for
  the values of the API keys, those stored and those that requests to create a session
  bring, each key set in both or in neither.  The requests are any the server takes: the
  session API, the socket events, the pages, and the routes that work for a session with
  its keys (QR code, word information, simplification, tasks, speech, OCR, translation,
  transcription, cache statistics).  When every provider is blind to the key, the two
  sequences send the same responses and broadcasts, leave the same caches, and leave
  registries with the same redaction: no payload, no cache key and no cached value
  depends on the value of an API key.  What a provider gives is forwarded as it comes, its
  answer to the client and the text of its exception in the error; a provider that is not
  blind to the key is left aside.  Payloads show whether each key is set: the settings
  route says whether the ElevenLabs key is, and an approved translation is sent with a
  notice when the AI key is not.  The identifiers of the bundle are shown: the settings
  route returns the voice and the speech-to-text provider, and when the translation
  provider answers an approved request with a status other than 200, the teacher is sent
  an error that names the AI provider.
\<close>

theorem api_keys_not_in_payloads:
  assumes "redact s1 = redact s2"
    and "map redact_request_of rs1 = map redact_request_of rs2"
    and "list_all key_blind_request rs1"
  shows "same_served (serve_all draw rs1 (tts_cache, translation_cache, pos, s1))
           (serve_all draw rs2 (tts_cache, translation_cache, pos, s2)) \<and>
         (\<forall>s. map_of s1 code = Some s \<and> now < expires s \<longrightarrow>
            fst (api_session_settings now code s1) =
              [Response (JObj [(''code'', JStr code),
                               (''stt_provider'', JStr (py_get ''browser'' (stt_provider (keys s)))),
                               (''voice_id'', JStr (voice_id (keys s))),
                               (''has_elevenlabs'', JBool (elevenlabs (keys s) \<noteq> []))]) 200]) \<and>
         (\<forall>s req. map_of s1 code = Some s \<and> now < expires s \<and> teacher_sid s = Some sid \<and>
            map_of (translation_requests s) student_sid = Some req \<and>
            session_text s \<noteq> [] \<and> ai (keys s) \<noteq> [] \<and> st \<noteq> 200 \<longrightarrow>
            handle_teacher_approve_translation (\<lambda>call. Answer st body)
                now sid code student_sid layout s1 =
              ([session_error ([CHR 0xC3, CHR 0x9C] @ ''bersetzungsfehler: '' @
                               translation_failed (ai_provider (keys s)))], s1)) \<and>
         (\<forall>s req post. map_of s1 code = Some s \<and> now < expires s \<and> teacher_sid s = Some sid \<and>
            map_of (translation_requests s) student_sid = Some req \<and>
            session_text s \<noteq> [] \<and> ai (keys s) = [] \<longrightarrow>
            fst (handle_teacher_approve_translation post now sid code student_sid layout s1) =
              [SocketioEmit ''translation_approved''
                 (JObj [(''language'', JStr (language req)),
                        (''translated_text'', JNull),
                        (''layout'', JStr layout),
                        (''message'',
                           JStr ([CHR 0xC3, CHR 0x9C] @ ''bersetzung genehmigt, aber kein AI-Key f'' @
                                 [CHR 0xC3, CHR 0xBC] @ ''r automatische '' @
                                 [CHR 0xC3, CHR 0x9C] @ ''bersetzung konfiguriert.''))])
                 student_sid])"
proof -
  have "fst (api_session_settings now code s1) =
              [Response (JObj [(''code'', JStr code),
                               (''stt_provider'', JStr (py_get ''browser'' (stt_provider (keys s)))),
                               (''voice_id'', JStr (voice_id (keys s))),
                               (''has_elevenlabs'', JBool (elevenlabs (keys s) \<noteq> []))]) 200]"
    if "map_of s1 code = Some s" "now < expires s" for s
    using that by (simp add: api_session_settings_def get_session_def)
  with serve_all_low [OF assms(2,3,1), of draw tts_cache translation_cache pos]
    approve_failed [of s1 code _ now sid student_sid _ st body layout]
    approve_no_key [of s1 code _ now sid student_sid _ _ layout]
  show ?thesis
    by blast
qed

lemma redact_example_other:
  "redact [(''ABC234'', example_session)] =
   redact [(''ABC234'', example_session\<lparr>keys := other_keys\<rparr>)]"
  by (simp add: redact_session_def redact_keys_def example_session_def new_session_def
      example_keys_def other_keys_def blank_def)

lemma example_session_fields:
  "expires example_session = 10800000000" "teacher_sid example_session = Some ''T''"
  "keys example_session = example_keys" "session_text example_session = ''Hallo''"
  "created example_session = 0" "students example_session = []"
  "map_of (translation_requests example_session) ''S1'' =
     Some \<lparr> language = ''en'', language_name = ''Englisch'', status = ''pending'',
            tr_anonymous_id = ''Fuchs'', requested_at = 0, translated_text = None \<rparr>"
  by (simp_all add: example_session_def new_session_def timedelta_hours_def SESSION_TIMEOUT_HOURS_def)

lemma generate_example:
  "generate_session_code repeat_draw 0 [(''ABC234'', s)] = Some (''AAAAAA'', 6)"
  by (subst generate_session_code.simps) (simp add: attempt_repeat_draw SESSION_CODE_LENGTH_def)

lemma payloads_example:
  "run repeat_draw
     [ApiSessionSettings 1 ''ABC234'',
      TeacherApproveTranslation failing_provider 2 ''T'' ''ABC234'' ''S1'' ''side-by-side'',
      TeacherCreateSession 3 4 ''T2'' example_request []]
     (0, [(''ABC234'', example_session)]) =
   Some ([Response (JObj [(''code'', JStr ''ABC234''),
                          (''stt_provider'', JStr ''scribe''),
                          (''voice_id'', JStr ''V1''),
                          (''has_elevenlabs'', JBool True)]) 200,
          session_error ([CHR 0xC3, CHR 0x9C] @ ''bersetzungsfehler: '' @ translation_failed ''openai''),
          Emit ''session_created''
            (JObj [(''code'', JStr ''AAAAAA''), (''expires'', JTime 10800000004),
                   (''has_pin'', JBool False)])],
         6, [(''ABC234'', example_session),
             (''AAAAAA'', new_session (Some ''T2'') example_keys '''' 3 4)])"
  apply (simp add: api_session_settings_def handle_teacher_approve_translation_def
      get_session_def example_session_fields example_keys_def py_get_def
      translate_text_with_ai_def read_answer_def failing_provider_def Let_def)
  apply (simp add: handle_teacher_create_session_def example_request_def py_get_def Let_def)
  apply (simp add: create_session_def)
  apply (simp add: generate_example)
  apply (simp add: new_session_def example_keys_def timedelta_hours_def SESSION_TIMEOUT_HOURS_def)
  done

lemma translate_example:
  "proxy_translate plain_digest answering_fetch 5 (Some ''Hallo'') (Some ''en'') ''ABC234'' None None
     [] ((''ABC234'', example_session) # rest) =
   ([Response (JObj [(''translated_text'', JStr ''Hello'')]) 200],
    [(''Hallo|en'', JStr ''Hello'')],
    (''ABC234'', example_session) # rest)"
  by (simp add: proxy_translate_def Let_def py_get_def truthy_def get_session_keys_def
      get_session_def example_session_fields example_keys_def get_translation_cache_key_def
      plain_digest_def get_from_translation_cache_def add_to_translation_cache_def
      MAX_TRANSLATION_CACHE_SIZE_def call_openai_text_def raise_for_status_def
      answering_fetch_def)

lemma served_example:
  "serve_all repeat_draw
     (map Session
        [ApiSessionSettings 1 ''ABC234'',
         TeacherApproveTranslation failing_provider 2 ''T'' ''ABC234'' ''S1'' ''side-by-side'',
         TeacherCreateSession 3 4 ''T2'' example_request []] @
      [Translate plain_digest answering_fetch 5 (Some ''Hallo'') (Some ''en'') ''ABC234'' None None])
     ([], [], 0, [(''ABC234'', example_session)]) =
   Some ([Response (JObj [(''code'', JStr ''ABC234''),
                          (''stt_provider'', JStr ''scribe''),
                          (''voice_id'', JStr ''V1''),
                          (''has_elevenlabs'', JBool True)]) 200,
          session_error ([CHR 0xC3, CHR 0x9C] @ ''bersetzungsfehler: '' @ translation_failed ''openai''),
          Emit ''session_created''
            (JObj [(''code'', JStr ''AAAAAA''), (''expires'', JTime 10800000004),
                   (''has_pin'', JBool False)]),
          Response (JObj [(''translated_text'', JStr ''Hello'')]) 200],
         [], [(''Hallo|en'', JStr ''Hello'')], 6,
         [(''ABC234'', example_session),
          (''AAAAAA'', new_session (Some ''T2'') example_keys '''' 3 4)])"
  unfolding serve_all_sessions payloads_example
  by (simp add: translate_example)

theorem api_keys_not_in_payloads_witness:
  "redact [(''ABC234'', example_session)] =
     redact [(''ABC234'', example_session\<lparr>keys := other_keys\<rparr>)] \<and>
   map redact_request_of
     (map Session
        [ApiSessionSettings 1 ''ABC234'',
         TeacherApproveTranslation failing_provider 2 ''T'' ''ABC234'' ''S1'' ''side-by-side'',
         TeacherCreateSession 3 4 ''T2'' example_request []] @
      [Translate plain_digest answering_fetch 5 (Some ''Hallo'') (Some ''en'') ''ABC234'' None None]) =
   map redact_request_of
     (map Session
        [ApiSessionSettings 1 ''ABC234'',
         TeacherApproveTranslation failing_provider 2 ''T'' ''ABC234'' ''S1'' ''side-by-side'',
         TeacherCreateSession 3 4 ''T2'' other_request []] @
      [Translate plain_digest answering_fetch 5 (Some ''Hallo'') (Some ''en'') ''ABC234'' None None]) \<and>
   list_all key_blind_request
     (map Session
        [ApiSessionSettings 1 ''ABC234'',
         TeacherApproveTranslation failing_provider 2 ''T'' ''ABC234'' ''S1'' ''side-by-side'',
         TeacherCreateSession 3 4 ''T2'' example_request []] @
      [Translate plain_digest answering_fetch 5 (Some ''Hallo'') (Some ''en'') ''ABC234'' None None]) \<and>
   elevenlabs example_keys \<noteq> elevenlabs other_keys \<and> ai example_keys \<noteq> ai other_keys \<and>
   elevenlabs_key example_request \<noteq> elevenlabs_key other_request \<and>
   ai_key example_request \<noteq> ai_key other_request \<and>
   (\<exists>t. serve_all repeat_draw
           (map Session
              [ApiSessionSettings 1 ''ABC234'',
               TeacherApproveTranslation failing_provider 2 ''T'' ''ABC234'' ''S1'' ''side-by-side'',
               TeacherCreateSession 3 4 ''T2'' other_request []] @
            [Translate plain_digest answering_fetch 5 (Some ''Hallo'') (Some ''en'') ''ABC234''
               None None])
           ([], [], 0, [(''ABC234'', example_session\<lparr>keys := other_keys\<rparr>)]) =
        Some ([Response (JObj [(''code'', JStr ''ABC234''),
                               (''stt_provider'', JStr ''scribe''),
                               (''voice_id'', JStr ''V1''),
                               (''has_elevenlabs'', JBool True)]) 200,
               session_error ([CHR 0xC3, CHR 0x9C] @ ''bersetzungsfehler: '' @
                              translation_failed ''openai''),
               Emit ''session_created''
                 (JObj [(''code'', JStr ''AAAAAA''), (''expires'', JTime 10800000004),
                        (''has_pin'', JBool False)]),
               Response (JObj [(''translated_text'', JStr ''Hello'')]) 200],
              [], [(''Hallo|en'', JStr ''Hello'')], 6, t)) \<and>
   fst (api_session_settings 1 ''ABC234'' [(''ABC234'', example_session)]) =
     [Response (JObj [(''code'', JStr ''ABC234''),
                      (''stt_provider'', JStr ''scribe''),
                      (''voice_id'', JStr ''V1''),
                      (''has_elevenlabs'', JBool True)]) 200] \<and>
   handle_teacher_approve_translation (\<lambda>call. Answer 500 (Inl []))
       1 ''T'' ''ABC234'' ''S1'' ''side-by-side'' [(''ABC234'', example_session)] =
     ([session_error ([CHR 0xC3, CHR 0x9C] @ ''bersetzungsfehler: '' @ translation_failed ''openai'')],
      [(''ABC234'', example_session)]) \<and>
   ai (keys keyless_session) = [] \<and>
   fst (handle_teacher_approve_translation failing_provider
          1 ''T'' ''ABC234'' ''S1'' ''side-by-side'' [(''ABC234'', keyless_session)]) =
     [SocketioEmit ''translation_approved''
        (JObj [(''language'', JStr ''en''),
               (''translated_text'', JNull),
               (''layout'', JStr ''side-by-side''),
               (''message'',
                  JStr ([CHR 0xC3, CHR 0x9C] @ ''bersetzung genehmigt, aber kein AI-Key f'' @
                        [CHR 0xC3, CHR 0xBC] @ ''r automatische '' @
                        [CHR 0xC3, CHR 0x9C] @ ''bersetzung konfiguriert.''))])
        ''S1'']"
proof -
  let ?tr = "Translate plain_digest answering_fetch 5 (Some ''Hallo'') (Some ''en'') ''ABC234''
      None None"
  let ?rs1 = "map Session [ApiSessionSettings 1 ''ABC234'',
      TeacherApproveTranslation failing_provider 2 ''T'' ''ABC234'' ''S1'' ''side-by-side'',
      TeacherCreateSession 3 4 ''T2'' example_request []] @ [?tr]"
  let ?rs2 = "map Session [ApiSessionSettings 1 ''ABC234'',
      TeacherApproveTranslation failing_provider 2 ''T'' ''ABC234'' ''S1'' ''side-by-side'',
      TeacherCreateSession 3 4 ''T2'' other_request []] @ [?tr]"
  let ?s1 = "[(''ABC234'', example_session)]"
  let ?s2 = "[(''ABC234'', example_session\<lparr>keys := other_keys\<rparr>)]"
  have h1: "redact ?s1 = redact ?s2"
    by (rule redact_example_other)
  have h2: "map redact_request_of ?rs1 = map redact_request_of ?rs2"
    by (simp add: redact_request_def example_request_def other_request_def blank_def)
  have h3: "list_all key_blind_request ?rs1"
    by (simp add: key_blind_def failing_provider_def key_blind_fetch_def answering_fetch_def)
  have d: "elevenlabs example_keys \<noteq> elevenlabs other_keys" "ai example_keys \<noteq> ai other_keys"
    "elevenlabs_key example_request \<noteq> elevenlabs_key other_request"
    "ai_key example_request \<noteq> ai_key other_request"
    by (simp_all add: example_keys_def other_keys_def example_request_def other_request_def)
  note inst = api_keys_not_in_payloads [OF h1 h2 h3, of repeat_draw "[]" "[]" 0 "''ABC234''" 1
      "''T''" "''S1''" 500 "Inl []" "''side-by-side''"]
  note t = inst [THEN conjunct1]
  obtain r where r: "serve_all repeat_draw ?rs2 ([], [], 0, ?s2) = Some r"
    using t unfolding served_example
    by (cases "serve_all repeat_draw ?rs2 ([], [], 0, ?s2)") simp_all
  obtain outs c' d' p t2 where r': "r = (outs, c', d', p, t2)" by (cases r) auto
  from t r r' have 1: "\<exists>t. serve_all repeat_draw ?rs2 ([], [], 0, ?s2) =
        Some ([Response (JObj [(''code'', JStr ''ABC234''),
                               (''stt_provider'', JStr ''scribe''),
                               (''voice_id'', JStr ''V1''),
                               (''has_elevenlabs'', JBool True)]) 200,
               session_error ([CHR 0xC3, CHR 0x9C] @ ''bersetzungsfehler: '' @
                              translation_failed ''openai''),
               Emit ''session_created''
                 (JObj [(''code'', JStr ''AAAAAA''), (''expires'', JTime 10800000004),
                        (''has_pin'', JBool False)]),
               Response (JObj [(''translated_text'', JStr ''Hello'')]) 200],
              [], [(''Hallo|en'', JStr ''Hello'')], 6, t)"
    unfolding served_example by simp
  have m: "map_of ?s1 ''ABC234'' = Some example_session \<and> 1 < expires example_session"
    by (simp add: example_session_fields)
  from inst [THEN conjunct2, THEN conjunct1, rule_format, OF m]
  have 2: "fst (api_session_settings 1 ''ABC234'' ?s1) =
     [Response (JObj [(''code'', JStr ''ABC234''),
                      (''stt_provider'', JStr ''scribe''),
                      (''voice_id'', JStr ''V1''),
                      (''has_elevenlabs'', JBool True)]) 200]"
    by (simp add: example_session_fields example_keys_def py_get_def)
  have a: "map_of ?s1 ''ABC234'' = Some example_session \<and> 1 < expires example_session \<and>
     teacher_sid example_session = Some ''T'' \<and>
     map_of (translation_requests example_session) ''S1'' =
       Some \<lparr> language = ''en'', language_name = ''Englisch'', status = ''pending'',
              tr_anonymous_id = ''Fuchs'', requested_at = 0, translated_text = None \<rparr> \<and>
     session_text example_session \<noteq> [] \<and> ai (keys example_session) \<noteq> [] \<and> (500::nat) \<noteq> 200"
    by (simp add: example_session_fields example_keys_def)
  from inst [THEN conjunct2, THEN conjunct2, THEN conjunct1, rule_format, OF a]
  have 3: "handle_teacher_approve_translation (\<lambda>call. Answer 500 (Inl []))
       1 ''T'' ''ABC234'' ''S1'' ''side-by-side'' ?s1 =
     ([session_error ([CHR 0xC3, CHR 0x9C] @ ''bersetzungsfehler: '' @ translation_failed ''openai'')],
      ?s1)"
    by (simp add: example_session_fields example_keys_def)
  have k: "ai (keys keyless_session) = []"
    by (simp add: keyless_session_def)
  have b: "map_of [(''ABC234'', keyless_session)] ''ABC234'' = Some keyless_session \<and>
     1 < expires keyless_session \<and> teacher_sid keyless_session = Some ''T'' \<and>
     map_of (translation_requests keyless_session) ''S1'' =
       Some \<lparr> language = ''en'', language_name = ''Englisch'', status = ''pending'',
              tr_anonymous_id = ''Fuchs'', requested_at = 0, translated_text = None \<rparr> \<and>
     session_text keyless_session \<noteq> [] \<and> ai (keys keyless_session) = []"
    by (simp add: keyless_session_def example_session_fields)
  note inst' = api_keys_not_in_payloads [where ?s1.0 = "[(''ABC234'', keyless_session)]"
      and ?s2.0 = "[(''ABC234'', keyless_session)]" and ?rs1.0 = "[]" and ?rs2.0 = "[]"
      and code = "''ABC234''" and now = 1 and sid = "''T''" and student_sid = "''S1''"
      and layout = "''side-by-side''" and draw = repeat_draw and pos = 0
      and tts_cache = "[]" and translation_cache = "[]" and st = 500 and body = "Inl []"]
  have "redact [(''ABC234'', keyless_session)] = redact [(''ABC234'', keyless_session)] \<and>
     map redact_request_of [] = map redact_request_of [] \<and> list_all key_blind_request []"
    by simp
  then have all: "\<forall>s req post. map_of [(''ABC234'', keyless_session)] ''ABC234'' = Some s \<and>
            1 < expires s \<and> teacher_sid s = Some ''T'' \<and>
            map_of (translation_requests s) ''S1'' = Some req \<and>
            session_text s \<noteq> [] \<and> ai (keys s) = [] \<longrightarrow>
            fst (handle_teacher_approve_translation post 1 ''T'' ''ABC234'' ''S1'' ''side-by-side''
                   [(''ABC234'', keyless_session)]) =
              [SocketioEmit ''translation_approved''
                 (JObj [(''language'', JStr (language req)),
                        (''translated_text'', JNull),
                        (''layout'', JStr ''side-by-side''),
                        (''message'',
                           JStr ([CHR 0xC3, CHR 0x9C] @ ''bersetzung genehmigt, aber kein AI-Key f'' @
                                 [CHR 0xC3, CHR 0xBC] @ ''r automatische '' @
                                 [CHR 0xC3, CHR 0x9C] @ ''bersetzung konfiguriert.''))])
                 ''S1'']"
    using inst' by blast
  from all [rule_format, OF b, of failing_provider]
  have 4: "fst (handle_teacher_approve_translation failing_provider
          1 ''T'' ''ABC234'' ''S1'' ''side-by-side'' [(''ABC234'', keyless_session)]) =
     [SocketioEmit ''translation_approved''
        (JObj [(''language'', JStr ''en''),
               (''translated_text'', JNull),
               (''layout'', JStr ''side-by-side''),
               (''message'',
                  JStr ([CHR 0xC3, CHR 0x9C] @ ''bersetzung genehmigt, aber kein AI-Key f'' @
                        [CHR 0xC3, CHR 0xBC] @ ''r automatische '' @
                        [CHR 0xC3, CHR 0x9C] @ ''bersetzung konfiguriert.''))])
        ''S1'']"
    by simp
  from h1 h2 h3 d 1 2 3 k 4 show ?thesis
    by blast
qed

text \<open>
  C2, as it is stated, fails.  The settings route sends the voice and the speech-to-text
  provider of the bundle: here the voice \<^verbatim>\<open>V1\<close> and the provider \<^verbatim>\<open>scribe\<close> of the session are
  strings of the response.  The error sent to the teacher when the translation provider
  answers with status 500 names the AI provider \<^verbatim>\<open>openai\<close> of the bundle.  And with Google
  as the provider the key \<^verbatim>\<open>K2\<close> travels in the URL of the request: when the provider cannot
  be reached and the exception of the HTTP library quotes the URL, the error sent to the
  teacher ends with the key, and so does the response of the translation route to
  whoever calls it with the code of the session.
\<close>

theorem credential_bundle_counterexample:
  "voice_id (keys example_session) = ''V1'' \<and>
   stt_provider (keys example_session) = Some ''scribe'' \<and>
   ai_provider (keys example_session) = ''openai'' \<and>
   ''V1'' \<in> set (concat (map sent_strings
      (fst (api_session_settings 1 ''ABC234'' [(''ABC234'', example_session)])))) \<and>
   ''scribe'' \<in> set (concat (map sent_strings
      (fst (api_session_settings 1 ''ABC234'' [(''ABC234'', example_session)])))) \<and>
   fst (handle_teacher_approve_translation failing_provider
          1 ''T'' ''ABC234'' ''S1'' ''side-by-side'' [(''ABC234'', example_session)]) =
     [Emit ''session_error''
        (JObj [(''error'', JStr ([CHR 0xC3, CHR 0x9C] @ ''bersetzungsfehler: '' @
                                 [CHR 0xC3, CHR 0x9C] @ ''bersetzung fehlgeschlagen (openai)''))])] \<and>
   ai (keys google_session) = ''K2'' \<and>
   fst (handle_teacher_approve_translation unreachable_provider
          1 ''T'' ''ABC234'' ''S1'' ''side-by-side'' [(''ABC234'', google_session)]) =
     [Emit ''session_error''
        (JObj [(''error'', JStr ([CHR 0xC3, CHR 0x9C] @ ''bersetzungsfehler: '' @
                 ''Max retries exceeded with url: '' @
                 ''https://generativelanguage.googleapis.com/v1beta/models/'' @
                 ''gemini-2.0-flash:generateContent?key='' @ ''K2''))])] \<and>
   fst (proxy_translate plain_digest unreachable_fetch 1 (Some ''Hallo'') (Some ''en'') ''ABC234''
          None None [] [(''ABC234'', google_session)]) =
     [Response
        (JObj [(''error'', JStr (''Max retries exceeded with url: '' @
                 ''https://generativelanguage.googleapis.com/v1beta/models/'' @
                 ''gemini-2.0-flash:generateContent?key='' @ ''K2''))]) 500]"
  by (simp add: api_session_settings_def handle_teacher_approve_translation_def get_session_def
      example_session_fields example_keys_def py_get_def translate_text_with_ai_def
      read_answer_def failing_provider_def translation_failed_def session_error_def
      google_session_def unreachable_provider_def request_url_def Let_def
      proxy_translate_def truthy_def get_session_keys_def get_translation_cache_key_def
      plain_digest_def get_from_translation_cache_def call_google_text_def
      raise_for_status_def unreachable_fetch_def google_generate_def sent_url_def
      error_response_def)

section \<open>The owner of a session\<close>

text \<open>
  The socket events of the teacher test the connection: for a session that is there and
  not expired, a connection that is not its \<^verbatim>\<open>teacher_sid\<close> gets an error and nothing else
  is sent or changed.
\<close>

lemma owner_gate_rejects:
  assumes "map_of sessions code = Some s" "now < expires s" "teacher_sid s \<noteq> Some sid"
  shows "handle_teacher_end_session now sid code sessions =
           ([session_error ''Keine Berechtigung oder Session nicht gefunden''], sessions)"
    and "handle_teacher_update_settings now sid code v sessions =
           ([session_error ''Keine Berechtigung oder Session nicht gefunden''], sessions)"
    and "handle_teacher_release_tasks now sid code ts sessions =
           ([session_error ''Keine Berechtigung oder Session nicht gefunden''], sessions)"
    and "handle_teacher_approve_translation tr now sid code student_sid layout sessions =
           ([session_error ''Keine Berechtigung''], sessions)"
    and "handle_teacher_deny_translation now sid code student_sid sessions =
           ([session_error ''Keine Berechtigung''], sessions)"
    and "handle_teacher_toggle_simplification now sid code b sessions =
           ([session_error ''Keine Berechtigung''], sessions)"
  using assms
  by (simp_all add: handle_teacher_end_session_def handle_teacher_update_settings_def
      handle_teacher_release_tasks_def handle_teacher_approve_translation_def
      handle_teacher_deny_translation_def handle_teacher_toggle_simplification_def
      get_session_def)

text \<open>
  C1.  The two HTTP routes that change a session take no connection and test none.  On a
  session owned by the connection \<^verbatim>\<open>T\<close>, whoever posts to \<^verbatim>\<open>/api/session/set-text\<close> replaces the
  text and has it broadcast to the room, and whoever posts to \<^verbatim>\<open>/api/session/end\<close> deletes
  the session and has the end broadcast; both get a success.  The socket event
  \<^verbatim>\<open>teacher_end_session\<close> from the connection \<^verbatim>\<open>X\<close> is refused on the same session.
\<close>

theorem http_routes_skip_owner_check:
  "teacher_sid (new_session (Some ''T'') example_keys '''' 0 0) = Some ''T'' \<and>
   api_set_session_text ''ABC234'' ''Hallo'' [(''ABC234'', new_session (Some ''T'') example_keys '''' 0 0)] =
     ([SocketioEmit ''text_updated'' (JObj [(''text'', JStr ''Hallo'')]) ''ABC234'',
       Response (JObj [(''success'', JBool True)]) 200],
      [(''ABC234'', (new_session (Some ''T'') example_keys '''' 0 0)\<lparr>session_text := ''Hallo''\<rparr>)]) \<and>
   api_end_session ''ABC234'' [(''ABC234'', new_session (Some ''T'') example_keys '''' 0 0)] =
     ([SocketioEmit ''session_ended'' (JObj [(''message'', JStr ''Die Session wurde beendet.'')]) ''ABC234'',
       Response (JObj [(''success'', JBool True)]) 200],
      []) \<and>
   handle_teacher_end_session 1 ''X'' ''ABC234'' [(''ABC234'', new_session (Some ''T'') example_keys '''' 0 0)] =
     ([session_error ''Keine Berechtigung oder Session nicht gefunden''],
      [(''ABC234'', new_session (Some ''T'') example_keys '''' 0 0)])"
  by (simp add: api_set_session_text_def api_end_session_def end_session_def
      handle_teacher_end_session_def get_session_def new_session_def
      timedelta_hours_def SESSION_TIMEOUT_HOURS_def)

end
